(* ===== verification/Prelude.thy ===== *)
theory Prelude
  imports Main
begin

text \<open>
  Shared vocabulary of the development: the collections of evaluation rules, the
  decimal rendering and parsing of natural numbers that JavaScript performs when a
  number meets a string (\<open>'*/' + duration\<close>, array indices used as property
  names), and the loop combinator for JavaScript code that mutates a state and may
  throw in the middle of a loop: the exception carries the state reached when it
  was thrown, as the mutated arrays of the source do.
\<close>

named_theorems js_eval "rules that evaluate the JavaScript runtime helpers on literals"
named_theorems flatten_simps "rules of the aggregation flattener"

section \<open>Lists\<close>

lemma member_le_sum_list_map: "x \<in> set xs \<Longrightarrow> (f x :: nat) \<le> sum_list (map f xs)"
  by (induction xs) auto

lemma concat_map_drop_empty:
  "(\<And>x. x \<in> set ys \<Longrightarrow> g x = []) \<Longrightarrow> concat (map g (xs @ ys @ zs)) = concat (map g (xs @ zs))"
  by (induction ys) auto

lemma map_snd_zip_eq: "length xs = length ys \<Longrightarrow> map (\<lambda>p. f (snd p)) (zip xs ys) = map f ys"
  by (induction xs ys rule: list_induct2) auto

text \<open>Lists flattened from pieces of equal lengths are equal piecewise.\<close>

lemma concat_map_eq_pieces:
  assumes "\<And>x. x \<in> set xs \<Longrightarrow> length (f x) = length (g x)" and "concat (map f xs) = concat (map g xs)"
  shows "\<forall>x \<in> set xs. f x = g x"
  using assms
proof (induction xs)
  case (Cons x xs)
  then have "f x = g x \<and> concat (map f xs) = concat (map g xs)"
    by (simp add: append_eq_append_conv)
  with Cons show ?case by simp
qed simp

section \<open>Decimal numerals\<close>

text \<open>
  \<open>decimal n\<close> is JavaScript's \<open>String(n)\<close> for a non-negative integer:
  no sign, no leading zero. \<open>parse_decimal\<close> reads a non-empty string of digits.
\<close>

definition digit_char :: "nat \<Rightarrow> char" where
  "digit_char d = ''0123456789'' ! d"

fun decimal :: "nat \<Rightarrow> string" where
  "decimal n = (if n < 10 then [digit_char n] else decimal (n div 10) @ [digit_char (n mod 10)])"

definition digit_val :: "char \<Rightarrow> nat option" where
  "digit_val c = (let k = of_char c :: nat in if 48 \<le> k \<and> k < 58 then Some (k - 48) else None)"

fun parse_digits :: "nat \<Rightarrow> string \<Rightarrow> nat option" where
  "parse_digits acc [] = Some acc"
| "parse_digits acc (c # cs) =
     (case digit_val c of None \<Rightarrow> None | Some d \<Rightarrow> parse_digits (10 * acc + d) cs)"

definition parse_decimal :: "string \<Rightarrow> nat option" where
  "parse_decimal s = (if s = [] then None else parse_digits 0 s)"

declare decimal.simps [simp del]
declare digit_char_def [js_eval] digit_val_def [js_eval] parse_decimal_def [js_eval]

lemma digit_val_digit_char [simp]: "d < 10 \<Longrightarrow> digit_val (digit_char d) = Some d"
proof -
  assume "d < 10"
  then have "d \<in> {0, 1, 2, 3, 4, 5, 6, 7, 8, 9}" by auto
  then show ?thesis by (auto simp: digit_char_def digit_val_def)
qed

lemma decimal_small [js_eval]: "n < 10 \<Longrightarrow> decimal n = [digit_char n]"
  by (simp add: decimal.simps)

lemma decimal_not_Nil [simp]: "decimal n \<noteq> []"
  by (subst decimal.simps) simp

lemma parse_digits_snoc:
  "parse_digits acc (xs @ [c]) =
     (case parse_digits acc xs of None \<Rightarrow> None
      | Some a \<Rightarrow> (case digit_val c of None \<Rightarrow> None | Some d \<Rightarrow> Some (10 * a + d)))"
  by (induction xs arbitrary: acc) (auto split: option.splits)

lemma parse_digits_decimal:
  "parse_digits acc (decimal n) = Some (acc * 10 ^ length (decimal n) + n)"
proof (induction n arbitrary: acc rule: decimal.induct)
  case (1 n)
  show ?case
  proof (cases "n < 10")
    case True
    then show ?thesis by (simp add: decimal.simps)
  next
    case False
    let ?h = "decimal (n div 10)"
    have "parse_digits acc ?h = Some (acc * 10 ^ length ?h + n div 10)"
      using "1" False by simp
    moreover have "10 * (acc * 10 ^ length ?h + n div 10) + n mod 10
        = acc * 10 ^ Suc (length ?h) + n"
      by (simp add: algebra_simps)
    ultimately show ?thesis
      using False by (simp add: decimal.simps [of n] parse_digits_snoc)
  qed
qed

text \<open>Round trip: reading back the rendering of a number gives the number.\<close>

lemma parse_decimal_decimal [simp]: "parse_decimal (decimal n) = Some n"
  by (simp add: parse_decimal_def parse_digits_decimal)

lemma decimal_inj: "decimal m = decimal n \<Longrightarrow> m = n"
  by (metis option.inject parse_decimal_decimal)

lemma decimal_digits: "c \<in> set (decimal n) \<Longrightarrow> digit_val c \<noteq> None"
proof (induction n rule: decimal.induct)
  case (1 n)
  have dc: "\<And>d. d < 10 \<Longrightarrow> digit_val (digit_char d) \<noteq> None" by simp
  show ?case
  proof (cases "n < 10")
    case True
    with "1.prems" show ?thesis by (auto simp: decimal.simps intro: dc)
  next
    case False
    with "1.prems" "1.IH" show ?thesis by (auto simp: decimal.simps [of n] intro: dc)
  qed
qed

section \<open>Splitting strings\<close>

text \<open>JavaScript's \<open>s.split(c)\<close> for a one-character separator: the pieces between
  the separators, the empty ones included (\<open>''.split('-')\<close> is \<open>['']\<close>).\<close>

fun split_on :: "char \<Rightarrow> string \<Rightarrow> string list" where
  "split_on c [] = [[]]"
| "split_on c (x # xs) =
     (if x = c then [] # split_on c xs
      else (case split_on c xs of w # ws \<Rightarrow> (x # w) # ws | [] \<Rightarrow> [[x]]))"

lemma split_on_not_Nil [simp]: "split_on c s \<noteq> []"
  by (induction s) (auto split: list.split)

lemma split_on_nomem: "c \<notin> set w \<Longrightarrow> split_on c w = [w]"
  by (induction w) auto

lemma split_on_append_sep:
  "c \<notin> set w \<Longrightarrow> split_on c (w @ c # rest) = w # split_on c rest"
  by (induction w) auto

lemma split_on_nomem_prefix:
  "c \<notin> set w \<Longrightarrow> split_on c (w @ rest) = (w @ hd (split_on c rest)) # tl (split_on c rest)"
  by (induction w) (auto split: list.split)

text \<open>Whitespace-separated words, as a cron parser reads its expression
  (\<open>trim()\<close> then \<open>split(/\s+/)\<close>).\<close>

definition words :: "string \<Rightarrow> string list" where
  "words s = filter (\<lambda>w. w \<noteq> []) (split_on CHR '' '' s)"

lemma digit_not_space: "c \<in> set (decimal n) \<Longrightarrow> c \<noteq> CHR '' '' \<and> c \<noteq> CHR ''/''"
  using decimal_digits [of c n] by (auto simp: digit_val_def)

section \<open>Exceptions in loops that mutate state\<close>

text \<open>
  \<open>('e, 's) exc\<close> is the outcome of JavaScript code that mutates a state of type
  \<open>'s\<close>: \<open>Inr s\<close> when it completes, \<open>Inl (e, s)\<close> when it throws \<open>e\<close> with the
  state reached at that point (mutations made before a throw are not undone).
\<close>

type_synonym ('e, 's) exc = "('e \<times> 's) + 's"

fun exc_fold :: "('a \<Rightarrow> 's \<Rightarrow> ('e, 's) exc) \<Rightarrow> 'a list \<Rightarrow> 's \<Rightarrow> ('e, 's) exc" where
  "exc_fold f [] s = Inr s"
| "exc_fold f (x # xs) s = (case f x s of Inl es \<Rightarrow> Inl es | Inr s' \<Rightarrow> exc_fold f xs s')"

text \<open>\<open>try { ... } catch (e) { console.log(e) }\<close>: the state survives the throw.\<close>

definition catch_log :: "('e, 's) exc \<Rightarrow> 's" where
  "catch_log r = (case r of Inl (e, s) \<Rightarrow> s | Inr s \<Rightarrow> s)"

lemma catch_log_simps [simp]: "catch_log (Inr s) = s" "catch_log (Inl (e, s)) = s"
  by (simp_all add: catch_log_def)

lemma exc_fold_cong [fundef_cong]:
  "xs = ys \<Longrightarrow> s = t \<Longrightarrow> (\<And>x s. x \<in> set ys \<Longrightarrow> f x s = g x s) \<Longrightarrow>
   exc_fold f xs s = exc_fold g ys t"
proof (induction ys arbitrary: xs s t)
  case Nil
  then show ?case by simp
next
  case (Cons y ys)
  then show ?case by (auto split: sum.splits)
qed

lemma exc_fold_map: "exc_fold f (map h xs) s = exc_fold (\<lambda>x. f (h x)) xs s"
  by (induction xs arbitrary: s) (auto split: sum.splits)

lemma exc_fold_append:
  "exc_fold f (xs @ ys) s = (case exc_fold f xs s of Inl es \<Rightarrow> Inl es | Inr s' \<Rightarrow> exc_fold f ys s')"
  by (induction xs arbitrary: s) (auto split: sum.splits)

text \<open>
  A loop whose every iteration appends its own rows to the accumulated list and
  never throws appends the rows of all iterations, in order.
\<close>

lemma exc_fold_appends:
  assumes "\<And>x acc. x \<in> set xs \<Longrightarrow> f x acc = Inr (acc @ g x)"
  shows "exc_fold f xs acc = Inr (acc @ concat (map g xs))"
  using assms by (induction xs arbitrary: acc) auto

text \<open>
  The same for a loop that also carries a flag which an iteration may clear
  (\<open>lastBucket = false\<close>).
\<close>

lemma exc_fold_appends_flag:
  assumes "\<And>x acc l. x \<in> set xs \<Longrightarrow> f x (acc, l) = Inr (acc @ g x, l \<and> \<not> p x)"
  shows "exc_fold f xs (acc, l) = Inr (acc @ concat (map g xs), l \<and> \<not> (\<exists>x \<in> set xs. p x))"
  using assms by (induction xs arbitrary: acc l) auto

section \<open>Loops that build a list and may throw\<close>

text \<open>A loop that pushes one element per iteration onto a fresh array and lets an
  exception escape: the first error is the result, and the partial array is lost.\<close>

fun map_exc :: "('a \<Rightarrow> 'e + 'b) \<Rightarrow> 'a list \<Rightarrow> 'e + 'b list" where
  "map_exc f [] = Inr []"
| "map_exc f (x # xs) =
     (case f x of Inl e \<Rightarrow> Inl e | Inr y \<Rightarrow> (case map_exc f xs of Inl e \<Rightarrow> Inl e | Inr ys \<Rightarrow> Inr (y # ys)))"

lemma map_exc_Inr: "(\<And>x. x \<in> set xs \<Longrightarrow> f x = Inr (g x)) \<Longrightarrow> map_exc f xs = Inr (map g xs)"
  by (induction xs) auto

lemma map_exc_Inl: "x \<in> set xs \<Longrightarrow> f x = Inl e \<Longrightarrow> \<exists>e'. map_exc f xs = Inl e'"
  by (induction xs) (auto split: sum.split)

lemma map_exc_map: "map_exc f (map h xs) = map_exc (\<lambda>x. f (h x)) xs"
  by (induction xs) (auto split: sum.split)

lemma map_exc_Inl_same:
  assumes "x \<in> set xs" and "f x = Inl e" and same: "\<And>y e'. f y = Inl e' \<Longrightarrow> e' = e"
  shows "map_exc f xs = Inl e"
  using assms(1)
proof (induction xs)
  case (Cons a xs)
  show ?case
  proof (cases "f a")
    case (Inl e')
    then show ?thesis using same [OF Inl] by simp
  next
    case (Inr y)
    with assms(2) Cons.prems have "x \<in> set xs" by auto
    with Cons.IH Inr show ?thesis by simp
  qed
qed simp

end
