(* ===== verification/Json.thy ===== *)
theory Json
  imports Prelude
begin

text \<open>
  The JavaScript values the program reads: the parsed JSON of an Elasticsearch
  response, of a stored query and of a column list. The theory models the parts of
  the JavaScript semantics the source relies on: truthiness (\<open>if (x)\<close>), property
  access \<open>o[k]\<close> (a \<open>TypeError\<close> on \<open>null\<close> and \<open>undefined\<close>, \<open>undefined\<close> for a
  missing property, \<open>length\<close> and index properties of arrays and strings), and the
  order in which \<open>for (k in o)\<close> enumerates properties: integer-like keys first in
  ascending numeric order, then the other keys in insertion order.
  Numbers are modelled as integers (the source only reads bucket keys, counts and
  metric values, and compares nothing but truthiness); \<open>undefined\<close> is \<open>None\<close> of
  \<open>json option\<close>.
\<close>

datatype json =
    JNull
  | JBool bool
  | JNum int
  | JStr string
  | JArr "json list"
  | JObj "(string \<times> json) list"

datatype js_error = TypeError | SyntaxError

section \<open>Truthiness\<close>

fun truthy :: "json \<Rightarrow> bool" where
  "truthy JNull = False"
| "truthy (JBool b) = b"
| "truthy (JNum n) = (n \<noteq> 0)"
| "truthy (JStr s) = (s \<noteq> [])"
| "truthy (JArr xs) = True"
| "truthy (JObj kvs) = True"

definition truthy_opt :: "json option \<Rightarrow> bool" where
  "truthy_opt v = (case v of None \<Rightarrow> False | Some x \<Rightarrow> truthy x)"

lemma truthy_opt_simps [simp]: "truthy_opt None = False" "truthy_opt (Some x) = truthy x"
  by (simp_all add: truthy_opt_def)

section \<open>Property names\<close>

text \<open>
  An integer-like property name (an array index) is the canonical decimal rendering
  of a number below \<open>2\<^sup>3\<^sup>2 - 1\<close>.
\<close>

definition array_index :: "string \<Rightarrow> nat option" where
  "array_index s =
     (case parse_decimal s of
        None \<Rightarrow> None
      | Some n \<Rightarrow> if decimal n = s \<and> n < 4294967295 then Some n else None)"

definition is_index :: "string \<Rightarrow> bool" where
  "is_index s \<longleftrightarrow> array_index s \<noteq> None"

definition index_key :: "string \<Rightarrow> nat" where
  "index_key s = (case array_index s of Some n \<Rightarrow> n | None \<Rightarrow> 0)"

declare array_index_def [js_eval] is_index_def [js_eval] index_key_def [js_eval]

lemma array_index_decimal [simp]: "n < 4294967295 \<Longrightarrow> array_index (decimal n) = Some n"
  by (simp add: array_index_def)

lemma array_index_Some: "array_index s = Some n \<Longrightarrow> s = decimal n"
  by (auto simp: array_index_def split: option.splits if_splits)

section \<open>Property access\<close>

text \<open>\<open>o[k]\<close> for a value \<open>o\<close>: own properties only (no name the source reads is
  inherited from a prototype).\<close>

fun js_get :: "json \<Rightarrow> string \<Rightarrow> js_error + json option" where
  "js_get JNull k = Inl TypeError"
| "js_get (JObj kvs) k = Inr (map_of kvs k)"
| "js_get (JArr xs) k =
     Inr (if k = ''length'' then Some (JNum (int (length xs)))
          else case array_index k of
                 Some i \<Rightarrow> if i < length xs then Some (xs ! i) else None
               | None \<Rightarrow> None)"
| "js_get (JStr s) k =
     Inr (if k = ''length'' then Some (JNum (int (length s)))
          else case array_index k of
                 Some i \<Rightarrow> if i < length s then Some (JStr [s ! i]) else None
               | None \<Rightarrow> None)"
| "js_get (JNum n) k = Inr None"
| "js_get (JBool b) k = Inr None"

text \<open>\<open>o[k]\<close> where \<open>o\<close> may be \<open>undefined\<close>.\<close>

definition js_get_opt :: "json option \<Rightarrow> string \<Rightarrow> js_error + json option" where
  "js_get_opt v k = (case v of None \<Rightarrow> Inl TypeError | Some x \<Rightarrow> js_get x k)"

lemma js_get_opt_simps [simp]:
  "js_get_opt None k = Inl TypeError" "js_get_opt (Some x) k = js_get x k"
  by (simp_all add: js_get_opt_def)

text \<open>A property name that is neither \<open>length\<close> nor an index is absent from
  every value that is not an object.\<close>

definition plain_name :: "string \<Rightarrow> bool" where
  "plain_name k \<longleftrightarrow> k \<noteq> ''length'' \<and> array_index k = None"

declare plain_name_def [js_eval]

lemma js_get_plain:
  "plain_name k \<Longrightarrow> js_get (JStr s) k = Inr None"
  "plain_name k \<Longrightarrow> js_get (JArr xs) k = Inr None"
  by (simp_all add: plain_name_def)

lemma js_get_plain_Some:
  "js_get v k = Inr (Some w) \<Longrightarrow> plain_name k \<Longrightarrow> \<exists>kvs. v = JObj kvs \<and> map_of kvs k = Some w"
  by (cases v) (auto simp: plain_name_def)

section \<open>Enumeration order\<close>

definition enum_order :: "(string \<times> 'a) list \<Rightarrow> (string \<times> 'a) list" where
  "enum_order kvs =
     sort_key (index_key \<circ> fst) (filter (is_index \<circ> fst) kvs)
     @ filter (\<lambda>kv. \<not> is_index (fst kv)) kvs"

definition in_enum_order :: "(string \<times> 'a) list \<Rightarrow> bool" where
  "in_enum_order kvs \<longleftrightarrow> enum_order kvs = kvs"

declare enum_order_def [js_eval] in_enum_order_def [js_eval]

text \<open>\<open>for (k in o) { ... o[k] ... }\<close>: the pairs of keys and values in the order
  the loop visits them.\<close>

fun js_entries :: "json \<Rightarrow> (string \<times> json) list" where
  "js_entries (JObj kvs) = enum_order kvs"
| "js_entries (JArr xs) = zip (map decimal [0..<length xs]) xs"
| "js_entries (JStr s) = zip (map decimal [0..<length s]) (map (\<lambda>c. JStr [c]) s)"
| "js_entries _ = []"

lemma set_enum_order [simp]: "set (enum_order kvs) = set kvs"
  by (auto simp: enum_order_def)

lemma insort_key_map_snd:
  "insort_key (\<lambda>kv. f (fst kv)) (apsnd h x) (map (apsnd h) xs) =
   map (apsnd h) (insort_key (\<lambda>kv. f (fst kv)) x xs)"
  by (induction xs) auto

lemma sort_key_map_snd:
  "sort_key (\<lambda>kv. f (fst kv)) (map (apsnd h) xs) = map (apsnd h) (sort_key (\<lambda>kv. f (fst kv)) xs)"
  by (induction xs) (auto simp: insort_key_map_snd)

lemma enum_order_map_snd:
  "enum_order (map (apsnd h) kvs) = map (apsnd h) (enum_order kvs)"
  by (simp add: enum_order_def filter_map comp_def sort_key_map_snd)

lemma in_enum_order_map_snd:
  "in_enum_order kvs \<Longrightarrow> in_enum_order (map (apsnd h) kvs)"
  by (simp add: in_enum_order_def enum_order_map_snd)

text \<open>Properties with plain names placed before the others are enumerated between
  the integer-like and the other names.\<close>

lemma enum_order_plain_prefix:
  assumes "\<forall>kv \<in> set fixed. \<not> is_index (fst kv)"
  shows "enum_order (fixed @ named) =
           sort_key (index_key \<circ> fst) (filter (is_index \<circ> fst) named)
           @ fixed @ filter (\<lambda>kv. \<not> is_index (fst kv)) named"
proof -
  have "filter (is_index \<circ> fst) fixed = []" and "filter (\<lambda>kv. \<not> is_index (fst kv)) fixed = fixed"
    using assms by (auto simp: filter_empty_conv)
  then show ?thesis by (simp add: enum_order_def)
qed

lemma enum_order_plain_prefix_map:
  assumes "\<forall>kv \<in> set fixed. \<not> is_index (fst kv)"
  shows "enum_order (fixed @ map (apsnd h) named) =
           map (apsnd h) (sort_key (index_key \<circ> fst) (filter (is_index \<circ> fst) named))
           @ fixed @ map (apsnd h) (filter (\<lambda>kv. \<not> is_index (fst kv)) named)"
  using assms by (simp add: enum_order_plain_prefix filter_map comp_def sort_key_map_snd)

lemma in_enum_order_split:
  "in_enum_order named \<Longrightarrow>
   sort_key (index_key \<circ> fst) (filter (is_index \<circ> fst) named)
   @ filter (\<lambda>kv. \<not> is_index (fst kv)) named = named"
  by (simp add: in_enum_order_def enum_order_def)

section \<open>A size that decreases along the flattener's recursion\<close>

fun jsize :: "json \<Rightarrow> nat" where
  "jsize (JArr xs) = Suc (sum_list (map jsize xs))"
| "jsize (JObj kvs) = Suc (sum_list (map (jsize \<circ> snd) kvs))"
| "jsize _ = 0"

lemma jsize_entries: "kv \<in> set (js_entries v) \<Longrightarrow> jsize (snd kv) \<le> jsize v"
proof (cases v)
  case (JArr xs)
  assume "kv \<in> set (js_entries v)"
  with JArr have "snd kv \<in> set xs" by (cases kv) (auto dest: set_zip_rightD)
  with JArr show ?thesis using member_le_sum_list_map [of "snd kv" xs jsize] by simp
next
  case (JObj kvs)
  assume "kv \<in> set (js_entries v)"
  with JObj have "kv \<in> set kvs" by simp
  with JObj show ?thesis using member_le_sum_list_map [of kv kvs "jsize \<circ> snd"] by simp
next
  case (JStr s)
  assume "kv \<in> set (js_entries v)"
  with JStr show ?thesis by (cases kv) (auto dest!: set_zip_rightD)
qed auto

lemma jsize_get_plain: "js_get v k = Inr (Some w) \<Longrightarrow> plain_name k \<Longrightarrow> jsize w < jsize v"
proof -
  assume "js_get v k = Inr (Some w)" and "plain_name k"
  then obtain kvs where v: "v = JObj kvs" and "map_of kvs k = Some w"
    by (blast dest: js_get_plain_Some)
  then have "(k, w) \<in> set kvs" by (auto dest: map_of_SomeD)
  with v show ?thesis using member_le_sum_list_map [of "(k, w)" kvs "jsize \<circ> snd"] by simp
qed

section \<open>Conversion to string\<close>

text \<open>\<open>ToString\<close> as string concatenation (\<open>'' '' + v\<close>) applies it: numbers in
  decimal, an array as its elements joined by commas with \<open>null\<close> written as
  nothing, any other object as \<open>[object Object]\<close>.\<close>

definition int_string :: "int \<Rightarrow> string" where
  "int_string i = (if i < 0 then ''-'' @ decimal (nat (- i)) else decimal (nat i))"

fun join_comma :: "string list \<Rightarrow> string" where
  "join_comma [] = []"
| "join_comma [s] = s"
| "join_comma (s # ss) = s @ '','' @ join_comma ss"

fun js_to_string :: "json \<Rightarrow> string" where
  "js_to_string JNull = ''null''"
| "js_to_string (JBool b) = (if b then ''true'' else ''false'')"
| "js_to_string (JNum i) = int_string i"
| "js_to_string (JStr s) = s"
| "js_to_string (JArr xs) = join_comma (map (\<lambda>x. if x = JNull then [] else js_to_string x) xs)"
| "js_to_string (JObj kvs) = ''[object Object]''"

lemma js_to_string_nat [simp]: "js_to_string (JNum (int n)) = decimal n"
  by (simp add: int_string_def)

end
