(* ===== verification/Flatten.thy ===== *)
theory Flatten
  imports Json
begin

text \<open>
  The aggregation flattener, \<open>getData\<close> of \<open>src/server/utils/index.ts\<close>
  (lines 46--84). It walks the parsed \<open>aggregations\<close> object of an Elasticsearch
  response and pushes one row per leaf bucket onto the shared array \<open>dataList\<close>.
  A row is an array of \<open>JSON.stringify({[name]: value})\<close> strings; the model keeps
  each cell as the object before it is stringified (\<open>cell\<close>, a property list with
  one entry, or none when the value is \<open>undefined\<close>, which \<open>JSON.stringify\<close> drops).
  The mutation of \<open>dataList\<close> is state passing; the \<open>try/catch\<close> of the source
  is \<open>catch_log\<close>: a \<open>TypeError\<close> stops the current call of \<open>getData\<close> only,
  and the rows pushed before it stay.
  The loop bodies are separate definitions that take the recursive call as a
  parameter; their congruence rules let the function package see that the recursion
  goes into a property of a bucket of the current node, whence termination by
  \<open>jsize\<close>.
\<close>

type_synonym cell = "(string \<times> json) list"
type_synonym row = "cell list"
type_synonym rows = "row list"

section \<open>The source\<close>

text \<open>\<open>JSON.stringify({[k]: v})\<close> as a property list: an \<open>undefined\<close> value is dropped.\<close>

definition mk_cell :: "string \<Rightarrow> json option \<Rightarrow> cell" where
  "mk_cell k v = (case v of None \<Rightarrow> [] | Some x \<Rightarrow> [(k, x)])"

text \<open>One iteration of the first \<open>for (let property in bucket)\<close> loop (lines 60--65):
  recurse into a property that has a truthy \<open>buckets\<close>, and clear \<open>lastBucket\<close>.\<close>

definition sub_agg ::
  "(json \<Rightarrow> row \<Rightarrow> string \<Rightarrow> rows \<Rightarrow> rows) \<Rightarrow> row \<Rightarrow> string \<times> json \<Rightarrow> rows \<times> bool
   \<Rightarrow> (js_error, rows \<times> bool) exc" where
  "sub_agg rec newRow pv st =
     (case js_get (snd pv) ''buckets'' of
        Inl e \<Rightarrow> Inl (e, st)
      | Inr b \<Rightarrow> if truthy_opt b then Inr (rec (snd pv) newRow (fst pv) (fst st), False) else Inr st)"

text \<open>The second loop (lines 67--76): append \<open>{[property]: value}\<close> for every property
  whose \<open>value\<close> is truthy.\<close>

fun metric_cells :: "(string \<times> json) list \<Rightarrow> row \<Rightarrow> js_error + row" where
  "metric_cells [] r = Inr r"
| "metric_cells ((p, v) # ps) r =
     (case js_get v ''value'' of
        Inl e \<Rightarrow> Inl e
      | Inr val \<Rightarrow> metric_cells ps (if truthy_opt val then r @ [mk_cell p val] else r))"

text \<open>The body of \<open>for (let i in buckets)\<close> (lines 51--78) for one bucket.\<close>

definition visit_bucket ::
  "(json \<Rightarrow> row \<Rightarrow> string \<Rightarrow> rows \<Rightarrow> rows) \<Rightarrow> row \<Rightarrow> string \<Rightarrow> string \<times> json \<Rightarrow> rows
   \<Rightarrow> (js_error, rows) exc" where
  "visit_bucket rec row agg ib dl =
     (case js_get (snd ib) ''key'' of
        Inl e \<Rightarrow> Inl (e, dl)
      | Inr key \<Rightarrow>
          (let newRow = row @ [mk_cell agg key] in
           case exc_fold (sub_agg rec newRow) (js_entries (snd ib)) (dl, True) of
             Inl (e, (dl', _)) \<Rightarrow> Inl (e, dl')
           | Inr (dl', lastBucket) \<Rightarrow>
               if lastBucket then
                 (case metric_cells (js_entries (snd ib)) newRow of
                    Inl e \<Rightarrow> Inl (e, dl')
                  | Inr r \<Rightarrow> Inr (dl' @ [r]))
               else Inr dl'))"

lemma sub_agg_cong [fundef_cong]:
  "pv = pv' \<Longrightarrow> newRow = newRow' \<Longrightarrow> st = st' \<Longrightarrow>
   (\<And>r a d. rec (snd pv') r a d = rec' (snd pv') r a d) \<Longrightarrow>
   sub_agg rec newRow pv st = sub_agg rec' newRow' pv' st'"
  by (simp add: sub_agg_def split: sum.splits)

lemma visit_bucket_cong [fundef_cong]:
  assumes "ib = ib'" "row = row'" "agg = agg'" "dl = dl'"
    and rec: "\<And>pv r a d. pv \<in> set (js_entries (snd ib')) \<Longrightarrow> rec (snd pv) r a d = rec' (snd pv) r a d"
  shows "visit_bucket rec row agg ib dl = visit_bucket rec' row' agg' ib' dl'"
proof -
  have loop: "\<And>nr st. exc_fold (sub_agg rec nr) (js_entries (snd ib')) st =
                       exc_fold (sub_agg rec' nr) (js_entries (snd ib')) st"
    by (rule exc_fold_cong) (auto intro: sub_agg_cong rec)
  show ?thesis
    using assms(1-4) by (simp add: visit_bucket_def Let_def loop split: sum.split)
qed

lemma jsize_nested_bucket_field:
  assumes get: "js_get object ''buckets'' = Inr (Some bs)"
    and b: "b \<in> set (js_entries bs)" and pv: "pv \<in> set (js_entries (snd b))"
  shows "jsize (snd pv) < jsize object"
proof -
  have "plain_name ''buckets''" by (simp add: js_eval)
  with get have "jsize bs < jsize object" by (rule jsize_get_plain)
  moreover have "jsize (snd b) \<le> jsize bs" using b by (rule jsize_entries)
  moreover have "jsize (snd pv) \<le> jsize (snd b)" using pv by (rule jsize_entries)
  ultimately show ?thesis by simp
qed

text \<open>\<open>getData(object, row, agg, dataList)\<close>: lines 46--84.\<close>

function getData :: "json \<Rightarrow> row \<Rightarrow> string \<Rightarrow> rows \<Rightarrow> rows" where
  "getData object row agg dataList =
     catch_log
       (case js_get object ''buckets'' of
          Inl e \<Rightarrow> Inl (e, dataList)
        | Inr buckets \<Rightarrow>
            (case buckets of
               None \<Rightarrow> Inr dataList
             | Some bs \<Rightarrow>
                 if truthy bs then exc_fold (visit_bucket getData row agg) (js_entries bs) dataList
                 else Inr dataList))"
  by pat_completeness auto
termination
  by (relation "measure (\<lambda>(obj, row, agg, dl). jsize obj)")
     (auto simp: jsize_nested_bucket_field)

declare getData.simps [simp del]

section \<open>The abstract aggregation tree and its flattening\<close>

text \<open>
  The specification's aggregation node as a tagged union: a bucket is a leaf with
  its metrics, or a group with its sub-aggregations, each a named list of buckets.
  Both carry the bucket key and the document count Elasticsearch returns.
  \<open>flat_bucket\<close> is the flattening the specification describes (section 4.3):
  one row per leaf, the grouping keys of its path followed by its metrics.
  \<open>bucket_json\<close> and \<open>agg_json\<close> are the JSON an Elasticsearch response holds
  for such a tree; \<open>wf_bucket\<close> says that the keys are scalars, that every group has
  a sub-aggregation, and that names are listed in JavaScript's enumeration order
  (which JSON.parse imposes on any response).
\<close>

datatype agg_bucket =
    Leaf json int "(string \<times> json) list"
  | Group json int "(string \<times> agg_bucket list) list"


fun flat_bucket :: "string \<Rightarrow> row \<Rightarrow> agg_bucket \<Rightarrow> rows" where
  "flat_bucket a r (Leaf k c ms) = [r @ [[(a, k)]] @ map (\<lambda>(m, v). [(m, v)]) ms]"
| "flat_bucket a r (Group k c subs) =
     concat (map (\<lambda>(n, bs). concat (map (flat_bucket n (r @ [[(a, k)]])) bs)) subs)"

definition flat_agg :: "string \<Rightarrow> row \<Rightarrow> agg_bucket list \<Rightarrow> rows" where
  "flat_agg a r bs = concat (map (flat_bucket a r) bs)"

fun bucket_json :: "agg_bucket \<Rightarrow> json" where
  "bucket_json (Leaf k c ms) =
     JObj ([(''key'', k), (''doc_count'', JNum c)] @ map (\<lambda>(m, v). (m, JObj [(''value'', v)])) ms)"
| "bucket_json (Group k c subs) =
     JObj ([(''key'', k), (''doc_count'', JNum c)]
           @ map (\<lambda>(n, bs). (n, JObj [(''buckets'', JArr (map bucket_json bs))])) subs)"

definition agg_json :: "agg_bucket list \<Rightarrow> json" where
  "agg_json bs = JObj [(''buckets'', JArr (map bucket_json bs))]"

fun prune_falsy :: "agg_bucket \<Rightarrow> agg_bucket" where
  "prune_falsy (Leaf k c ms) = Leaf k c (filter (truthy \<circ> snd) ms)"
| "prune_falsy (Group k c subs) = Group k c (map (\<lambda>(n, bs). (n, map prune_falsy bs)) subs)"

fun scalar :: "json \<Rightarrow> bool" where
  "scalar (JStr s) = True"
| "scalar (JNum n) = True"
| "scalar (JBool b) = True"
| "scalar _ = False"

fun wf_bucket :: "agg_bucket \<Rightarrow> bool" where
  "wf_bucket (Leaf k c ms) \<longleftrightarrow> scalar k \<and> in_enum_order ms"
| "wf_bucket (Group k c subs) \<longleftrightarrow>
     scalar k \<and> subs \<noteq> [] \<and> in_enum_order subs \<and> (\<forall>(n, bs) \<in> set subs. \<forall>b \<in> set bs. wf_bucket b)"

definition metric_json :: "json \<Rightarrow> json" where
  "metric_json v = JObj [(''value'', v)]"

definition bucket_fixed :: "json \<Rightarrow> int \<Rightarrow> (string \<times> json) list" where
  "bucket_fixed k c = [(''key'', k), (''doc_count'', JNum c)]"

lemma bucket_json_Leaf: "bucket_json (Leaf k c ms) = JObj (bucket_fixed k c @ map (apsnd metric_json) ms)"
  by (simp add: bucket_fixed_def metric_json_def apsnd_def map_prod_def case_prod_beta)

lemma bucket_json_Group: "bucket_json (Group k c subs) = JObj (bucket_fixed k c @ map (apsnd agg_json) subs)"
  by (simp add: bucket_fixed_def agg_json_def apsnd_def map_prod_def case_prod_beta)

declare bucket_json.simps [simp del]

lemma plain_names: "plain_name ''buckets''" "plain_name ''value''" "plain_name ''key''"
  "\<not> is_index ''key''" "\<not> is_index ''doc_count''"
  by (simp_all add: js_eval)

lemma scalar_props: "scalar k \<Longrightarrow> plain_name p \<Longrightarrow> js_get k p = Inr None"
  by (cases k) (simp_all add: plain_name_def)

lemma fixed_not_index: "\<forall>kv \<in> set (bucket_fixed k c). \<not> is_index (fst kv)"
  by (simp add: bucket_fixed_def plain_names)

text \<open>Iterations of the first loop over properties without \<open>buckets\<close> change nothing.\<close>

lemma sub_agg_inert:
  "(\<And>pv. pv \<in> set xs \<Longrightarrow> js_get (snd pv) ''buckets'' = Inr None) \<Longrightarrow>
   exc_fold (sub_agg rec nr) xs st = Inr st"
  by (induction xs arbitrary: st) (auto simp: sub_agg_def)

lemma metric_cells_append:
  "metric_cells (xs @ ys) r = (case metric_cells xs r of Inl e \<Rightarrow> Inl e | Inr r' \<Rightarrow> metric_cells ys r')"
  by (induction xs r rule: metric_cells.induct) (auto split: sum.splits)

lemma metric_cells_fixed: "scalar k \<Longrightarrow> metric_cells (bucket_fixed k c) r = Inr r"
  by (simp add: bucket_fixed_def scalar_props plain_names)

lemma metric_cells_metrics:
  "metric_cells (map (apsnd metric_json) ms) r = Inr (r @ map (\<lambda>(m, v). [(m, v)]) (filter (truthy \<circ> snd) ms))"
  by (induction ms arbitrary: r) (auto simp: metric_json_def mk_cell_def)

lemma sub_agg_fixed: "scalar k \<Longrightarrow> exc_fold (sub_agg rec nr) (bucket_fixed k c) st = Inr st"
  by (rule sub_agg_inert) (auto simp: bucket_fixed_def scalar_props plain_names)

lemma js_get_agg_json: "js_get (agg_json bs) ''buckets'' = Inr (Some (JArr (map bucket_json bs)))"
  by (simp add: agg_json_def)

text \<open>The top level: a loop over the buckets of one aggregation.\<close>

lemma visit_buckets_from:
  assumes "\<And>b i acc. b \<in> set bs \<Longrightarrow> visit_bucket getData r a (i, bucket_json b) acc = Inr (acc @ flat_bucket a r (prune_falsy b))"
    and "length ixs = length bs"
  shows "exc_fold (visit_bucket getData r a) (zip ixs (map bucket_json bs)) dl
         = Inr (dl @ flat_agg a r (map prune_falsy bs))"
proof -
  have z: "zip ixs (map bucket_json bs) = map (apsnd bucket_json) (zip ixs bs)"
    by (simp add: zip_map2 apsnd_def map_prod_def case_prod_beta)
  have "exc_fold (visit_bucket getData r a) (map (apsnd bucket_json) (zip ixs bs)) dl
        = Inr (dl @ concat (map (\<lambda>ib. flat_bucket a r (prune_falsy (snd ib))) (zip ixs bs)))"
    unfolding exc_fold_map
    by (rule exc_fold_appends) (auto simp: assms(1) dest: set_zip_rightD)
  also have "map (\<lambda>ib. flat_bucket a r (prune_falsy (snd ib))) (zip ixs bs) = map (flat_bucket a r \<circ> prune_falsy) bs"
    by (subst map_snd_zip_eq) (simp_all add: assms(2))
  finally show ?thesis
    unfolding z by (simp only: flat_agg_def map_map)
qed

lemma getData_agg_json_from_buckets:
  assumes "\<And>b i acc. b \<in> set bs \<Longrightarrow> visit_bucket getData r a (i, bucket_json b) acc = Inr (acc @ flat_bucket a r (prune_falsy b))"
  shows "getData (agg_json bs) r a dl = dl @ flat_agg a r (map prune_falsy bs)"
proof -
  have loop: "exc_fold (visit_bucket getData r a) (js_entries (JArr (map bucket_json bs))) dl
      = Inr (dl @ flat_agg a r (map prune_falsy bs))"
    using visit_buckets_from [OF assms, where ixs = "map decimal [0..<length bs]"] by simp
  show ?thesis
    unfolding getData.simps [of "agg_json bs"] js_get_agg_json
    by (simp only: loop option.case truthy.simps if_True sum.case catch_log_simps)
qed

text \<open>The first loop over the sub-aggregations of a bucket.\<close>

lemma sub_agg_subs:
  assumes IH: "\<And>n bs b r a i acc. (n, bs) \<in> set S \<Longrightarrow> b \<in> set bs \<Longrightarrow>
                 visit_bucket getData r a (i, bucket_json b) acc = Inr (acc @ flat_bucket a r (prune_falsy b))"
  shows "exc_fold (sub_agg getData nr) (map (apsnd agg_json) S) (acc, l)
         = Inr (acc @ concat (map (\<lambda>(n, bs). flat_agg n nr (map prune_falsy bs)) S), l \<and> S = [])"
proof -
  have "exc_fold (\<lambda>x. sub_agg getData nr (apsnd agg_json x)) S (acc, l)
        = Inr (acc @ concat (map (\<lambda>(n, bs). flat_agg n nr (map prune_falsy bs)) S), l \<and> \<not> (\<exists>x \<in> set S. True))"
  proof (rule exc_fold_appends_flag)
    fix x acc l
    assume x: "x \<in> set S"
    obtain n bs where nbs: "x = (n, bs)" by fastforce
    have "getData (agg_json bs) nr n acc = acc @ flat_agg n nr (map prune_falsy bs)"
      by (rule getData_agg_json_from_buckets) (rule IH [OF x [unfolded nbs]])
    then show "sub_agg getData nr (apsnd agg_json x) (acc, l)
               = Inr (acc @ (\<lambda>(n, bs). flat_agg n nr (map prune_falsy bs)) x, l \<and> \<not> True)"
      by (simp add: nbs sub_agg_def js_get_agg_json)
  qed
  moreover have "(l \<and> \<not> (\<exists>x \<in> set S. True)) = (l \<and> S = [])" by (cases S) auto
  ultimately show ?thesis by (simp only: exc_fold_map)
qed

lemma js_get_bucket_key: "js_get (JObj (bucket_fixed k c @ rest)) ''key'' = Inr (Some k)"
  by (simp add: bucket_fixed_def)

lemma metric_cells_bucket:
  assumes "scalar k" "in_enum_order ms"
  shows "metric_cells (enum_order (bucket_fixed k c @ map (apsnd metric_json) ms)) r
         = Inr (r @ map (\<lambda>(m, v). [(m, v)]) (filter (truthy \<circ> snd) ms))"
proof -
  let ?A = "sort_key (index_key \<circ> fst) (filter (is_index \<circ> fst) ms)"
  let ?B = "filter (\<lambda>kv. \<not> is_index (fst kv)) ms"
  have "enum_order (bucket_fixed k c @ map (apsnd metric_json) ms)
        = map (apsnd metric_json) ?A @ bucket_fixed k c @ map (apsnd metric_json) ?B"
    by (simp add: enum_order_plain_prefix_map fixed_not_index)
  moreover have "filter (truthy \<circ> snd) ?A @ filter (truthy \<circ> snd) ?B = filter (truthy \<circ> snd) ms"
    using in_enum_order_split [OF assms(2)] by (metis filter_append)
  ultimately show ?thesis
    using assms(1) by (simp add: metric_cells_append metric_cells_metrics metric_cells_fixed
                           flip: map_append filter_append)
qed

lemma leaf_entries_inert:
  assumes "scalar k"
  shows "pv \<in> set (js_entries (JObj (bucket_fixed k c @ map (apsnd metric_json) ms))) \<Longrightarrow>
         js_get (snd pv) ''buckets'' = Inr None"
  using assms by (auto simp: bucket_fixed_def metric_json_def scalar_props plain_names)

lemma flat_bucket_Group_prune:
  "flat_bucket a r (prune_falsy (Group k c subs))
   = concat (map (\<lambda>(n, bs). flat_agg n (r @ [[(a, k)]]) (map prune_falsy bs)) subs)"
  by (induction subs) (auto simp: flat_agg_def)

theorem visit_bucket_json:
  "wf_bucket b \<Longrightarrow> visit_bucket getData r a (i, bucket_json b) acc = Inr (acc @ flat_bucket a r (prune_falsy b))"
proof (induction b arbitrary: r a i acc)
  case (Leaf k c ms)
  then have k: "scalar k" and ms: "in_enum_order ms" by simp_all
  let ?obj = "JObj (bucket_fixed k c @ map (apsnd metric_json) ms)"
  have "exc_fold (sub_agg getData (r @ [[(a, k)]])) (js_entries ?obj) (acc, True) = Inr (acc, True)"
    by (rule sub_agg_inert) (rule leaf_entries_inert [OF k])
  then show ?case
    by (simp add: bucket_json_Leaf visit_bucket_def Let_def js_get_bucket_key mk_cell_def
                  metric_cells_bucket [OF k ms] del: js_get.simps)
next
  case (Group k c subs)
  then have k: "scalar k" and ne: "subs \<noteq> []" and ord: "in_enum_order subs"
    and wf: "\<forall>(n, bs) \<in> set subs. \<forall>b \<in> set bs. wf_bucket b" by simp_all
  let ?nr = "r @ [[(a, k)]]"
  let ?A = "sort_key (index_key \<circ> fst) (filter (is_index \<circ> fst) subs)"
  let ?B = "filter (\<lambda>kv. \<not> is_index (fst kv)) subs"
  let ?R = "\<lambda>S. concat (map (\<lambda>(n, bs). flat_agg n ?nr (map prune_falsy bs)) S)"
  have split: "?A @ ?B = subs" by (rule in_enum_order_split [OF ord])
  have IH: "\<And>S n bs b r a i acc. set S \<subseteq> set subs \<Longrightarrow> (n, bs) \<in> set S \<Longrightarrow> b \<in> set bs \<Longrightarrow>
              visit_bucket getData r a (i, bucket_json b) acc = Inr (acc @ flat_bucket a r (prune_falsy b))"
    using Group.IH wf by fastforce
  have entries: "enum_order (bucket_fixed k c @ map (apsnd agg_json) subs)
        = map (apsnd agg_json) ?A @ bucket_fixed k c @ map (apsnd agg_json) ?B"
    by (simp add: enum_order_plain_prefix_map fixed_not_index)
  have "set ?A \<subseteq> set subs" "set ?B \<subseteq> set subs" by auto
  then have loopA: "\<And>acc l. exc_fold (sub_agg getData ?nr) (map (apsnd agg_json) ?A) (acc, l) = Inr (acc @ ?R ?A, l \<and> ?A = [])"
    and loopB: "\<And>acc l. exc_fold (sub_agg getData ?nr) (map (apsnd agg_json) ?B) (acc, l) = Inr (acc @ ?R ?B, l \<and> ?B = [])"
    by (blast intro: sub_agg_subs IH)+
  have "exc_fold (sub_agg getData ?nr) (enum_order (bucket_fixed k c @ map (apsnd agg_json) subs)) (acc, True)
        = Inr (acc @ ?R ?A @ ?R ?B, ?A = [] \<and> ?B = [])"
    by (simp add: entries exc_fold_append loopA loopB sub_agg_fixed [OF k])
  moreover have "\<not> (?A = [] \<and> ?B = [])" using split ne by auto
  moreover have "?R ?A @ ?R ?B = flat_bucket a r (prune_falsy (Group k c subs))"
    by (simp only: flat_bucket_Group_prune split flip: concat_append map_append)
  ultimately show ?case
    by (simp add: bucket_json_Group visit_bucket_def Let_def js_get_bucket_key mk_cell_def del: js_get.simps)
qed

section \<open>Properties of the flattener\<close>

lemma visit_buckets_json:
  "\<forall>b \<in> set bs. wf_bucket b \<Longrightarrow> length ixs = length bs \<Longrightarrow>
   exc_fold (visit_bucket getData r a) (zip ixs (map bucket_json bs)) dl
   = Inr (dl @ flat_agg a r (map prune_falsy bs))"
  by (rule visit_buckets_from) (simp_all add: visit_bucket_json)

lemma getData_agg_json:
  assumes "\<forall>b \<in> set bs. wf_bucket b"
  shows "getData (agg_json bs) r a dl = dl @ flat_agg a r (map prune_falsy bs)"
proof -
  have "exc_fold (visit_bucket getData r a) (js_entries (JArr (map bucket_json bs))) dl
        = Inr (dl @ flat_agg a r (map prune_falsy bs))"
    using visit_buckets_json [OF assms, where ixs = "map decimal [0..<length bs]"] by simp
  then show ?thesis
    by (simp add: getData.simps [of "agg_json bs"] js_get_agg_json del: js_entries.simps)
qed

fun metrics_truthy :: "agg_bucket \<Rightarrow> bool" where
  "metrics_truthy (Leaf k c ms) \<longleftrightarrow> (\<forall>(m, v) \<in> set ms. truthy v)"
| "metrics_truthy (Group k c subs) \<longleftrightarrow> (\<forall>(n, bs) \<in> set subs. \<forall>b \<in> set bs. metrics_truthy b)"

lemma prune_falsy_id: "metrics_truthy b \<Longrightarrow> prune_falsy b = b"
proof (induction b)
  case (Leaf k c ms)
  then show ?case by (auto simp: filter_id_conv)
next
  case (Group k c subs)
  then have "map (\<lambda>(n, bs). (n, map prune_falsy bs)) subs = subs"
    by (auto intro!: map_idI simp: map_idI)
  then show ?case by simp
qed

corollary getData_flatten_spec:
  assumes "\<forall>b \<in> set bs. wf_bucket b \<and> metrics_truthy b"
  shows "getData (agg_json bs) r a dl = dl @ flat_agg a r bs"
proof -
  have "map prune_falsy bs = bs" using assms by (auto intro: map_idI prune_falsy_id)
  then show ?thesis using assms getData_agg_json [of bs r a dl] by simp
qed

fun leaf_count :: "agg_bucket \<Rightarrow> nat" where
  "leaf_count (Leaf k c ms) = 1"
| "leaf_count (Group k c subs) = sum_list (map (\<lambda>(n, bs). sum_list (map leaf_count bs)) subs)"

lemma length_flat_bucket [simp]: "length (flat_bucket a r b) = leaf_count b"
  by (induction a r b rule: flat_bucket.induct) (auto simp: length_concat comp_def case_prod_beta intro!: arg_cong [where f = sum_list] map_cong)

lemma leaf_count_prune [simp]: "leaf_count (prune_falsy b) = leaf_count b"
  by (induction b) (auto simp: comp_def case_prod_beta intro!: arg_cong [where f = sum_list] map_cong)

fun leaf_metrics :: "agg_bucket \<Rightarrow> (string \<times> json) list list" where
  "leaf_metrics (Leaf k c ms) = [ms]"
| "leaf_metrics (Group k c subs) = concat (map (\<lambda>(n, bs). concat (map leaf_metrics bs)) subs)"

fun uniform_depth :: "nat \<Rightarrow> agg_bucket \<Rightarrow> bool" where
  "uniform_depth d (Leaf k c ms) \<longleftrightarrow> d = 1"
| "uniform_depth d (Group k c subs) \<longleftrightarrow> 1 < d \<and> (\<forall>(n, bs) \<in> set subs. \<forall>b \<in> set bs. uniform_depth (d - 1) b)"

lemma leaf_metrics_prune:
  "leaf_metrics (prune_falsy b) = map (filter (truthy \<circ> snd)) (leaf_metrics b)"
  by (induction b) (auto simp: map_concat comp_def case_prod_beta intro!: arg_cong [where f = concat] map_cong)

lemma uniform_depth_prune: "uniform_depth d (prune_falsy b) = uniform_depth d b"
  by (induction b arbitrary: d) fastforce+

lemma flat_bucket_lengths:
  "uniform_depth d b \<Longrightarrow> map length (flat_bucket a r b) = map (\<lambda>ms. length r + d + length ms) (leaf_metrics b)"
proof (induction b arbitrary: d a r)
  case (Leaf k c ms)
  then show ?case by simp
next
  case (Group k c subs)
  then have d: "1 < d" by simp
  have "\<And>n bs b. (n, bs) \<in> set subs \<Longrightarrow> b \<in> set bs \<Longrightarrow>
          map length (flat_bucket n (r @ [[(a, k)]]) b) = map (\<lambda>ms. length r + d + length ms) (leaf_metrics b)"
  proof -
    fix n bs b
    assume nbs: "(n, bs) \<in> set subs" and b: "b \<in> set bs"
    with Group.prems have "uniform_depth (d - 1) b" by fastforce
    with nbs b have "map length (flat_bucket n (r @ [[(a, k)]]) b)
          = map (\<lambda>ms. length (r @ [[(a, k)]]) + (d - 1) + length ms) (leaf_metrics b)"
      using Group.IH by fastforce
    with d show "map length (flat_bucket n (r @ [[(a, k)]]) b) = map (\<lambda>ms. length r + d + length ms) (leaf_metrics b)"
      by simp
  qed
  then show ?case
    by (auto simp: map_concat comp_def case_prod_beta intro!: arg_cong [where f = concat] map_cong)
qed

text \<open>
  The null-field case: a bucket with a \<open>null\<close> property makes the first
  \<open>for-in\<close> loop read \<open>null['buckets']\<close>.
\<close>

lemma visit_bucket_null_field:
  assumes "scalar k"
  shows "visit_bucket rec r a (i, JObj [(''key'', k), (p, JNull)]) acc = Inl (TypeError, acc)"
proof -
  have "exc_fold (sub_agg rec (r @ [mk_cell a (Some k)])) (enum_order [(''key'', k), (p, JNull)]) (acc, True)
        = Inl (TypeError, (acc, True))"
    using assms by (cases "is_index p") (simp_all add: enum_order_def sub_agg_def scalar_props plain_names)
  then show ?thesis by (simp add: visit_bucket_def)
qed

lemma zip_upt_append:
  "zip (map decimal [0..<length (xs @ ys)]) (xs @ ys)
   = zip (map decimal [0..<length xs]) xs @ zip (map decimal [length xs..<length xs + length ys]) ys"
proof -
  have "[0..<length xs + length ys] = [0..<length xs] @ [length xs..<length xs + length ys]"
    by (rule upt_add_eq_append) simp
  then have eq: "map decimal [0..<length (xs @ ys)]
                 = map decimal [0..<length xs] @ map decimal [length xs..<length xs + length ys]"
    by (simp only: length_append map_append)
  show ?thesis unfolding eq by (rule zip_append) simp
qed

section \<open>Examples\<close>

text \<open>The scenario of the specification (section 8): two regions, three statuses each,
  one metric \<open>count\<close>.\<close>

lemma flat_bucket_prune_leaf: "flat_bucket a r (prune_falsy (Leaf k c ms)) = flat_bucket a r (Leaf k c ms) \<Longrightarrow> metrics_truthy (Leaf k c ms)"
proof -
  assume "flat_bucket a r (prune_falsy (Leaf k c ms)) = flat_bucket a r (Leaf k c ms)"
  then have "map (\<lambda>(m, v). [(m, v)]) (filter (truthy \<circ> snd) ms) = map (\<lambda>(m, v). [(m, v)]) ms"
    by simp
  then have "length (filter (truthy \<circ> snd) ms) = length ms"
    by (metis length_map)
  then have "filter (truthy \<circ> snd) ms = ms"
    by (metis length_filter_less less_irrefl filter_id_conv)
  then show ?thesis by (auto simp: filter_id_conv)
qed

text \<open>Pruning changes the flattening of a tree exactly when the tree holds a falsy
  metric.\<close>

lemma flat_bucket_prune_eq:
  "flat_bucket a r (prune_falsy b) = flat_bucket a r b \<Longrightarrow> metrics_truthy b"
proof (induction b arbitrary: a r)
  case (Leaf k c ms)
  then show ?case by (rule flat_bucket_prune_leaf)
next
  case (Group k c subs)
  let ?r = "r @ [[(a, k)]]"
  have outer: "\<forall>nb \<in> set subs. concat (map (\<lambda>b. flat_bucket (fst nb) ?r (prune_falsy b)) (snd nb)) = concat (map (flat_bucket (fst nb) ?r) (snd nb))"
  proof (rule concat_map_eq_pieces)
    show "concat (map (\<lambda>nb. concat (map (\<lambda>b. flat_bucket (fst nb) ?r (prune_falsy b)) (snd nb))) subs) =
          concat (map (\<lambda>nb. concat (map (flat_bucket (fst nb) ?r) (snd nb))) subs)"
      using Group.prems by (simp add: case_prod_beta' comp_def)
  next
    fix nb show "length (concat (map (\<lambda>b. flat_bucket (fst nb) ?r (prune_falsy b)) (snd nb))) = length (concat (map (flat_bucket (fst nb) ?r) (snd nb)))"
      by (simp add: length_concat comp_def)
  qed
  show ?case
  proof (clarsimp)
    fix n bs b assume nbs: "(n, bs) \<in> set subs" and b: "b \<in> set bs"
    have "concat (map (\<lambda>b. flat_bucket n ?r (prune_falsy b)) bs) = concat (map (flat_bucket n ?r) bs)"
      using outer nbs by fastforce
    then have "\<forall>b \<in> set bs. flat_bucket n ?r (prune_falsy b) = flat_bucket n ?r b"
      by (rule concat_map_eq_pieces [rotated]) simp
    with b show "metrics_truthy b" using Group.IH nbs by fastforce
  qed
qed


definition region_status :: "agg_bucket list" where
  "region_status =
     [Group (JStr ''north'') 6 [(''status'',
        [Leaf (JStr ''ok'') 1 [(''count'', JNum 1)], Leaf (JStr ''warn'') 2 [(''count'', JNum 2)],
         Leaf (JStr ''fail'') 3 [(''count'', JNum 3)]])],
      Group (JStr ''south'') 9 [(''status'',
        [Leaf (JStr ''ok'') 2 [(''count'', JNum 2)], Leaf (JStr ''warn'') 3 [(''count'', JNum 3)],
         Leaf (JStr ''fail'') 4 [(''count'', JNum 4)]])]]"

definition zero_count :: "agg_bucket list" where
  "zero_count = [Leaf (JStr ''north'') 3 [(''1'', JNum 0)]]"

section \<open>Claims\<close>

text \<open>
  C1 (refinement). On the JSON encoding of a well-formed aggregation tree, \<open>getData\<close>
  appends to \<open>dataList\<close> exactly the rows of the specification's flattening of the
  tree in which metrics with a falsy value have been dropped: one row per leaf, in
  bucket order, the grouping keys of its path followed by its truthy metrics.
\<close>

theorem getData_refines_flatten:
  assumes "\<forall>b \<in> set bs. wf_bucket b"
  shows "getData (agg_json bs) r a dl = dl @ flat_agg a r (map prune_falsy bs)"
  using assms by (rule getData_agg_json)

theorem getData_refines_flatten_witness:
  "list_all wf_bucket region_status \<and>
   getData (agg_json region_status) [] ''region'' [] = [] @ flat_agg ''region'' [] (map prune_falsy region_status)"
proof -
  have wf: "\<forall>b \<in> set region_status. wf_bucket b" by (simp add: region_status_def js_eval)
  show ?thesis using wf getData_refines_flatten [OF wf] by (simp add: list_all_iff)
qed

text \<open>
  C2 (equivalence). When no metric value is falsy, \<open>getData\<close> computes exactly the
  specification's flattening of the tree.
\<close>

theorem getData_equals_spec_flatten:
  assumes "\<forall>b \<in> set bs. wf_bucket b \<and> metrics_truthy b"
  shows "getData (agg_json bs) r a dl = dl @ flat_agg a r bs"
  using assms by (rule getData_flatten_spec)

theorem getData_equals_spec_flatten_witness:
  "list_all (\<lambda>b. wf_bucket b \<and> metrics_truthy b) region_status \<and>
   getData (agg_json region_status) [] ''region'' [] = [] @ flat_agg ''region'' [] region_status"
proof -
  have h: "\<forall>b \<in> set region_status. wf_bucket b \<and> metrics_truthy b"
    by (simp add: region_status_def js_eval)
  show ?thesis using h getData_equals_spec_flatten [OF h] by (simp add: list_all_iff)
qed

text \<open>
  C3 (functional). The number of rows \<open>getData\<close> produces for a well-formed tree
  is its number of leaves, whatever the metric values.
\<close>

theorem getData_row_count:
  assumes "\<forall>b \<in> set bs. wf_bucket b"
  shows "length (getData (agg_json bs) r a []) = sum_list (map leaf_count bs)"
  using getData_agg_json [OF assms, of r a "[]"]
  by (simp add: flat_agg_def length_concat comp_def)

theorem getData_row_count_witness:
  "list_all wf_bucket region_status \<and>
   length (getData (agg_json region_status) [] ''region'' []) = sum_list (map leaf_count region_status)"
proof -
  have wf: "\<forall>b \<in> set region_status. wf_bucket b" by (simp add: region_status_def js_eval)
  show ?thesis using wf getData_row_count [OF wf] by (simp add: list_all_iff)
qed

text \<open>
  C4 (functional). For a tree with \<open>k\<close> grouping levels (every leaf at depth
  \<open>k\<close>), every row has exactly \<open>k\<close> grouping-key cells plus one cell per truthy
  metric of its leaf, the leaves taken in order (specification, section 8).
\<close>

theorem getData_row_shape:
  assumes "\<forall>b \<in> set bs. wf_bucket b \<and> uniform_depth k b"
  shows "map length (getData (agg_json bs) [] a [])
         = map (\<lambda>ms. k + length (filter (truthy \<circ> snd) ms)) (concat (map leaf_metrics bs))"
proof -
  have wf: "\<forall>b \<in> set bs. wf_bucket b" using assms by simp
  have "\<And>b. b \<in> set bs \<Longrightarrow> map length (flat_bucket a [] (prune_falsy b))
          = map (\<lambda>ms. k + length (filter (truthy \<circ> snd) ms)) (leaf_metrics b)"
  proof -
    fix b
    assume "b \<in> set bs"
    with assms have "uniform_depth k (prune_falsy b)" by (simp add: uniform_depth_prune)
    from flat_bucket_lengths [OF this, of a "[]"]
    show "map length (flat_bucket a [] (prune_falsy b))
          = map (\<lambda>ms. k + length (filter (truthy \<circ> snd) ms)) (leaf_metrics b)"
      by (simp add: leaf_metrics_prune)
  qed
  then show ?thesis
    using getData_agg_json [OF wf, of "[]" a "[]"]
    by (simp add: flat_agg_def map_concat comp_def cong: map_cong)
qed

theorem getData_row_shape_witness:
  "list_all (\<lambda>b. wf_bucket b \<and> uniform_depth 2 b) region_status \<and>
   map length (getData (agg_json region_status) [] ''region'' [])
     = map (\<lambda>ms. 2 + length (filter (truthy \<circ> snd) ms)) (concat (map leaf_metrics region_status))"
proof -
  have h: "\<forall>b \<in> set region_status. wf_bucket b \<and> uniform_depth 2 b"
    by (simp add: region_status_def js_eval)
  show ?thesis using h getData_row_shape [OF h] by (simp add: list_all_iff)
qed

text \<open>
  The specification's scenario: grouping by \<open>region\<close> and then by
  \<open>status\<close>, two regions times three statuses and one metric \<open>count\<close>, gives
  exactly six rows of three fields each, \<open>region\<close>, \<open>status\<close>, \<open>count\<close>.
\<close>

theorem getData_region_status:
  "getData (agg_json region_status) [] ''region'' [] =
     [[[(''region'', JStr ''north'')], [(''status'', JStr ''ok'')], [(''count'', JNum 1)]],
      [[(''region'', JStr ''north'')], [(''status'', JStr ''warn'')], [(''count'', JNum 2)]],
      [[(''region'', JStr ''north'')], [(''status'', JStr ''fail'')], [(''count'', JNum 3)]],
      [[(''region'', JStr ''south'')], [(''status'', JStr ''ok'')], [(''count'', JNum 2)]],
      [[(''region'', JStr ''south'')], [(''status'', JStr ''warn'')], [(''count'', JNum 3)]],
      [[(''region'', JStr ''south'')], [(''status'', JStr ''fail'')], [(''count'', JNum 4)]]]"
  by (simp add: getData_agg_json region_status_def js_eval flat_agg_def)

text \<open>
  C6 (functional, a defect). On every well-formed tree \<open>getData\<close> yields the
  specification's flattening exactly when no metric value is falsy: a tree holding
  a metric equal to \<open>0\<close>, \<open>false\<close>, \<open>null\<close> or the empty string always gives
  rows that lack that cell (\<open>if (value)\<close> at line 69 tests truthiness), where the
  specification keeps every metric of the leaf.
\<close>

theorem getData_drops_falsy_metrics:
  assumes "\<forall>b \<in> set bs. wf_bucket b"
  shows "getData (agg_json bs) r a dl = dl @ flat_agg a r bs \<longleftrightarrow> (\<forall>b \<in> set bs. metrics_truthy b)"
proof
  assume "getData (agg_json bs) r a dl = dl @ flat_agg a r bs"
  then have "concat (map (\<lambda>b. flat_bucket a r (prune_falsy b)) bs) = concat (map (flat_bucket a r) bs)"
    using getData_agg_json [OF assms, of r a dl] by (simp add: flat_agg_def comp_def)
  then have "\<forall>b \<in> set bs. flat_bucket a r (prune_falsy b) = flat_bucket a r b"
    by (rule concat_map_eq_pieces [rotated]) simp
  then show "\<forall>b \<in> set bs. metrics_truthy b" by (blast intro: flat_bucket_prune_eq)
next
  assume "\<forall>b \<in> set bs. metrics_truthy b"
  then have "map prune_falsy bs = bs" by (auto intro: map_idI prune_falsy_id)
  then show "getData (agg_json bs) r a dl = dl @ flat_agg a r bs" using getData_agg_json [OF assms, of r a dl] by simp
qed

theorem getData_drops_falsy_metrics_witness:
  "list_all wf_bucket zero_count \<and>
   getData (agg_json zero_count) [] ''2'' [] \<noteq> [] @ flat_agg ''2'' [] zero_count"
proof -
  have w: "\<forall>b \<in> set zero_count. wf_bucket b" by (simp add: zero_count_def js_eval)
  have "\<not> (\<forall>b \<in> set zero_count. metrics_truthy b)" by (simp add: zero_count_def)
  then show ?thesis using w getData_drops_falsy_metrics [OF w, of "[]" "''2''" "[]"] by (simp add: list_all_iff)
qed

text \<open>
  C7 (error). A bucket with a \<open>null\<close> property raises a \<open>TypeError\<close> that the
  \<open>catch\<close> of \<open>getData\<close> swallows: the rows of the buckets before it are kept, and
  that bucket and every later bucket of the same aggregation are silently dropped.
\<close>

theorem getData_null_field_truncates:
  assumes "\<forall>b \<in> set bs. wf_bucket b" and "scalar k"
  shows "getData (JObj [(''buckets'', JArr (map bucket_json bs @ JObj [(''key'', k), (p, JNull)] # rest))]) r a dl
         = dl @ flat_agg a r (map prune_falsy bs)"
proof -
  let ?bad = "JObj [(''key'', k), (p, JNull)]"
  let ?n = "length bs"
  have first: "exc_fold (visit_bucket getData r a) (zip (map decimal [0..<?n]) (map bucket_json bs)) dl
               = Inr (dl @ flat_agg a r (map prune_falsy bs))"
    using assms(1) by (rule visit_buckets_json) simp
  have "zip (map decimal [?n..<?n + length (?bad # rest)]) (?bad # rest)
        = (decimal ?n, ?bad) # zip (map decimal [Suc ?n..<?n + length (?bad # rest)]) rest"
    by (simp add: upt_conv_Cons del: upt_Suc)
  then have second: "exc_fold (visit_bucket getData r a) (zip (map decimal [?n..<?n + length (?bad # rest)]) (?bad # rest))
                       (dl @ flat_agg a r (map prune_falsy bs))
                     = Inl (TypeError, dl @ flat_agg a r (map prune_falsy bs))"
    using visit_bucket_null_field [OF assms(2)] by simp
  have "js_entries (JArr (map bucket_json bs @ ?bad # rest))
        = zip (map decimal [0..<?n]) (map bucket_json bs) @ zip (map decimal [?n..<?n + length (?bad # rest)]) (?bad # rest)"
    using zip_upt_append [of "map bucket_json bs" "?bad # rest"] by simp
  then show ?thesis
    using first second by (simp add: getData.simps [of "JObj _"] exc_fold_append del: js_entries.simps)
qed

theorem getData_null_field_truncates_witness:
  "list_all wf_bucket zero_count \<and> scalar (JStr ''x'') \<and>
   getData (JObj [(''buckets'', JArr (map bucket_json zero_count @ [JObj [(''key'', JStr ''x''), (''avg'', JNull)]]))]) [] ''2'' []
   = [[[(''2'', JStr ''north'')]]]"
proof -
  have wf: "\<forall>b \<in> set zero_count. wf_bucket b" by (simp add: zero_count_def js_eval)
  have sc: "scalar (JStr ''x'')" by simp
  show ?thesis
    using wf sc getData_null_field_truncates [OF wf sc, of "''avg''" "[]" "[]" "''2''" "[]"]
    by (simp add: zero_count_def flat_agg_def list_all_iff)
qed

end
