(* ===== verification/Cron.thy ===== *)
theory Cron
  imports Prelude
begin

text \<open>
  The recurrence of a report: \<open>generateCronExpression\<close> of
  \<open>src/server/utils/index.ts\<close> (lines 11--21) turns the report's \<open>duration\<close> and
  \<open>durationUnit\<close> into the six-field cron string that the create handler hands to
  node-schedule. The string is built by concatenation, as in the source; the amount
  arrives as the string JavaScript makes of it (\<open>decimal n\<close> for a number \<open>n\<close>).

  What a string means is node-schedule's business: its cron parser trims the string,
  splits it at runs of blanks into second, minute, hour, day of month, month and day
  of week, and reads each field as \<open>*\<close>, a number \<open>a\<close>, or a step \<open>*/n\<close> or
  \<open>a/n\<close> (\<open>a\<close>, \<open>a+n\<close>, ... up to the field's maximum). \<open>parse_cron\<close> and
  \<open>cron_fires\<close> model that subset (ranges and lists are not used by the program and
  are read as invalid); a time is a broken-down local time \<open>tm\<close>.
\<close>

section \<open>The source\<close>

definition generateCronExpression :: "string \<Rightarrow> string \<Rightarrow> string" where
  "generateCronExpression duration unit =
     (if unit = ''second'' then ''*/'' @ duration @ '' * * * * *''
      else if unit = ''hour'' then ''0 0 0/'' @ duration @ '' 1/1 * *''
      else if unit = ''day'' then '' 0 0 12 1/1 * *''
      else ''0 0 12 1 1/'' @ duration @ '' *'')"

section \<open>Cron expressions as node-schedule reads them\<close>

datatype cron_field =
    Every            \<comment> \<open>\<open>*\<close>\<close>
  | At nat           \<comment> \<open>\<open>a\<close>\<close>
  | Steps nat nat    \<comment> \<open>\<open>a/n\<close>, and \<open>*/n\<close> from the field's minimum\<close>

definition parse_num :: "nat \<Rightarrow> nat \<Rightarrow> string \<Rightarrow> nat option" where
  "parse_num lo hi s =
     (case parse_decimal s of Some v \<Rightarrow> if lo \<le> v \<and> v \<le> hi then Some v else None | None \<Rightarrow> None)"

definition parse_field :: "nat \<Rightarrow> nat \<Rightarrow> string \<Rightarrow> cron_field option" where
  "parse_field lo hi s =
     (case split_on CHR ''/'' s of
        [a] \<Rightarrow> if a = ''*'' then Some Every else map_option At (parse_num lo hi a)
      | [a, b] \<Rightarrow>
          (case parse_decimal b of
             None \<Rightarrow> None
           | Some n \<Rightarrow>
               if n = 0 then None
               else if a = ''*'' then Some (Steps lo n)
               else map_option (\<lambda>v. Steps v n) (parse_num lo hi a))
      | _ \<Rightarrow> None)"

record cron =
  cr_second :: cron_field
  cr_minute :: cron_field
  cr_hour :: cron_field
  cr_dom :: cron_field
  cr_month :: cron_field
  cr_dow :: cron_field

definition parse_cron :: "string \<Rightarrow> cron option" where
  "parse_cron s =
     (case words s of
        [a, b, c, d, e, f] \<Rightarrow>
          Option.bind (parse_field 0 59 a) (\<lambda>a'.
          Option.bind (parse_field 0 59 b) (\<lambda>b'.
          Option.bind (parse_field 0 23 c) (\<lambda>c'.
          Option.bind (parse_field 1 31 d) (\<lambda>d'.
          Option.bind (parse_field 1 12 e) (\<lambda>e'.
          map_option (\<lambda>f'. \<lparr>cr_second = a', cr_minute = b', cr_hour = c', cr_dom = d',
                             cr_month = e', cr_dow = f'\<rparr>)
            (parse_field 0 7 f))))))
      | _ \<Rightarrow> None)"

fun field_matches :: "nat \<Rightarrow> cron_field \<Rightarrow> nat \<Rightarrow> bool" where
  "field_matches hi Every v \<longleftrightarrow> True"
| "field_matches hi (At a) v \<longleftrightarrow> v = a"
| "field_matches hi (Steps a n) v \<longleftrightarrow> a \<le> v \<and> v \<le> hi \<and> (v - a) mod n = 0"

record tm =
  tm_sec :: nat
  tm_min :: nat
  tm_hour :: nat
  tm_mday :: nat
  tm_mon :: nat     \<comment> \<open>1 to 12\<close>
  tm_wday :: nat    \<comment> \<open>0 (Sunday) to 6\<close>

definition valid_tm :: "tm \<Rightarrow> bool" where
  "valid_tm t \<longleftrightarrow> tm_sec t < 60 \<and> tm_min t < 60 \<and> tm_hour t < 24 \<and>
     1 \<le> tm_mday t \<and> tm_mday t \<le> 31 \<and> 1 \<le> tm_mon t \<and> tm_mon t \<le> 12 \<and> tm_wday t < 7"

text \<open>Day of month and day of week are alternatives when both are restricted, as in
  every cron; the program's expressions leave the day of week at \<open>*\<close>.\<close>

definition fires :: "cron \<Rightarrow> tm \<Rightarrow> bool" where
  "fires c t \<longleftrightarrow>
     field_matches 59 (cr_second c) (tm_sec t) \<and> field_matches 59 (cr_minute c) (tm_min t) \<and>
     field_matches 23 (cr_hour c) (tm_hour t) \<and> field_matches 12 (cr_month c) (tm_mon t) \<and>
     (let dm = field_matches 31 (cr_dom c) (tm_mday t);
          dw = field_matches 7 (cr_dow c) (tm_wday t) \<or>
               (tm_wday t = 0 \<and> field_matches 7 (cr_dow c) 7)
      in if cr_dom c \<noteq> Every \<and> cr_dow c \<noteq> Every then dm \<or> dw else dm \<and> dw)"

definition cron_fires :: "string \<Rightarrow> tm \<Rightarrow> bool" where
  "cron_fires s t = (case parse_cron s of None \<Rightarrow> False | Some c \<Rightarrow> fires c t)"

section \<open>The expressions the program generates\<close>

lemma decimal_no_space: "CHR '' '' \<notin> set (decimal n)" and decimal_no_slash: "CHR ''/'' \<notin> set (decimal n)"
  using digit_not_space by blast+

lemma split_space_decimal:
  "split_on CHR '' '' (decimal n @ rest) = (decimal n @ hd (split_on CHR '' '' rest)) # tl (split_on CHR '' '' rest)"
  by (rule split_on_nomem_prefix) (rule decimal_no_space)

lemma split_slash_decimal: "split_on CHR ''/'' (decimal n) = [decimal n]"
  by (rule split_on_nomem) (rule decimal_no_slash)

lemmas cron_parse_simps = generateCronExpression_def parse_cron_def words_def split_space_decimal
  parse_field_def parse_num_def split_on_nomem_prefix decimal_no_slash split_slash_decimal js_eval parse_digits_decimal

lemma parse_cron_second:
  "parse_cron (generateCronExpression (decimal n) ''second'') =
     (if n = 0 then None else
      Some \<lparr>cr_second = Steps 0 n, cr_minute = Every, cr_hour = Every, cr_dom = Every,
            cr_month = Every, cr_dow = Every\<rparr>)"
  by (simp add: cron_parse_simps)

lemma parse_cron_hour:
  "parse_cron (generateCronExpression (decimal n) ''hour'') =
     (if n = 0 then None else
      Some \<lparr>cr_second = At 0, cr_minute = At 0, cr_hour = Steps 0 n, cr_dom = Steps 1 1,
            cr_month = Every, cr_dow = Every\<rparr>)"
  by (simp add: cron_parse_simps)

lemma parse_cron_day:
  "parse_cron (generateCronExpression d ''day'') =
      Some \<lparr>cr_second = At 0, cr_minute = At 0, cr_hour = At 12, cr_dom = Steps 1 1,
            cr_month = Every, cr_dow = Every\<rparr>"
  by (simp add: cron_parse_simps js_eval)

lemma parse_cron_month:
  "parse_cron (generateCronExpression (decimal n) ''month'') =
     (if n = 0 then None else
      Some \<lparr>cr_second = At 0, cr_minute = At 0, cr_hour = At 12, cr_dom = At 1,
            cr_month = Steps 1 n, cr_dow = Every\<rparr>)"
  by (simp add: cron_parse_simps js_eval)

lemma second_fires_iff:
  "valid_tm t \<Longrightarrow> 0 < n \<Longrightarrow>
   cron_fires (generateCronExpression (decimal n) ''second'') t \<longleftrightarrow> tm_sec t mod n = 0"
  by (simp add: cron_fires_def parse_cron_second fires_def valid_tm_def)

lemma last_multiple_below:
  assumes "0 < (n::nat)" "n * (m div n) < k" "k \<le> m"
  shows "k mod n \<noteq> 0"
proof
  assume "k mod n = 0"
  then have "n dvd k" by (rule mod_0_imp_dvd)
  then obtain q where q: "k = n * q" by (rule dvdE)
  with assms(2) have "m div n < q" by (simp add: mult_less_cancel1)
  then have "n * Suc (m div n) \<le> n * q" by (intro mult_le_mono2) (simp add: Suc_le_eq)
  moreover have "m < n * Suc (m div n)"
  proof -
    have "m = n * (m div n) + m mod n" by simp
    moreover have "m mod n < n" using assms(1) by simp
    ultimately show ?thesis unfolding mult_Suc_right by linarith
  qed
  ultimately show False using q assms(3) by simp
qed

section \<open>Claims\<close>

text \<open>
  C8 (functional). A report every \<open>n\<close> seconds fires at the seconds of each minute
  that are multiples of \<open>n\<close> (\<open>*/n\<close>), whatever the rest of the time.
\<close>

theorem cron_second_fires:
  assumes "valid_tm t" and "0 < n"
  shows "cron_fires (generateCronExpression (decimal n) ''second'') t \<longleftrightarrow> tm_sec t mod n = 0"
  using assms by (rule second_fires_iff)

definition noon_first :: tm where
  "noon_first = \<lparr>tm_sec = 0, tm_min = 0, tm_hour = 12, tm_mday = 1, tm_mon = 1, tm_wday = 3\<rparr>"

theorem cron_second_fires_witness:
  "valid_tm (noon_first\<lparr>tm_sec := 56\<rparr>) \<and> 0 < (7::nat) \<and>
   cron_fires (generateCronExpression (decimal 7) ''second'') (noon_first\<lparr>tm_sec := 56\<rparr>)"
proof -
  have v: "valid_tm (noon_first\<lparr>tm_sec := 56\<rparr>)" by (simp add: valid_tm_def noon_first_def)
  show ?thesis using v cron_second_fires [OF v, of 7] by simp
qed

text \<open>
  C5 (functional, a divergence). For unit \<open>second\<close>, when \<open>n\<close> does not divide
  60 the report does not fire every \<open>n\<close> seconds: after the last multiple of
  \<open>n\<close> in a minute it is silent for the rest of the minute and fires again at
  second 0, a gap of \<open>60 - n * (59 div n)\<close> seconds, which differs from \<open>n\<close>.
\<close>

theorem cron_second_gap:
  assumes "0 < n" and "\<not> n dvd 60" and "valid_tm t" and "tm_sec t = n * (59 div n)"
    and "valid_tm u" and "tm_sec u = 0"
  shows "cron_fires (generateCronExpression (decimal n) ''second'') t \<and>
         (\<forall>k. tm_sec t < k \<and> k < 60 \<longrightarrow>
              \<not> cron_fires (generateCronExpression (decimal n) ''second'') (t\<lparr>tm_sec := k\<rparr>)) \<and>
         cron_fires (generateCronExpression (decimal n) ''second'') u \<and>
         60 - tm_sec t \<noteq> n"
proof (intro conjI allI impI)
  show "cron_fires (generateCronExpression (decimal n) ''second'') t"
    using assms by (simp add: second_fires_iff)
  show "cron_fires (generateCronExpression (decimal n) ''second'') u"
    using assms by (simp add: second_fires_iff)
next
  fix k
  assume k: "tm_sec t < k \<and> k < 60"
  then have "valid_tm (t\<lparr>tm_sec := k\<rparr>)" using assms(3) by (simp add: valid_tm_def)
  moreover have "k mod n \<noteq> 0"
    using last_multiple_below [OF assms(1), of 59 k] k assms(4) by simp
  ultimately show "\<not> cron_fires (generateCronExpression (decimal n) ''second'') (t\<lparr>tm_sec := k\<rparr>)"
    using assms(1) by (simp add: second_fires_iff)
next
  show "60 - tm_sec t \<noteq> n"
  proof
    assume "60 - tm_sec t = n"
    moreover have "tm_sec t < 60" using assms(3) by (simp add: valid_tm_def)
    ultimately have "60 = n * Suc (59 div n)" using assms(4) by simp
    then show False using assms(2) by (metis dvd_triv_left)
  qed
qed

theorem cron_second_gap_witness:
  "0 < (7::nat) \<and> \<not> 7 dvd (60::nat) \<and> valid_tm (noon_first\<lparr>tm_sec := 56\<rparr>) \<and>
   tm_sec (noon_first\<lparr>tm_sec := 56\<rparr>) = 7 * (59 div 7) \<and> valid_tm noon_first \<and> tm_sec noon_first = 0 \<and>
   \<not> cron_fires (generateCronExpression (decimal 7) ''second'') (noon_first\<lparr>tm_sec := 59\<rparr>) \<and>
   60 - tm_sec (noon_first\<lparr>tm_sec := 56\<rparr>) \<noteq> 7"
proof -
  have v1: "valid_tm (noon_first\<lparr>tm_sec := 56\<rparr>)" and v0: "valid_tm noon_first"
    by (simp_all add: valid_tm_def noon_first_def)
  have s1: "tm_sec (noon_first\<lparr>tm_sec := 56\<rparr>) = 7 * (59 div 7)" and s0: "tm_sec noon_first = 0"
    by (simp_all add: noon_first_def)
  have nd: "\<not> (7::nat) dvd 60" by simp
  from cron_second_gap [of 7, OF _ nd v1 s1 v0 s0] show ?thesis
    using v1 v0 s1 s0 nd by auto
qed

text \<open>
  C33 (functional). A report every \<open>n\<close> hours (\<open>0 < n\<close>) fires on the hour at
  the hours of the day that are multiples of \<open>n\<close> (for \<open>n = 3\<close>: 00:00, 03:00,
  06:00, ...), not every \<open>n\<close> hours from its creation.
\<close>

theorem cron_hour_fires:
  assumes "valid_tm t" and "0 < n"
  shows "cron_fires (generateCronExpression (decimal n) ''hour'') t \<longleftrightarrow>
         tm_sec t = 0 \<and> tm_min t = 0 \<and> tm_hour t mod n = 0"
  using assms by (simp add: cron_fires_def parse_cron_hour fires_def valid_tm_def)

theorem cron_hour_fires_witness:
  "valid_tm (noon_first\<lparr>tm_hour := 3\<rparr>) \<and> 0 < (3::nat) \<and>
   cron_fires (generateCronExpression (decimal 3) ''hour'') (noon_first\<lparr>tm_hour := 3\<rparr>) \<and>
   \<not> cron_fires (generateCronExpression (decimal 3) ''hour'') (noon_first\<lparr>tm_hour := 4\<rparr>)"
proof -
  have v3: "valid_tm (noon_first\<lparr>tm_hour := 3\<rparr>)" and v4: "valid_tm (noon_first\<lparr>tm_hour := 4\<rparr>)"
    by (simp_all add: valid_tm_def noon_first_def)
  show ?thesis
    using v3 cron_hour_fires [OF v3, of 3] cron_hour_fires [OF v4, of 3] by (simp add: noon_first_def)
qed

text \<open>
  C11 (functional, the documented quirk). A report with unit \<open>day\<close> fires every day
  at 12:00:00, whatever its amount: \<open>duration\<close> is not used.
\<close>

theorem cron_day_ignores_duration:
  assumes "valid_tm t"
  shows "cron_fires (generateCronExpression d ''day'') t \<longleftrightarrow> tm_sec t = 0 \<and> tm_min t = 0 \<and> tm_hour t = 12"
  using assms by (simp add: cron_fires_def parse_cron_day fires_def valid_tm_def)

theorem cron_day_ignores_duration_witness:
  "valid_tm noon_first \<and> cron_fires (generateCronExpression (decimal 5) ''day'') noon_first \<and>
   cron_fires (generateCronExpression (decimal 1) ''day'') noon_first"
proof -
  have v: "valid_tm noon_first" by (simp add: valid_tm_def noon_first_def)
  show ?thesis using v cron_day_ignores_duration [OF v] by (simp add: noon_first_def)
qed

text \<open>
  A report every \<open>n\<close> months (\<open>0 < n\<close>) fires at 12:00:00 on the
  first day of the months \<open>1, 1 + n, 1 + 2n, ...\<close> of each year.
\<close>

theorem cron_month_fires:
  assumes "valid_tm t" and "0 < n"
  shows "cron_fires (generateCronExpression (decimal n) ''month'') t \<longleftrightarrow>
         tm_sec t = 0 \<and> tm_min t = 0 \<and> tm_hour t = 12 \<and> tm_mday t = 1 \<and> (tm_mon t - 1) mod n = 0"
  using assms by (auto simp add: cron_fires_def parse_cron_month fires_def valid_tm_def)

theorem cron_month_fires_witness:
  "valid_tm (noon_first\<lparr>tm_mon := 4\<rparr>) \<and> 0 < (3::nat) \<and>
   cron_fires (generateCronExpression (decimal 3) ''month'') (noon_first\<lparr>tm_mon := 4\<rparr>)"
proof -
  have v: "valid_tm (noon_first\<lparr>tm_mon := 4\<rparr>)" by (simp add: valid_tm_def noon_first_def)
  show ?thesis using v cron_month_fires [OF v, of 3] by (simp add: noon_first_def)
qed

text \<open>
  C13 (error, a divergence). A unit other than \<open>second\<close>, \<open>hour\<close> and \<open>day\<close> is
  not rejected: it gets the month rule, so \<open>week\<close> or \<open>minute\<close> schedules a
  monthly report.
\<close>

theorem generateCronExpression_other_unit:
  assumes "u \<noteq> ''second''" and "u \<noteq> ''hour''" and "u \<noteq> ''day''"
  shows "generateCronExpression d u = generateCronExpression d ''month''"
  using assms by (simp add: generateCronExpression_def)

theorem generateCronExpression_other_unit_witness:
  "''week'' \<noteq> ''second'' \<and> ''week'' \<noteq> ''hour'' \<and> ''week'' \<noteq> ''day'' \<and>
   generateCronExpression ''2'' ''week'' = ''0 0 12 1 1/2 *''"
proof -
  have h: "''week'' \<noteq> ''second''" "''week'' \<noteq> ''hour''" "''week'' \<noteq> ''day''" by simp_all
  show ?thesis using h generateCronExpression_other_unit [OF h, of "''2''"]
    by (simp add: generateCronExpression_def)
qed

text \<open>
  An amount of 0 gives an expression node-schedule cannot parse for
  every unit but \<open>day\<close> (a step of 0), so no job can be registered for it.
\<close>

theorem cron_zero_amount_unparsable:
  assumes "u \<noteq> ''day''"
  shows "parse_cron (generateCronExpression (decimal 0) u) = None"
  using assms by (simp add: cron_parse_simps)

theorem cron_zero_amount_unparsable_witness:
  "''hour'' \<noteq> ''day'' \<and> parse_cron (generateCronExpression (decimal 0) ''hour'') = None"
  using cron_zero_amount_unparsable [of "''hour''"] by simp

end
