(* ===== verification/Scheduler.thy ===== *)
theory Scheduler
  imports Cron Json "HOL-Library.Word"
begin

text \<open>
  The report scheduler: the three HTTP handlers of \<open>src/server/routes/index.ts\<close>
  (\<open>get_schedules\<close>, \<open>create\<close>, \<open>delete\<close>) over the state they share, node-schedule's
  job table and the Elasticsearch indices that hold the report documents.
  \<^item> \<open>sched\<close> is that state: \<open>store\<close> maps an index name and a document id to the
    stored \<open>Report\<close> (\<open>src/server/models/report.ts\<close>); \<open>jobs\<close> is node-schedule's
    \<open>scheduledJobs\<close>, from a job name to the number of the job registered under it;
    \<open>timers\<close> are the live timers, keyed by the number of their job, each
    with its name, its parsed cron rule and the report snapshot its callback passes
    to \<open>start\<close>.
  \<^item> \<open>scheduleJob\<close> and \<open>cancel_scheduled\<close> are the two node-schedule operations
    the handlers call. Each call creates a new \<open>Job\<close> (numbered by \<open>next_timer\<close>)
    and \<open>Job.prototype.schedule\<close> ends with \<open>scheduledJobs[this.name] = this\<close> whether
    or not the rule parsed, overwriting (not cancelling) a previous job of the same
    name: an unparsable rule leaves an inert job, registered with no timer, and
    \<open>scheduleJob\<close> returns \<open>null\<close>; a valid one also adds the job's timer.
    \<open>scheduledJobs[id].cancel()\<close> removes the job and its timer, and throws a
    \<open>TypeError\<close> when there is no such job.
  \<^item> The outcome of each Elasticsearch request that can fail for reasons outside
    the program (cluster down, index name refused) is an input \<open>es_outcome\<close>; a
    \<open>delete\<close> of a missing document fails with status 404 even when the cluster is up.
  \<^item> A handler that throws yields Kibana's generic 500 response, \<open>InternalError\<close>.
\<close>

unbundle bit_operations_syntax

section \<open>Report documents and requests\<close>

text \<open>The \<open>Report\<close> interface. The handler fills it from a request body validated
  with \<open>schema.any()\<close>, so a field the program does not compute holds whatever JSON
  value the client sent.\<close>

record report =
  r_id :: string
  r_companyId :: string
  r_cronSchedule :: string
  r_visualizationId :: json
  r_receiver :: json
  r_index :: json
  r_request :: json
  r_title :: json
  r_duration :: json
  r_durationUnit :: json
  r_timeFilter :: json
  r_timeFilterUnit :: json
  r_columns :: json

text \<open>The body of \<open>PUT /api/scheduled_reports/create\<close>. \<open>durationUnit\<close> is the value
  of the form's select, a string, when the form sends it; \<open>duration\<close> is the number \<open>1\<close> until the user edits
  the field and the edited text afterwards.\<close>

record create_body =
  b_index :: json
  b_visualizationId :: json
  b_title :: json
  b_request :: json
  b_duration :: json
  b_durationUnit :: json
  b_receiver :: json
  b_timeFilter :: json
  b_timeFilterUnit :: json
  b_columns :: json

datatype response =
    Ok string
  | CustomError "32 word" string
  | InternalError

datatype es_outcome = EsOk | EsFail "32 word option"

section \<open>node-schedule and the report store\<close>

record job =
  j_cron :: cron
  j_report :: report

record sched =
  store :: "string \<Rightarrow> string \<Rightarrow> report option"
  jobs :: "string \<Rightarrow> nat option"
  timers :: "nat \<Rightarrow> (string \<times> job) option"
  next_timer :: nat

definition sched_init :: sched where
  "sched_init = \<lparr>store = (\<lambda>_. Map.empty), jobs = Map.empty, timers = Map.empty, next_timer = 0\<rparr>"

definition scheduleJob :: "string \<Rightarrow> string \<Rightarrow> report \<Rightarrow> sched \<Rightarrow> bool \<times> sched" where
  "scheduleJob name spec r st =
     (case parse_cron spec of
        None \<Rightarrow> (False, st\<lparr>jobs := (jobs st)(name \<mapsto> next_timer st), next_timer := Suc (next_timer st)\<rparr>)
      | Some c \<Rightarrow>
          (True, st\<lparr>jobs := (jobs st)(name \<mapsto> next_timer st),
                    timers := (timers st)(next_timer st \<mapsto> (name, \<lparr>j_cron = c, j_report = r\<rparr>)),
                    next_timer := Suc (next_timer st)\<rparr>))"

definition cancel_scheduled :: "string \<Rightarrow> sched \<Rightarrow> js_error + sched" where
  "cancel_scheduled name st =
     (case jobs st name of
        None \<Rightarrow> Inl TypeError
      | Some k \<Rightarrow> Inr (st\<lparr>timers := (timers st)(k := None), jobs := (jobs st)(name := None)\<rparr>))"

definition es_index ::
  "es_outcome \<Rightarrow> string \<Rightarrow> string \<Rightarrow> report \<Rightarrow> (string \<Rightarrow> string \<Rightarrow> report option)
   \<Rightarrow> 32 word option + (string \<Rightarrow> string \<Rightarrow> report option)" where
  "es_index es ix rid r s =
     (case es of EsFail e \<Rightarrow> Inl e | EsOk \<Rightarrow> Inr (s(ix := (s ix)(rid \<mapsto> r))))"

definition es_delete ::
  "es_outcome \<Rightarrow> string \<Rightarrow> string \<Rightarrow> (string \<Rightarrow> string \<Rightarrow> report option)
   \<Rightarrow> 32 word option + (string \<Rightarrow> string \<Rightarrow> report option)" where
  "es_delete es ix rid s =
     (case es of
        EsFail e \<Rightarrow> Inl e
      | EsOk \<Rightarrow> (case s ix rid of None \<Rightarrow> Inl (Some 404) | Some _ \<Rightarrow> Inr (s(ix := (s ix)(rid := None)))))"

section \<open>The handlers\<close>

text \<open>\<open>statusCode: error.status | 500\<close>: a bitwise or on 32-bit integers, with an
  absent \<open>status\<close> read as 0.\<close>

definition status_code :: "32 word option \<Rightarrow> 32 word" where
  "status_code s = (case s of None \<Rightarrow> 0 | Some w \<Rightarrow> w) OR 500"

text \<open>The tenant of the current user (lines 23--28 and 164--170): the last of its
  roles that is not one of Elasticsearch's default roles, or \<open>undefined\<close>.\<close>

definition company_of_roles :: "string list \<Rightarrow> string list \<Rightarrow> string option" where
  "company_of_roles defaults roles =
     fold (\<lambda>role c. if role \<notin> set defaults then Some role else c) roles None"

definition reports_index :: "string option \<Rightarrow> string" where
  "reports_index c = (case c of None \<Rightarrow> ''undefined'' | Some s \<Rightarrow> s) @ ''-scheduled_reports''"

definition create_report :: "string \<Rightarrow> string \<Rightarrow> string \<Rightarrow> create_body \<Rightarrow> report" where
  "create_report rid companyId cronSchedule body =
     \<lparr>r_id = rid, r_companyId = companyId, r_cronSchedule = cronSchedule,
      r_visualizationId = b_visualizationId body, r_receiver = b_receiver body,
      r_index = b_index body, r_request = b_request body, r_title = b_title body,
      r_duration = b_duration body, r_durationUnit = b_durationUnit body,
      r_timeFilter = b_timeFilter body, r_timeFilterUnit = b_timeFilterUnit body,
      r_columns = b_columns body\<rparr>"

text \<open>\<open>generateCronExpression\<close> tests its unit with \<open>===\<close> against \<open>'second'\<close>,
  \<open>'hour'\<close> and \<open>'day'\<close> and otherwise does not read it. A body's \<open>durationUnit\<close> is
  any JSON value (\<open>schema.any()\<close>); one that is not a string equals none of the three,
  as the empty string does, so \<open>unit_name\<close> passes the string of a string value and the
  empty string for any other.\<close>

definition unit_name :: "json \<Rightarrow> string" where
  "unit_name v = (case v of JStr s \<Rightarrow> s | _ \<Rightarrow> '''')"

lemma unit_name_JStr [simp]: "unit_name (JStr s) = s"
  by (simp add: unit_name_def)

text \<open>The create handler (lines 100--151) with \<open>id = uuidv4()\<close> given. When the
  index request fails, its \<open>catch (e)\<close> reads \<open>error.status\<close>, a name that is not
  bound there: the \<open>ReferenceError\<close> escapes the handler.\<close>

definition create_handler :: "es_outcome \<Rightarrow> string \<Rightarrow> create_body \<Rightarrow> sched \<Rightarrow> response \<times> sched" where
  "create_handler es rid body st =
     (case b_index body of
        JStr ix \<Rightarrow>
          (let companyId = hd (split_on CHR ''-'' ix);
               cronSchedule = generateCronExpression (js_to_string (b_duration body)) (unit_name (b_durationUnit body));
               report = create_report rid companyId cronSchedule body
           in case es_index es (companyId @ ''-scheduled_reports'') rid report (store st) of
                Inl e \<Rightarrow> (InternalError, st)
              | Inr s \<Rightarrow>
                  (Ok ''Your scheduled report has been created successfully.'',
                   snd (scheduleJob rid cronSchedule report (st\<lparr>store := s\<rparr>))))
      | _ \<Rightarrow> (InternalError, st))"

text \<open>The delete handler (lines 161--207): cancel the job, then delete the document
  from the current user's index.\<close>

definition delete_handler ::
  "string list \<Rightarrow> string list \<Rightarrow> es_outcome \<Rightarrow> string \<Rightarrow> sched \<Rightarrow> response \<times> sched" where
  "delete_handler defaults roles es rid st =
     (let companyId = company_of_roles defaults roles in
      case cancel_scheduled rid st of
        Inl e \<Rightarrow>
          (CustomError (status_code None)
             ''Could not delete the scheduled report. Either it does not exist, or somthing went wrong, please try again!'',
           st)
      | Inr st1 \<Rightarrow>
          (case es_delete es (reports_index companyId) rid (store st1) of
             Inl e \<Rightarrow> (CustomError (status_code e) ''Something went wrong, please try again!'', st1)
           | Inr s \<Rightarrow> (Ok ''Your scheduled report has been deleted successfully.'', st1\<lparr>store := s\<rparr>)))"

text \<open>The listing (lines 20--79): one row per hit of a \<open>match_all\<close> search of size
  1000 on the current user's index, numbered from 1. The hits, in the order the
  search returns them, are an input; a failed search escapes the handler.\<close>

record sched_row =
  row_id :: nat
  row_visId :: string
  row_visName :: json
  row_index :: json
  row_reportEvery :: string
  row_timeFilter :: string

fun schedule_rows :: "nat \<Rightarrow> report list \<Rightarrow> sched_row list" where
  "schedule_rows ndx [] = []"
| "schedule_rows ndx (r # rs) =
     \<lparr>row_id = ndx + 1, row_visId = r_id r, row_visName = r_title r, row_index = r_index r,
      row_reportEvery = js_to_string (r_duration r) @ '' '' @ js_to_string (r_durationUnit r),
      row_timeFilter = ''Last '' @ js_to_string (r_timeFilter r) @ '' '' @ js_to_string (r_timeFilterUnit r)\<rparr>
     # schedule_rows (Suc ndx) rs"

definition get_schedules_handler ::
  "string list \<Rightarrow> string list \<Rightarrow> (string \<Rightarrow> report list option) \<Rightarrow> sched_row list option" where
  "get_schedules_handler defaults roles search =
     map_option (\<lambda>hits. schedule_rows 0 (take 1000 hits))
       (search (reports_index (company_of_roles defaults roles)))"

section \<open>Reachable states and the job-table invariant\<close>

text \<open>The states the server can reach: creations with an id under which no job is
  registered (\<open>uuidv4\<close> does not repeat), deletions by any user, and restarts of the
  Kibana process, which lose node-schedule's in-memory jobs and keep the indices
  (\<open>plugin.ts\<close> registers nothing on \<open>start\<close>).\<close>

inductive reachable :: "string list \<Rightarrow> sched \<Rightarrow> bool" for defaults :: "string list" where
  init: "reachable defaults sched_init"
| create: "reachable defaults st \<Longrightarrow> jobs st rid = None \<Longrightarrow>
           reachable defaults (snd (create_handler es rid body st))"
| delete: "reachable defaults st \<Longrightarrow> reachable defaults (snd (delete_handler defaults roles es rid st))"
| restart: "reachable defaults st \<Longrightarrow> reachable defaults (st\<lparr>jobs := Map.empty, timers := Map.empty\<rparr>)"

text \<open>Every registered job has a number already handed out, and no two names share
  one; every live timer belongs to the job \<open>scheduledJobs\<close> holds under its name and
  runs a stored report under that id, with the schedule the report records. A job
  need not have a timer: a failed \<open>schedule\<close> registers an inert one.\<close>

definition timer_ok :: "(string \<Rightarrow> string \<Rightarrow> report option) \<Rightarrow> string \<Rightarrow> job \<Rightarrow> bool" where
  "timer_ok s n j \<longleftrightarrow>
     r_id (j_report j) = n \<and> parse_cron (r_cronSchedule (j_report j)) = Some (j_cron j) \<and>
     s (r_companyId (j_report j) @ ''-scheduled_reports'') n = Some (j_report j)"

definition sched_inv :: "sched \<Rightarrow> bool" where
  "sched_inv st \<longleftrightarrow>
     (\<forall>n k. jobs st n = Some k \<longrightarrow> k < next_timer st \<and> (\<forall>m. jobs st m = Some k \<longrightarrow> m = n)) \<and>
     (\<forall>k n j. timers st k = Some (n, j) \<longrightarrow> jobs st n = Some k \<and> k < next_timer st \<and> timer_ok (store st) n j)"

lemma timer_ok_other:
  "timer_ok s n j \<Longrightarrow> n \<noteq> rid \<Longrightarrow> (\<And>ix. s' ix n = s ix n) \<Longrightarrow> timer_ok s' n j"
  by (simp add: timer_ok_def)

lemma sched_inv_init: "sched_inv sched_init"
  by (simp add: sched_inv_def sched_init_def)

lemma sched_inv_restart: "sched_inv (st\<lparr>jobs := Map.empty, timers := Map.empty\<rparr>)"
  by (simp add: sched_inv_def)

lemma sched_inv_no_timer_named:
  "sched_inv st \<Longrightarrow> jobs st rid = None \<Longrightarrow> timers st k = Some (n, j) \<Longrightarrow> n \<noteq> rid"
  by (auto simp: sched_inv_def)

lemma sched_inv_store_other:
  assumes inv: "sched_inv st" and free: "jobs st rid = None" and s: "\<And>ix n. n \<noteq> rid \<Longrightarrow> s ix n = store st ix n"
  shows "sched_inv (st\<lparr>store := s\<rparr>)"
  unfolding sched_inv_def
proof (rule conjI; intro allI impI)
  fix n k assume "jobs (st\<lparr>store := s\<rparr>) n = Some k"
  then show "k < next_timer (st\<lparr>store := s\<rparr>) \<and> (\<forall>m. jobs (st\<lparr>store := s\<rparr>) m = Some k \<longrightarrow> m = n)"
    using inv by (simp add: sched_inv_def)
next
  fix k n j assume t: "timers (st\<lparr>store := s\<rparr>) k = Some (n, j)"
  then have t': "timers st k = Some (n, j)" by simp
  then have "n \<noteq> rid" using sched_inv_no_timer_named [OF inv free] by simp
  have "jobs st n = Some k \<and> k < next_timer st \<and> timer_ok (store st) n j"
    using inv t' by (simp add: sched_inv_def)
  moreover have "timer_ok s n j" using calculation timer_ok_other [OF _ \<open>n \<noteq> rid\<close>, of "store st" j s] s [OF \<open>n \<noteq> rid\<close>] by simp
  ultimately show "jobs (st\<lparr>store := s\<rparr>) n = Some k \<and> k < next_timer (st\<lparr>store := s\<rparr>) \<and>
      timer_ok (store (st\<lparr>store := s\<rparr>)) n j" by simp
qed

lemma sched_inv_jobs_below: "sched_inv st \<Longrightarrow> jobs st n = Some k \<Longrightarrow> k < next_timer st"
  by (simp add: sched_inv_def)

lemma sched_inv_timers_below: "sched_inv st \<Longrightarrow> timers st k = Some (n, j) \<Longrightarrow> k < next_timer st"
  by (simp add: sched_inv_def)

lemma sched_inv_fresh_timer: "sched_inv st \<Longrightarrow> timers st (next_timer st) = None"
  using sched_inv_timers_below [of st "next_timer st"] by (cases "timers st (next_timer st)") auto

lemma sched_inv_scheduleJob:
  assumes inv: "sched_inv st" and free: "jobs st rid = None" and rid: "r_id r = rid"
    and stored: "store st (r_companyId r @ ''-scheduled_reports'') rid = Some r"
    and spec: "r_cronSchedule r = spec"
  shows "sched_inv (snd (scheduleJob rid spec r st))"
proof -
  have fresh: "timers st (next_timer st) = None" using inv by (rule sched_inv_fresh_timer)
  have no_job: "\<And>n. jobs st n \<noteq> Some (next_timer st)"
    using sched_inv_jobs_below [OF inv] by blast
  have jobs_inj: "\<And>n m k. jobs st n = Some k \<Longrightarrow> jobs st m = Some k \<Longrightarrow> m = n"
    using inv by (simp add: sched_inv_def)
  have old_timer: "\<And>k n j. timers st k = Some (n, j) \<Longrightarrow> jobs st n = Some k \<and> n \<noteq> rid \<and> timer_ok (store st) n j"
    using inv free by (auto simp: sched_inv_def)
  show ?thesis
  proof (cases "parse_cron spec")
    case None
    with fresh no_job show ?thesis
      by (auto simp: scheduleJob_def sched_inv_def less_Suc_eq dest: sched_inv_jobs_below [OF inv]
          sched_inv_timers_below [OF inv] jobs_inj old_timer)
  next
    case (Some c)
    have "timer_ok (store st) rid \<lparr>j_cron = c, j_report = r\<rparr>"
      using Some rid stored spec by (simp add: timer_ok_def)
    with Some fresh no_job show ?thesis
      by (auto simp: scheduleJob_def sched_inv_def less_Suc_eq dest: sched_inv_jobs_below [OF inv]
          sched_inv_timers_below [OF inv] jobs_inj old_timer)
  qed
qed


lemma sched_inv_create:
  assumes inv: "sched_inv st" and free: "jobs st rid = None"
  shows "sched_inv (snd (create_handler es rid body st))"
proof (cases "b_index body")
  case (JStr ix)
  define c where "c = hd (split_on CHR ''-'' ix)"
  define cs where "cs = generateCronExpression (js_to_string (b_duration body)) (unit_name (b_durationUnit body))"
  define r where "r = create_report rid c cs body"
  show ?thesis
  proof (cases es)
    case EsOk
    let ?s = "(store st)(c @ ''-scheduled_reports'' := (store st (c @ ''-scheduled_reports''))(rid \<mapsto> r))"
    have st1: "sched_inv (st\<lparr>store := ?s\<rparr>)" by (rule sched_inv_store_other [OF inv free]) auto
    have "sched_inv (snd (scheduleJob rid cs r (st\<lparr>store := ?s\<rparr>)))"
      by (rule sched_inv_scheduleJob [OF st1]) (simp_all add: free r_def create_report_def)
    then show ?thesis using JStr EsOk by (simp add: create_handler_def es_index_def Let_def c_def cs_def r_def)
  next
    case (EsFail e)
    then show ?thesis using JStr inv by (simp add: create_handler_def es_index_def Let_def)
  qed
qed (simp_all add: create_handler_def inv)

lemma sched_inv_cancel:
  assumes inv: "sched_inv st" and c: "cancel_scheduled rid st = Inr st1"
  shows "sched_inv st1 \<and> jobs st1 rid = None"
proof -
  obtain k where k: "jobs st rid = Some k"
    and st1: "st1 = st\<lparr>timers := (timers st)(k := None), jobs := (jobs st)(rid := None)\<rparr>"
    using c by (auto simp: cancel_scheduled_def split: option.splits)
  have tk: "\<And>k' n j. timers st k' = Some (n, j) \<Longrightarrow> jobs st n = Some k' \<and> k' < next_timer st \<and> timer_ok (store st) n j"
    using inv by (simp add: sched_inv_def)
  have "\<And>n k'. jobs st1 n = Some k' \<Longrightarrow> k' < next_timer st1 \<and> (\<forall>m. jobs st1 m = Some k' \<longrightarrow> m = n)"
    using inv st1 by (auto simp: sched_inv_def split: if_splits)
  moreover have "\<And>k' n j. timers st1 k' = Some (n, j) \<Longrightarrow> jobs st1 n = Some k' \<and> k' < next_timer st1 \<and> timer_ok (store st1) n j"
  proof -
    fix k' n j assume t: "timers st1 k' = Some (n, j)"
    then have "k' \<noteq> k" and t': "timers st k' = Some (n, j)" using st1 by (auto split: if_splits)
    with tk [OF t'] k have "n \<noteq> rid" by auto
    with tk [OF t'] st1 show "jobs st1 n = Some k' \<and> k' < next_timer st1 \<and> timer_ok (store st1) n j" by simp
  qed
  ultimately show ?thesis using st1 by (simp add: sched_inv_def)
qed

lemma sched_inv_delete:
  assumes inv: "sched_inv st"
  shows "sched_inv (snd (delete_handler defaults roles es rid st))"
proof (cases "cancel_scheduled rid st")
  case (Inr st1)
  with sched_inv_cancel [OF inv] have inv1: "sched_inv st1" and free: "jobs st1 rid = None" by auto
  have "sched_inv (st1\<lparr>store := s\<rparr>)" if "es_delete es ix rid (store st1) = Inr s" for ix s
    by (rule sched_inv_store_other [OF inv1 free])
       (use that in \<open>auto simp: es_delete_def split: es_outcome.splits option.splits\<close>)
  with Inr inv1 show ?thesis by (simp add: delete_handler_def Let_def split: sum.split)
qed (simp add: delete_handler_def inv)

lemma reachable_inv: "reachable defaults st \<Longrightarrow> sched_inv st"
proof (induction rule: reachable.induct)
  case init then show ?case by (rule sched_inv_init)
next
  case (create st rid es body) show ?case using create.IH create.hyps(2) by (rule sched_inv_create)
next
  case (delete st roles es rid) show ?case using delete.IH by (rule sched_inv_delete)
next
  case (restart st) show ?case by (rule sched_inv_restart)
qed

section \<open>Example states\<close>

lemma js_to_string_num: "0 \<le> i \<Longrightarrow> js_to_string (JNum i) = decimal (nat i)"
  by (simp add: int_string_def)

definition demo_body :: create_body where
  "demo_body =
     \<lparr>b_index = JStr ''acme-logs'', b_visualizationId = JStr ''vis-1'', b_title = JStr ''Fleet'',
      b_request = JStr ''{}'', b_duration = JNum 3, b_durationUnit = JStr ''hour'',
      b_receiver = JStr ''ops@acme.test'', b_timeFilter = JNum 1, b_timeFilterUnit = JStr ''day'',
      b_columns = JStr ''[]''\<rparr>"

definition demo_state :: sched where
  "demo_state = snd (create_handler EsOk ''r1'' demo_body sched_init)"

lemma demo_cron: "parse_cron (generateCronExpression (js_to_string (b_duration demo_body)) (unit_name (b_durationUnit demo_body)))
   = Some \<lparr>cr_second = At 0, cr_minute = At 0, cr_hour = Steps 0 3, cr_dom = Steps 1 1,
            cr_month = Every, cr_dow = Every\<rparr>"
  using parse_cron_hour [of 3] by (simp add: demo_body_def int_string_def)

lemma demo_state_eval:
  "jobs demo_state = [''r1'' \<mapsto> 0] \<and> next_timer demo_state = 1 \<and>
   timers demo_state 0 = Some (''r1'', \<lparr>j_cron = \<lparr>cr_second = At 0, cr_minute = At 0, cr_hour = Steps 0 3,
      cr_dom = Steps 1 1, cr_month = Every, cr_dow = Every\<rparr>,
      j_report = create_report ''r1'' ''acme'' (generateCronExpression (js_to_string (JNum 3)) ''hour'') demo_body\<rparr>)"
  using demo_cron
  by (simp add: demo_state_def create_handler_def es_index_def scheduleJob_def sched_init_def Let_def demo_body_def)

lemma demo_reachable: "reachable d demo_state"
  unfolding demo_state_def by (rule reachable.create [OF reachable.init]) (simp add: sched_init_def)

definition demo_job :: job where
  "demo_job = \<lparr>j_cron = \<lparr>cr_second = At 0, cr_minute = At 0, cr_hour = Steps 0 3,
      cr_dom = Steps 1 1, cr_month = Every, cr_dow = Every\<rparr>,
      j_report = create_report ''r1'' ''acme'' (generateCronExpression (js_to_string (JNum 3)) ''hour'') demo_body\<rparr>"

lemma demo_facts:
  "reachable [] demo_state" "timers demo_state 0 = Some (''r1'', demo_job)"
  "jobs demo_state ''r1'' = Some 0"
  using demo_reachable demo_state_eval by (simp_all add: demo_job_def)

lemma schedule_rows_ids:
  "map row_id (schedule_rows n hs) = [Suc n..<Suc n + length hs] \<and> length (schedule_rows n hs) = length hs"
  by (induction hs arbitrary: n) (simp_all add: upt_conv_Cons del: upt_Suc)

section \<open>Claims\<close>

text \<open>
  C15 (invariant). In every reachable state each live timer is the job that
  \<open>scheduledJobs\<close> holds under its name, and it runs a report stored in its tenant's
  index under that id, with the schedule parsed from the report's \<open>cronSchedule\<close>.
\<close>

theorem reachable_timer_runs_stored_report:
  assumes "reachable d st" and "timers st k = Some (n, j)"
  shows "jobs st n = Some k \<and> r_id (j_report j) = n \<and>
         parse_cron (r_cronSchedule (j_report j)) = Some (j_cron j) \<and>
         store st (r_companyId (j_report j) @ ''-scheduled_reports'') n = Some (j_report j)"
  using reachable_inv [OF assms(1)] assms(2) by (simp add: sched_inv_def timer_ok_def)

theorem reachable_timer_runs_stored_report_witness:
  "reachable [] demo_state \<and> timers demo_state 0 = Some (''r1'', demo_job) \<and>
   store demo_state ''acme-scheduled_reports'' ''r1'' = Some (j_report demo_job)"
  using reachable_timer_runs_stored_report [OF demo_facts(1,2)] demo_facts
  by (simp add: demo_job_def create_report_def)

text \<open>
  C16 (safety). In every reachable state there is at most one live timer per report
  id: a report is never run by two timers.
\<close>

theorem reachable_one_timer_per_id:
  assumes "reachable d st" and "timers st k1 = Some (n, j1)" and "timers st k2 = Some (n, j2)"
  shows "k1 = k2 \<and> j1 = j2"
proof -
  have inv: "sched_inv st" using assms(1) by (rule reachable_inv)
  have "jobs st n = Some k1" using inv assms(2) by (simp add: sched_inv_def)
  moreover have "jobs st n = Some k2" using inv assms(3) by (simp add: sched_inv_def)
  ultimately have "k1 = k2" by simp
  with assms(2,3) show ?thesis by simp
qed

theorem reachable_one_timer_per_id_witness:
  "reachable [] demo_state \<and> timers demo_state 0 = Some (''r1'', demo_job) \<and> (0::nat) = 0 \<and> demo_job = demo_job"
  using reachable_one_timer_per_id [OF demo_facts(1,2) demo_facts(2)] demo_facts by simp

text \<open>
  C17 (functional). When the index request succeeds and the generated expression
  parses, \<open>create\<close> stores the report in \<open><prefix of index>-scheduled_reports\<close>
  under the new id, registers one timer under that id with the parsed schedule and the
  report as its snapshot, and answers success.
\<close>

theorem create_handler_registers:
  assumes "b_index body = JStr ix"
    and "parse_cron (generateCronExpression (js_to_string (b_duration body)) (unit_name (b_durationUnit body))) = Some c"
  shows "create_handler EsOk rid body st =
     (Ok ''Your scheduled report has been created successfully.'',
      (let ci = hd (split_on CHR ''-'' ix);
           r = create_report rid ci (generateCronExpression (js_to_string (b_duration body)) (unit_name (b_durationUnit body))) body
       in st\<lparr>store := (store st)(ci @ ''-scheduled_reports'' := (store st (ci @ ''-scheduled_reports''))(rid \<mapsto> r)),
             jobs := (jobs st)(rid \<mapsto> next_timer st),
             timers := (timers st)(next_timer st \<mapsto> (rid, \<lparr>j_cron = c, j_report = r\<rparr>)),
             next_timer := Suc (next_timer st)\<rparr>))"
  using assms by (simp add: create_handler_def es_index_def scheduleJob_def Let_def)

theorem create_handler_registers_witness:
  "b_index demo_body = JStr ''acme-logs'' \<and>
   parse_cron (generateCronExpression (js_to_string (b_duration demo_body)) (unit_name (b_durationUnit demo_body))) = Some (j_cron demo_job) \<and>
   jobs (snd (create_handler EsOk ''r1'' demo_body sched_init)) ''r1'' = Some 0"
  using create_handler_registers [of demo_body "''acme-logs''" "j_cron demo_job" "''r1''" sched_init] demo_cron
  by (simp add: demo_body_def demo_job_def sched_init_def Let_def)

text \<open>
  C18 (error, a divergence). When the generated expression does not parse (an
  amount of 0, or text that is not a number), \<open>create\<close> stores the report and
  answers success, but \<open>scheduleJob\<close> returns \<open>null\<close>: the new job is
  registered under the id with no timer (the timer table is unchanged), so the report
  never runs, where the specification requires \<open>InvalidRecurrence\<close>.
\<close>

theorem create_handler_unparsable:
  assumes "b_index body = JStr ix"
    and "parse_cron (generateCronExpression (js_to_string (b_duration body)) (unit_name (b_durationUnit body))) = None"
  shows "create_handler EsOk rid body st =
     (Ok ''Your scheduled report has been created successfully.'',
      (let ci = hd (split_on CHR ''-'' ix);
           r = create_report rid ci (generateCronExpression (js_to_string (b_duration body)) (unit_name (b_durationUnit body))) body
       in st\<lparr>store := (store st)(ci @ ''-scheduled_reports'' := (store st (ci @ ''-scheduled_reports''))(rid \<mapsto> r)),
             jobs := (jobs st)(rid \<mapsto> next_timer st),
             next_timer := Suc (next_timer st)\<rparr>))"
  using assms by (simp add: create_handler_def es_index_def scheduleJob_def Let_def)

theorem create_handler_unparsable_witness:
  "b_index (demo_body\<lparr>b_duration := JNum 0\<rparr>) = JStr ''acme-logs'' \<and>
   parse_cron (generateCronExpression (js_to_string (b_duration (demo_body\<lparr>b_duration := JNum 0\<rparr>)))
     (unit_name (b_durationUnit (demo_body\<lparr>b_duration := JNum 0\<rparr>)))) = None \<and>
   fst (create_handler EsOk ''r2'' (demo_body\<lparr>b_duration := JNum 0\<rparr>) sched_init) = Ok ''Your scheduled report has been created successfully.'' \<and>
   jobs (snd (create_handler EsOk ''r2'' (demo_body\<lparr>b_duration := JNum 0\<rparr>) sched_init)) = [''r2'' \<mapsto> 0] \<and>
   timers (snd (create_handler EsOk ''r2'' (demo_body\<lparr>b_duration := JNum 0\<rparr>) sched_init)) = Map.empty"
proof -
  have h: "b_index (demo_body\<lparr>b_duration := JNum 0\<rparr>) = JStr ''acme-logs''"
    "parse_cron (generateCronExpression (js_to_string (b_duration (demo_body\<lparr>b_duration := JNum 0\<rparr>)))
      (unit_name (b_durationUnit (demo_body\<lparr>b_duration := JNum 0\<rparr>)))) = None"
    using parse_cron_hour [of 0] by (simp_all add: demo_body_def int_string_def)
  show ?thesis using h create_handler_unparsable [OF h, of "''r2''" sched_init] by (simp add: sched_init_def Let_def)
qed

text \<open>
  When the index request fails, \<open>create\<close> does not answer with its
  custom message: the \<open>catch\<close> block reads the unbound name \<open>error\<close> and the
  handler ends with Kibana's internal error; nothing is stored or scheduled.
\<close>

theorem create_handler_store_failure: "create_handler (EsFail e) rid body st = (InternalError, st)"
  by (simp add: create_handler_def es_index_def Let_def split: json.split)

text \<open>
  C20 (error, a divergence). Deleting an id with no registered job answers with a
  500 error and changes nothing, where the specification says \<open>Cancel\<close> of an
  unknown id returns false without an error.
\<close>

theorem delete_handler_unknown_id:
  assumes "jobs st rid = None"
  shows "delete_handler d roles es rid st =
     (CustomError 500 ''Could not delete the scheduled report. Either it does not exist, or somthing went wrong, please try again!'', st)"
  using assms by (simp add: delete_handler_def cancel_scheduled_def status_code_def)

theorem delete_handler_unknown_id_witness:
  "jobs sched_init ''r9'' = None \<and>
   delete_handler [] [''acme''] EsOk ''r9'' sched_init =
     (CustomError 500 ''Could not delete the scheduled report. Either it does not exist, or somthing went wrong, please try again!'', sched_init)"
proof -
  have h: "jobs sched_init ''r9'' = None" by (simp add: sched_init_def)
  show ?thesis using h delete_handler_unknown_id [OF h, of "[]" "[''acme'']" EsOk] by simp
qed

text \<open>
  C21 (error). When the document is not in the deleting user's index (another
  tenant's report, or one whose \<open>index\<close> prefix differs from the user's role),
  \<open>delete\<close> answers with an error, yet the timer has already been cancelled: the
  report stays stored and never runs again.
\<close>

theorem delete_handler_missing_document:
  assumes "jobs st rid = Some k" and "store st (reports_index (company_of_roles d roles)) rid = None"
  shows "delete_handler d roles EsOk rid st =
     (CustomError 500 ''Something went wrong, please try again!'',
      st\<lparr>timers := (timers st)(k := None), jobs := (jobs st)(rid := None)\<rparr>)"
  using assms by (simp add: delete_handler_def cancel_scheduled_def es_delete_def status_code_def)

theorem delete_handler_missing_document_witness:
  "jobs demo_state ''r1'' = Some 0 \<and>
   store demo_state (reports_index (company_of_roles [''superuser''] [''superuser'', ''beta''])) ''r1'' = None \<and>
   fst (delete_handler [''superuser''] [''superuser'', ''beta''] EsOk ''r1'' demo_state)
     = CustomError 500 ''Something went wrong, please try again!'' \<and>
   jobs (snd (delete_handler [''superuser''] [''superuser'', ''beta''] EsOk ''r1'' demo_state)) ''r1'' = None \<and>
   store (snd (delete_handler [''superuser''] [''superuser'', ''beta''] EsOk ''r1'' demo_state)) ''acme-scheduled_reports'' ''r1''
     = Some (j_report demo_job)"
proof -
  have st: "store demo_state ''acme-scheduled_reports'' ''r1'' = Some (j_report demo_job)"
    and other: "store demo_state ''beta-scheduled_reports'' = Map.empty"
    by (simp_all add: demo_state_def create_handler_def es_index_def scheduleJob_def sched_init_def
        Let_def demo_body_def demo_job_def split: option.split)
  have h: "jobs demo_state ''r1'' = Some 0"
    "store demo_state (reports_index (company_of_roles [''superuser''] [''superuser'', ''beta''])) ''r1'' = None"
    using demo_facts(3) other by (simp_all add: reports_index_def company_of_roles_def)
  show ?thesis using h st delete_handler_missing_document [OF h] by simp
qed

text \<open>
  C23 (roundtrip). In every reachable state, creating a report with a fresh id and
  then deleting it, by a user whose tenant is the prefix of the report's index, both
  succeed and leave the state as it was, whether or not the schedule parsed (an
  inert job is cancelled like a live one): only the job counter has moved on.
\<close>

theorem create_then_delete:
  assumes "reachable d st" and "jobs st rid = None"
    and "b_index body = JStr ix"
    and "company_of_roles d roles = Some (hd (split_on CHR ''-'' ix))"
    and "store st (hd (split_on CHR ''-'' ix) @ ''-scheduled_reports'') rid = None"
  shows "delete_handler d roles EsOk rid (snd (create_handler EsOk rid body st)) =
           (Ok ''Your scheduled report has been deleted successfully.'', st\<lparr>next_timer := Suc (next_timer st)\<rparr>)"
proof -
  have fresh: "timers st (next_timer st) = None"
    using reachable_inv [OF assms(1)] by (rule sched_inv_fresh_timer)
  show ?thesis
    using assms(2-5) fresh
    by (simp add: create_handler_def es_index_def scheduleJob_def delete_handler_def cancel_scheduled_def
        es_delete_def reports_index_def fun_upd_idem Let_def split: option.split)
qed

theorem create_then_delete_witness:
  "reachable [] sched_init \<and> jobs sched_init ''r2'' = None \<and>
   b_index (demo_body\<lparr>b_duration := JNum 0\<rparr>) = JStr ''acme-logs'' \<and>
   company_of_roles [] [''acme''] = Some (hd (split_on CHR ''-'' ''acme-logs'')) \<and>
   store sched_init (hd (split_on CHR ''-'' ''acme-logs'') @ ''-scheduled_reports'') ''r2'' = None \<and>
   delete_handler [] [''acme''] EsOk ''r2'' (snd (create_handler EsOk ''r2'' (demo_body\<lparr>b_duration := JNum 0\<rparr>) sched_init)) =
     (Ok ''Your scheduled report has been deleted successfully.'', sched_init\<lparr>next_timer := 1\<rparr>)"
proof -
  have r: "reachable [] sched_init" by (rule reachable.init)
  have h: "reachable [] sched_init" "jobs sched_init ''r2'' = None"
    "b_index (demo_body\<lparr>b_duration := JNum 0\<rparr>) = JStr ''acme-logs''"
    "company_of_roles [] [''acme''] = Some (hd (split_on CHR ''-'' ''acme-logs''))"
    "store sched_init (hd (split_on CHR ''-'' ''acme-logs'') @ ''-scheduled_reports'') ''r2'' = None"
    using r by (simp_all add: sched_init_def demo_body_def company_of_roles_def)
  show ?thesis using h create_then_delete [OF h] by (simp add: sched_init_def)
qed
text \<open>
  C22 (bounds). \<open>error.status | 500\<close> is a bitwise or: for any status below 512
  the answer's status lies between 500 and 511, so a 404 becomes 500 and a 409
  becomes 509; the original status is never passed on.
\<close>

theorem status_code_range:
  assumes "s < 512"
  shows "500 \<le> status_code (Some s) \<and> status_code (Some s) < 512"
proof
  show "500 \<le> status_code (Some s)" unfolding status_code_def by (rule le_word_or1)
  have "uint s < 2 ^ 9" using assms by (simp add: word_less_def)
  then have "uint s OR uint (500::32 word) < 2 ^ 9" by (rule OR_upper [OF uint_ge_0]) simp
  then show "status_code (Some s) < 512" by (simp add: status_code_def word_less_def unsigned_or_eq)
qed

theorem status_code_range_witness:
  "(409::32 word) < 512 \<and> 500 \<le> status_code (Some 409) \<and> status_code (Some 409) = 509"
  using status_code_range [of 409] by (simp add: status_code_def)

text \<open>
  The listing numbers its rows \<open>1, 2, ...\<close> in the order of the
  hits and shows at most 1000 reports.
\<close>

theorem get_schedules_numbered:
  assumes "get_schedules_handler d roles search = Some rows"
  shows "map row_id rows = [1..<Suc (length rows)] \<and> length rows \<le> 1000"
proof -
  obtain hs where rows: "rows = schedule_rows 0 (take 1000 hs)"
    using assms by (auto simp: get_schedules_handler_def)
  then show ?thesis using schedule_rows_ids [of 0 "take 1000 hs"] by (simp del: upt_Suc)
qed

theorem get_schedules_numbered_witness:
  "get_schedules_handler [] [''acme''] (\<lambda>ix. Some [j_report demo_job, j_report demo_job])
     = Some (schedule_rows 0 [j_report demo_job, j_report demo_job]) \<and>
   map row_id (schedule_rows 0 [j_report demo_job, j_report demo_job]) = [1, 2]"
  using get_schedules_numbered [of "[]" "[''acme'']" "\<lambda>ix. Some [j_report demo_job, j_report demo_job]"
      "schedule_rows 0 [j_report demo_job, j_report demo_job]"]
  by (simp add: get_schedules_handler_def)

text \<open>
  A restart of the server keeps every stored report
  and leaves no live timer: nothing re-registers the stored reports (the plugin's
  \<open>start\<close> is empty), where the specification requires a warm start.
\<close>

theorem restart_keeps_reports_without_timers:
  assumes "reachable d st"
  shows "reachable d (st\<lparr>jobs := Map.empty, timers := Map.empty\<rparr>) \<and>
         store (st\<lparr>jobs := Map.empty, timers := Map.empty\<rparr>) = store st \<and>
         (\<forall>k. timers (st\<lparr>jobs := Map.empty, timers := Map.empty\<rparr>) k = None)"
  using assms by (simp add: reachable.restart)

theorem restart_keeps_reports_without_timers_witness:
  "reachable [] demo_state \<and> reachable [] (demo_state\<lparr>jobs := Map.empty, timers := Map.empty\<rparr>) \<and>
   store (demo_state\<lparr>jobs := Map.empty, timers := Map.empty\<rparr>) ''acme-scheduled_reports'' ''r1'' \<noteq> None"
proof -
  have st: "store demo_state ''acme-scheduled_reports'' ''r1'' \<noteq> None"
    by (simp add: demo_state_def create_handler_def es_index_def scheduleJob_def sched_init_def
        Let_def demo_body_def split: option.split)
  show ?thesis using restart_keeps_reports_without_timers [OF demo_facts(1)] demo_facts(1) st by simp
qed

end
