(* ===== verification/Columns.thy ===== *)
theory Columns
  imports Flatten
begin

text \<open>
  The column reconciler and the spreadsheet writer: \<open>getColumns\<close> and
  \<open>createExcel\<close> of \<open>src/server/utils/index.ts\<close> (lines 139--148 and 86--137).
  \<open>getColumns\<close> turns the report's parsed column list into exceljs column
  descriptors \<open>{header, key}\<close>. \<open>createExcel\<close> orders those descriptors by the cells
  of the first row (\<open>sortedColumns\<close>), reads the \<open>i\<close>-th cell of every row under the
  key of the \<open>i\<close>-th sorted column, appends the title and the time window, and writes
  the file. The model returns the worksheet the workbook would hold when the file is
  written (\<open>sheet\<close>), or the error that rejects the promise, in which case no file
  is written. A row cell is the object \<open>JSON.parse\<close> gives back from the string
  \<open>getData\<close> stored, the \<open>cell\<close> of Flatten.thy. Dates are a type parameter.

  Loose equality \<open>i == columns[j].key\<close> between a property name and a column key is
  modelled for string keys (equality) and number keys (the canonical decimal form);
  JavaScript also equates numeric strings with leading zeros or blanks to numbers,
  and a boolean key to \<open>''1''\<close> or \<open>''0''\<close>, cases the column lists of the program
  (names of aggregations and metrics) do not produce.
\<close>

section \<open>The source\<close>

record column =
  col_header :: "json option"
  col_key :: "json option"

text \<open>One iteration of the loop of \<open>getColumns\<close>: \<open>{header: cols[i].name, key: cols[i].key}\<close>.\<close>

definition column_of :: "json \<Rightarrow> js_error + column" where
  "column_of c =
     (case js_get c ''name'' of
        Inl e \<Rightarrow> Inl e
      | Inr h \<Rightarrow> (case js_get c ''key'' of Inl e \<Rightarrow> Inl e | Inr k \<Rightarrow> Inr \<lparr>col_header = h, col_key = k\<rparr>))"

text \<open>\<open>for (let i = 0; i < cols.length; i++)\<close>: an array is walked element by element,
  a string character by character (a character has neither \<open>name\<close> nor \<open>key\<close>),
  \<open>null\<close> has no \<open>length\<close> and throws, and for a number, a boolean or an object the
  length is \<open>undefined\<close> and the loop does not run.\<close>

definition getColumns :: "json \<Rightarrow> js_error + column list" where
  "getColumns cols =
     (case cols of
        JArr xs \<Rightarrow> map_exc column_of xs
      | JStr s \<Rightarrow> Inr (map (\<lambda>_. \<lparr>col_header = None, col_key = None\<rparr>) s)
      | JNull \<Rightarrow> Inl TypeError
      | _ \<Rightarrow> Inr [])"

definition key_matches :: "string \<Rightarrow> json option \<Rightarrow> bool" where
  "key_matches k v = (case v of Some (JStr s) \<Rightarrow> k = s | Some (JNum n) \<Rightarrow> k = int_string n | _ \<Rightarrow> False)"

text \<open>Lines 104--117: for every cell of the first row, for every property of the
  cell, every column whose key equals the property name, in the order of
  \<open>columns\<close>.\<close>

definition cell_columns :: "column list \<Rightarrow> cell \<Rightarrow> column list" where
  "cell_columns cols c = concat (map (\<lambda>kv. filter (\<lambda>col. key_matches (fst kv) (col_key col)) cols) (enum_order c))"

definition sorted_columns :: "cell list list \<Rightarrow> column list \<Rightarrow> column list" where
  "sorted_columns dl cols = (case dl of [] \<Rightarrow> [] | r0 # _ \<Rightarrow> concat (map (cell_columns cols) r0))"

text \<open>\<open>jsonObj[key]\<close>: the key converted to a property name.\<close>

definition prop_name :: "json option \<Rightarrow> string" where
  "prop_name k = (case k of None \<Rightarrow> ''undefined'' | Some v \<Rightarrow> js_to_string v)"

definition cell_value :: "cell \<Rightarrow> json option \<Rightarrow> json option" where
  "cell_value c k = map_of c (prop_name k)"

text \<open>Lines 121--127 for one row: the \<open>i\<close>-th cell under the key of the \<open>i\<close>-th sorted
  column; past the last sorted column \<open>sortedColumns[i]\<close> is \<open>undefined\<close> and reading
  its \<open>key\<close> throws.\<close>

fun render_row :: "column list \<Rightarrow> nat \<Rightarrow> cell list \<Rightarrow> js_error + json option list" where
  "render_row sc i [] = Inr []"
| "render_row sc i (c # cs) =
     (if i < length sc then
        (case render_row sc (Suc i) cs of
           Inl e \<Rightarrow> Inl e
         | Inr vs \<Rightarrow> Inr (cell_value c (col_key (sc ! i)) # vs))
      else Inl TypeError)"

datatype 'd xcell = XVal "json option" | XText string | XDate 'd

record 'd sheet =
  sh_columns :: "column list"
  sh_rows :: "'d xcell list list"

definition summary_rows :: "json \<Rightarrow> 'd \<Rightarrow> 'd \<Rightarrow> 'd xcell list list" where
  "summary_rows title gte lte =
     [[], [], [XText ''Title'', XVal (Some title)], [XText ''From'', XDate gte], [XText ''To'', XDate lte]]"

definition createExcel ::
  "json \<Rightarrow> 'd \<Rightarrow> 'd \<Rightarrow> cell list list \<Rightarrow> column list \<Rightarrow> js_error + 'd sheet" where
  "createExcel title gte lte dl cols =
     (let sc = sorted_columns dl cols in
      case map_exc (render_row sc 0) dl of
        Inl e \<Rightarrow> Inl e
      | Inr rs \<Rightarrow> Inr \<lparr>sh_columns = sc, sh_rows = map (map XVal) rs @ summary_rows title gte lte\<rparr>)"

section \<open>Rows and columns\<close>

lemma render_row_closed:
  "render_row sc i r =
     (if r = [] \<or> i + length r \<le> length sc then Inr (map2 (\<lambda>c col. cell_value c (col_key col)) r (drop i sc))
      else Inl TypeError)"
proof (induction r arbitrary: i)
  case Nil then show ?case by simp
next
  case (Cons c cs)
  show ?case
  proof (cases "i < length sc")
    case True
    then have "drop i sc = sc ! i # drop (Suc i) sc" by (rule Cons_nth_drop_Suc [symmetric])
    show ?thesis
    proof (cases "Suc i + length cs \<le> length sc")
      case True
      with \<open>drop i sc = sc ! i # drop (Suc i) sc\<close> \<open>i < length sc\<close> Cons.IH [of "Suc i"] show ?thesis by simp
    next
      case False
      with \<open>i < length sc\<close> have "cs \<noteq> []" by auto
      with False \<open>i < length sc\<close> Cons.IH [of "Suc i"] show ?thesis by simp
    qed
  next
    case False then show ?thesis by simp
  qed
qed

lemma render_row_error: "render_row sc i r = Inl e \<Longrightarrow> e = TypeError"
  by (simp add: render_row_closed split: if_splits)

lemma sorted_columns_length:
  "(\<And>c. c \<in> set r0 \<Longrightarrow> length (cell_columns cols c) = 1) \<Longrightarrow>
   length (sorted_columns (r0 # rs) cols) = length r0"
  by (simp add: sorted_columns_def length_concat comp_def sum_list_triv cong: map_cong)

lemma createExcel_Inr:
  assumes "\<forall>r \<in> set dl. length r \<le> length (sorted_columns dl cols)"
  shows "createExcel title gte lte dl cols =
     Inr \<lparr>sh_columns = sorted_columns dl cols,
          sh_rows = map (\<lambda>r. map XVal (map2 (\<lambda>c col. cell_value c (col_key col)) r (sorted_columns dl cols))) dl
                    @ summary_rows title gte lte\<rparr>"
proof -
  have "map_exc (render_row (sorted_columns dl cols) 0) dl
        = Inr (map (\<lambda>r. map2 (\<lambda>c col. cell_value c (col_key col)) r (sorted_columns dl cols)) dl)"
    by (rule map_exc_Inr) (use assms in \<open>simp add: render_row_closed\<close>)
  then show ?thesis by (simp add: createExcel_def Let_def)
qed

section \<open>Examples\<close>

definition region_col :: column where
  "region_col = \<lparr>col_header = Some (JStr ''Region''), col_key = Some (JStr ''region'')\<rparr>"

definition count_col :: column where
  "count_col = \<lparr>col_header = Some (JStr ''Count''), col_key = Some (JStr ''count'')\<rparr>"

definition demo_rows :: "cell list list" where
  "demo_rows = [[[(''region'', JStr ''north'')], [(''count'', JNum 3)]],
                [[(''region'', JStr ''south'')], [(''count'', JNum 5)]]]"

lemma demo_sorted: "sorted_columns demo_rows [count_col, region_col] = [region_col, count_col]"
  by (simp add: demo_rows_def sorted_columns_def cell_columns_def key_matches_def region_col_def
      count_col_def js_eval)

section \<open>Claims\<close>

text \<open>
  C25 (functional). When no row has more cells than there are sorted columns,
  \<open>createExcel\<close> writes the columns sorted by the first row and, for each row in
  order, its \<open>i\<close>-th cell read under the \<open>i\<close>-th sorted column's key, followed by
  two empty rows and the title and time-window rows.
\<close>

theorem createExcel_rows:
  assumes "\<forall>r \<in> set dl. length r \<le> length (sorted_columns dl cols)"
  shows "createExcel title gte lte dl cols =
     Inr \<lparr>sh_columns = sorted_columns dl cols,
          sh_rows = map (\<lambda>r. map XVal (map2 (\<lambda>c col. cell_value c (col_key col)) r (sorted_columns dl cols))) dl
                    @ summary_rows title gte lte\<rparr>"
  using assms by (rule createExcel_Inr)

theorem createExcel_rows_witness:
  "list_all (\<lambda>r. length r \<le> length (sorted_columns demo_rows [count_col, region_col])) demo_rows \<and>
   sh_rows (projr (createExcel (JStr ''Fleet'') (0::int) 1 demo_rows [count_col, region_col])) =
     [[XVal (Some (JStr ''north'')), XVal (Some (JNum 3))], [XVal (Some (JStr ''south'')), XVal (Some (JNum 5))]]
     @ summary_rows (JStr ''Fleet'') 0 1"
proof -
  have h: "\<forall>r \<in> set demo_rows. length r \<le> length (sorted_columns demo_rows [count_col, region_col])"
    unfolding demo_sorted by (simp add: demo_rows_def)
  have eq: "createExcel (JStr ''Fleet'') (0::int) 1 demo_rows [count_col, region_col] =
     Inr \<lparr>sh_columns = [region_col, count_col],
          sh_rows = map (\<lambda>r. map XVal (map2 (\<lambda>c col. cell_value c (col_key col)) r [region_col, count_col])) demo_rows
                    @ summary_rows (JStr ''Fleet'') 0 1\<rparr>"
    using createExcel_rows [OF h, of "JStr ''Fleet''" "0::int" 1] unfolding demo_sorted .
  show ?thesis using h unfolding eq list_all_iff
    by (simp add: demo_rows_def cell_value_def prop_name_def region_col_def count_col_def)
qed

text \<open>
  C26 (functional). When every cell of the first row matches exactly one declared
  column and every row has as many cells as the first, the sheet is rectangular: it
  has one column per cell of the first row and every data line fills all of them.
\<close>

theorem createExcel_rectangular:
  assumes "\<forall>c \<in> set r0. length (cell_columns cols c) = 1" and "\<forall>r \<in> set rs. length r = length r0"
  shows "createExcel title gte lte (r0 # rs) cols =
     Inr \<lparr>sh_columns = sorted_columns (r0 # rs) cols,
          sh_rows = map (\<lambda>r. map XVal (map2 (\<lambda>c col. cell_value c (col_key col)) r (sorted_columns (r0 # rs) cols))) (r0 # rs)
                    @ summary_rows title gte lte\<rparr> \<and>
     length (sorted_columns (r0 # rs) cols) = length r0 \<and>
     list_all (\<lambda>r. length (map2 (\<lambda>c col. cell_value c (col_key col)) r (sorted_columns (r0 # rs) cols)) = length r0) (r0 # rs)"
proof -
  have len: "length (sorted_columns (r0 # rs) cols) = length r0"
    using assms(1) by (intro sorted_columns_length) simp
  have "\<forall>r \<in> set (r0 # rs). length r \<le> length (sorted_columns (r0 # rs) cols)"
    using assms(2) len by simp
  from createExcel_Inr [OF this, of title gte lte] len assms(2) show ?thesis
    by (simp add: list_all_iff)
qed

theorem createExcel_rectangular_witness:
  "list_all (\<lambda>c. length (cell_columns [count_col, region_col] c) = 1) (hd demo_rows) \<and>
   list_all (\<lambda>r. length r = length (hd demo_rows)) (tl demo_rows) \<and>
   length (sorted_columns demo_rows [count_col, region_col]) = 2"
proof -
  have h1: "\<forall>c \<in> set (hd demo_rows). length (cell_columns [count_col, region_col] c) = 1"
    by (simp add: demo_rows_def cell_columns_def key_matches_def region_col_def count_col_def js_eval)
  have h2: "\<forall>r \<in> set (tl demo_rows). length r = length (hd demo_rows)" by (simp add: demo_rows_def)
  have eq: "hd demo_rows # tl demo_rows = demo_rows" by (simp add: demo_rows_def)
  show ?thesis using h1 h2 createExcel_rectangular [OF h1 h2, of "JStr ''Fleet''" "0::int" 1]
    by (simp add: list_all_iff eq) (simp add: demo_rows_def)
qed

text \<open>
  C27 (error). A row with more cells than there are sorted columns makes
  \<open>sortedColumns[i].key\<close> throw a \<open>TypeError\<close>: the promise rejects and no file is
  written, whatever the other rows hold.
\<close>

theorem createExcel_row_too_long:
  assumes "r \<in> set dl" and "length (sorted_columns dl cols) < length r"
  shows "createExcel title gte lte dl cols = Inl TypeError"
proof -
  have "map_exc (render_row (sorted_columns dl cols) 0) dl = Inl TypeError"
  proof (rule map_exc_Inl_same [OF assms(1)])
    show "render_row (sorted_columns dl cols) 0 r = Inl TypeError"
      using assms(2) by (cases r) (simp_all add: render_row_closed)
  next
    fix y e' assume "render_row (sorted_columns dl cols) 0 y = Inl e'"
    then show "e' = TypeError" by (rule render_row_error)
  qed
  then show ?thesis unfolding createExcel_def Let_def by simp
qed

theorem createExcel_row_too_long_witness:
  "[[(''region'', JStr ''south'')], [(''count'', JNum 5)]] \<in> set [[[(''region'', JStr ''north'')]], [[(''region'', JStr ''south'')], [(''count'', JNum 5)]]] \<and>
   length (sorted_columns [[[(''region'', JStr ''north'')]], [[(''region'', JStr ''south'')], [(''count'', JNum 5)]]] [count_col, region_col]) < 2 \<and>
   createExcel (JStr ''Fleet'') (0::int) 1 [[[(''region'', JStr ''north'')]], [[(''region'', JStr ''south'')], [(''count'', JNum 5)]]] [count_col, region_col]
     = Inl TypeError"
proof -
  have h: "[[(''region'', JStr ''south'')], [(''count'', JNum 5)]] \<in> set [[[(''region'', JStr ''north'')]], [[(''region'', JStr ''south'')], [(''count'', JNum 5)]]]"
    "length (sorted_columns [[[(''region'', JStr ''north'')]], [[(''region'', JStr ''south'')], [(''count'', JNum 5)]]] [count_col, region_col])
       < length [[(''region'', JStr ''south'')], [(''count'', JNum 5)]]"
    by (simp_all add: sorted_columns_def cell_columns_def key_matches_def region_col_def count_col_def js_eval)
  show ?thesis using h createExcel_row_too_long [OF h, of "JStr ''Fleet''" "0::int" 1] by simp
qed

text \<open>
  C28 (roundtrip). \<open>getColumns\<close> reads back the name and the key of every entry of
  a column list, in order.
\<close>

theorem getColumns_roundtrip:
  "getColumns (JArr (map (\<lambda>(n, k). JObj [(''name'', n), (''key'', k)]) ps))
   = Inr (map (\<lambda>(n, k). \<lparr>col_header = Some n, col_key = Some k\<rparr>) ps)"
proof -
  have "map_exc (\<lambda>p. column_of ((\<lambda>(n, k). JObj [(''name'', n), (''key'', k)]) p)) ps
        = Inr (map (\<lambda>(n, k). \<lparr>col_header = Some n, col_key = Some k\<rparr>) ps)"
    by (rule map_exc_Inr) (auto simp: column_of_def)
  then show ?thesis by (simp add: getColumns_def map_exc_map)
qed

end
