(* ===== verification/TimeWindow.thy ===== *)
theory TimeWindow
  imports Json
begin

text \<open>
  The time-window rewriter: lines 156--184 of \<open>start\<close> in
  \<open>src/server/utils/index.ts\<close>. It takes \<open>gte\<close> and \<open>lte\<close> to be the current time,
  moves \<open>gte\<close> back by the report's \<open>timeFilter\<close> in hours, days or months with the
  JavaScript \<open>Date\<close> setters, finds the first filter of the query with a \<open>range\<close>,
  and writes the two dates into its \<open>timestamp\<close>, \<open>messageTime\<close> or \<open>fireTime\<close>
  clause.

  A \<open>Date\<close> is its time value, milliseconds since the epoch, or \<open>None\<close> for an
  invalid date (the time value \<open>NaN\<close>). The calendar functions are those of the
  ECMAScript specification (Day, DayFromYear, YearFromTime, MonthFromTime,
  DateFromTime, MakeTime, MakeDay, MakeDate, TimeClip), with the year and month of a
  day found by a search whose result is proved to be the one the specification
  describes. Local time is taken to be UTC: the server's time zone and its
  daylight-saving changes are not modelled.
\<close>

section \<open>The calendar of ECMAScript time values\<close>

definition ms_per_day :: int where "ms_per_day = 86400000"

definition leap_year :: "int \<Rightarrow> bool" where
  "leap_year y \<longleftrightarrow> (y mod 4 = 0 \<and> y mod 100 \<noteq> 0) \<or> y mod 400 = 0"

definition days_in_year :: "int \<Rightarrow> int" where
  "days_in_year y = (if leap_year y then 366 else 365)"

definition DayFromYear :: "int \<Rightarrow> int" where
  "DayFromYear y = 365 * (y - 1970) + (y - 1969) div 4 - (y - 1901) div 100 + (y - 1601) div 400"

definition days_in_month :: "int \<Rightarrow> int \<Rightarrow> int" where
  "days_in_month y m =
     [31, if leap_year y then 29 else 28, 31, 30, 31, 30, 31, 31, 30, 31, 30, 31] ! nat m"

definition days_before_month :: "int \<Rightarrow> int \<Rightarrow> int" where
  "days_before_month y m = sum_list (map (\<lambda>i. days_in_month y (int i)) [0..<nat m])"

text \<open>The year of a day: from an estimate, step back while the day precedes the
  year and forward while it lies past its end. \<open>r\<close> is the day relative to the start
  of year \<open>y\<close>.\<close>

function year_search :: "int \<Rightarrow> int \<Rightarrow> int \<times> int" where
  "year_search y r =
     (if r < 0 then year_search (y - 1) (r + days_in_year (y - 1))
      else if days_in_year y \<le> r then year_search (y + 1) (r - days_in_year y)
      else (y, r))"
  by pat_completeness auto
termination
  by (relation "measure (\<lambda>(y, r). if r < 0 then nat (- r) + 400 else nat r)")
     (auto simp: days_in_year_def split: if_splits)

function month_search :: "int \<Rightarrow> nat \<Rightarrow> int \<Rightarrow> nat \<times> int" where
  "month_search y m r =
     (if m < 11 \<and> days_in_month y (int m) \<le> r then month_search y (Suc m) (r - days_in_month y (int m))
      else (m, r))"
  by pat_completeness auto
termination by (relation "measure (\<lambda>(y, m, r). 11 - m)") auto

declare year_search.simps [simp del] month_search.simps [simp del]

definition Day :: "int \<Rightarrow> int" where "Day t = t div ms_per_day"

definition TimeWithinDay :: "int \<Rightarrow> int" where "TimeWithinDay t = t mod ms_per_day"

text \<open>Year, month (0--11) and date (1--31) of a day number.\<close>

definition year_month_date :: "int \<Rightarrow> int \<times> int \<times> int" where
  "year_month_date z =
     (let y0 = 1970 + z div 366;
          (y, r) = year_search y0 (z - DayFromYear y0);
          (m, d) = month_search y 0 r
      in (y, int m, d + 1))"

definition YearFromTime :: "int \<Rightarrow> int" where "YearFromTime t = fst (year_month_date (Day t))"
definition MonthFromTime :: "int \<Rightarrow> int" where "MonthFromTime t = fst (snd (year_month_date (Day t)))"
definition DateFromTime :: "int \<Rightarrow> int" where "DateFromTime t = snd (snd (year_month_date (Day t)))"
definition HourFromTime :: "int \<Rightarrow> int" where "HourFromTime t = (t div 3600000) mod 24"
definition MinFromTime :: "int \<Rightarrow> int" where "MinFromTime t = (t div 60000) mod 60"
definition SecFromTime :: "int \<Rightarrow> int" where "SecFromTime t = (t div 1000) mod 60"
definition msFromTime :: "int \<Rightarrow> int" where "msFromTime t = t mod 1000"

definition MakeTime :: "int \<Rightarrow> int \<Rightarrow> int \<Rightarrow> int \<Rightarrow> int" where
  "MakeTime h m s ms = h * 3600000 + m * 60000 + s * 1000 + ms"

definition MakeDay :: "int \<Rightarrow> int \<Rightarrow> int \<Rightarrow> int" where
  "MakeDay y m d =
     (let ym = y + m div 12; mn = m mod 12 in DayFromYear ym + days_before_month ym mn + d - 1)"

definition MakeDate :: "int \<Rightarrow> int \<Rightarrow> int" where
  "MakeDate day time = day * ms_per_day + time"

definition TimeClip :: "int \<Rightarrow> int option" where
  "TimeClip t = (if \<bar>t\<bar> \<le> 8640000000000000 then Some t else None)"

section \<open>The searches compute the calendar\<close>

lemma div_succ_int:
  assumes "(1::int) < n"
  shows "(a + 1) div n = a div n + (if (a + 1) mod n = 0 then 1 else 0)"
proof -
  have r: "0 \<le> a mod n" "a mod n < n" using assms by simp_all
  have "(a + 1) div n = a div n + 1 div n + (a mod n + 1 mod n) div n" by (rule div_add1_eq)
  moreover have "1 div n = 0" "1 mod n = 1" using assms by simp_all
  moreover have "(a mod n + 1) div n = (if (a + 1) mod n = 0 then 1 else 0)"
  proof (cases "a mod n + 1 = n")
    case True
    have "(a + 1) mod n = (a mod n + 1) mod n" by (simp add: mod_add_left_eq)
    with True assms show ?thesis by simp
  next
    case False
    with r have lt: "a mod n + 1 < n" by simp
    have "(a + 1) mod n = (a mod n + 1) mod n" by (simp add: mod_add_left_eq)
    also have "\<dots> = a mod n + 1" using lt r by (simp add: mod_pos_pos_trivial)
    finally show ?thesis using lt r by (simp add: div_pos_pos_trivial)
  qed
  ultimately show ?thesis by simp
qed

lemma shift_mod: "(y - 1968) mod (4::int) = y mod 4" "(y - 1900) mod (100::int) = y mod 100"
  "(y - 1600) mod (400::int) = y mod 400"
  by (simp_all add: mod_diff_right_eq [symmetric, of y])

lemma DayFromYear_Suc: "DayFromYear (y + 1) = DayFromYear y + days_in_year y"
proof -
  have a: "(y + 1 - 1969) div 4 = (y - 1969) div 4 + (if y mod 4 = 0 then 1 else 0)"
    using div_succ_int [of 4 "y - 1969"] shift_mod(1) by simp
  have b: "(y + 1 - 1901) div 100 = (y - 1901) div 100 + (if y mod 100 = 0 then 1 else 0)"
    using div_succ_int [of 100 "y - 1901"] shift_mod(2) by simp
  have c: "(y + 1 - 1601) div 400 = (y - 1601) div 400 + (if y mod 400 = 0 then 1 else 0)"
    using div_succ_int [of 400 "y - 1601"] shift_mod(3) by simp
  have d: "y mod 400 = 0 \<Longrightarrow> y mod 100 = 0" and e: "y mod 100 = 0 \<Longrightarrow> y mod 4 = 0"
    by (auto elim!: dvdE simp: dvd_eq_mod_eq_0 [symmetric]) 
  show ?thesis using d e unfolding DayFromYear_def a b c days_in_year_def leap_year_def by auto
qed

lemma year_search_spec:
  "year_search y r = (y', r') \<Longrightarrow>
   DayFromYear y' + r' = DayFromYear y + r \<and> 0 \<le> r' \<and> r' < days_in_year y'"
proof (induction y r rule: year_search.induct)
  case (1 y r)
  have p: "DayFromYear y = DayFromYear (y - 1) + days_in_year (y - 1)"
    using DayFromYear_Suc [of "y - 1"] by simp
  show ?case
  proof (cases "r < 0")
    case True
    with "1.prems" have "year_search (y - 1) (r + days_in_year (y - 1)) = (y', r')"
      by (simp add: year_search.simps [of y r])
    with "1.IH"(1) True p show ?thesis by simp
  next
    case False
    show ?thesis
    proof (cases "days_in_year y \<le> r")
      case True
      with False "1.prems" have "year_search (y + 1) (r - days_in_year y) = (y', r')"
        by (simp add: year_search.simps [of y r])
      with "1.IH"(2) False True show ?thesis by (simp add: DayFromYear_Suc)
    next
      case False': False
      with False "1.prems" show ?thesis by (simp add: year_search.simps [of y r])
    qed
  qed
qed

lemma days_in_year_pos: "0 < days_in_year y"
  by (simp add: days_in_year_def)

lemma DayFromYear_mono: "y1 < y2 \<Longrightarrow> DayFromYear (y1 + 1) \<le> DayFromYear y2"
proof (induction "nat (y2 - y1)" arbitrary: y2)
  case 0 then show ?case by simp
next
  case (Suc k)
  show ?case
  proof (cases "y1 + 1 = y2")
    case True then show ?thesis by simp
  next
    case False
    with Suc.prems have "y1 < y2 - 1" by simp
    moreover from Suc.hyps(2) have "k = nat (y2 - 1 - y1)" by simp
    ultimately have "DayFromYear (y1 + 1) \<le> DayFromYear (y2 - 1)" using Suc.hyps(1) by blast
    moreover have "DayFromYear y2 = DayFromYear (y2 - 1) + days_in_year (y2 - 1)"
      using DayFromYear_Suc [of "y2 - 1"] by simp
    ultimately show ?thesis using days_in_year_pos [of "y2 - 1"] by simp
  qed
qed

lemma year_unique:
  assumes "DayFromYear y1 \<le> z" "z < DayFromYear y1 + days_in_year y1"
    and "DayFromYear y2 \<le> z" "z < DayFromYear y2 + days_in_year y2"
  shows "y1 = y2"
proof (rule ccontr)
  assume "y1 \<noteq> y2"
  then consider "y1 < y2" | "y2 < y1" by linarith
  then show False
  proof cases
    case 1
    then have "DayFromYear (y1 + 1) \<le> DayFromYear y2" by (rule DayFromYear_mono)
    with assms DayFromYear_Suc [of y1] show False by simp
  next
    case 2
    then have "DayFromYear (y2 + 1) \<le> DayFromYear y1" by (rule DayFromYear_mono)
    with assms DayFromYear_Suc [of y2] show False by simp
  qed
qed

lemma days_in_month_pos: "m < 12 \<Longrightarrow> 0 < days_in_month y (int m)"
  by (simp add: days_in_month_def nth_Cons' eval_nat_numeral)

lemma days_before_month_Suc:
  "days_before_month y (1 + int m) = days_before_month y (int m) + days_in_month y (int m)"
proof -
  have "nat (1 + int m) = Suc m" by simp
  then show ?thesis by (simp add: days_before_month_def)
qed

lemma days_before_month_mono:
  "k \<le> m \<Longrightarrow> m \<le> 12 \<Longrightarrow> days_before_month y (int k) \<le> days_before_month y (int m)"
proof (induction m)
  case (Suc m)
  show ?case
  proof (cases "k = Suc m")
    case False
    with Suc.prems have "days_before_month y (int k) \<le> days_before_month y (int m)" using Suc.IH by simp
    with days_in_month_pos [of m y] Suc.prems show ?thesis by (simp add: days_before_month_Suc)
  qed simp
qed simp

lemma days_before_month_12: "days_before_month y 12 = days_in_year y"
  by (simp add: days_before_month_def days_in_month_def days_in_year_def eval_nat_numeral upt_rec)

lemma month_search_spec:
  "month_search y m r = (m', r') \<Longrightarrow> m \<le> 11 \<Longrightarrow> 0 \<le> r \<Longrightarrow>
   days_before_month y (int m) + r = days_before_month y (int m') + r' \<and> 0 \<le> r' \<and> m \<le> m' \<and> m' \<le> 11 \<and>
   (m' < 11 \<longrightarrow> r' < days_in_month y (int m'))"
proof (induction y m r rule: month_search.induct)
  case (1 y m r)
  show ?case
  proof (cases "m < 11 \<and> days_in_month y (int m) \<le> r")
    case True
    with "1.prems"(1) have "month_search y (Suc m) (r - days_in_month y (int m)) = (m', r')"
      by (simp add: month_search.simps [of y m r])
    with "1.IH" [OF True] True "1.prems"(3) show ?thesis by (simp add: days_before_month_Suc)
  next
    case False
    with "1.prems" show ?thesis by (auto simp: month_search.simps [of y m r])
  qed
qed

lemma month_search_exact:
  "k \<le> m \<Longrightarrow> m \<le> 11 \<Longrightarrow> 0 \<le> e \<Longrightarrow> e < days_in_month y (int m) \<Longrightarrow>
   month_search y k (days_before_month y (int m) - days_before_month y (int k) + e) = (m, e)"
proof (induction "m - k" arbitrary: k)
  case 0
  then have "k = m" by simp
  with "0.prems" show ?case by (simp add: month_search.simps)
next
  case (Suc j)
  then have km: "k < m" by simp
  have le: "days_in_month y (int k) \<le> days_before_month y (int m) - days_before_month y (int k) + e"
  proof -
    have "days_before_month y (int (Suc k)) \<le> days_before_month y (int m)"
      using km Suc.prems(2) by (intro days_before_month_mono) simp_all
    then show ?thesis using Suc.prems(3) by (simp add: days_before_month_Suc)
  qed
  have "month_search y (Suc k) (days_before_month y (int m) - days_before_month y (int (Suc k)) + e) = (m, e)"
    using Suc.hyps(1) [of "Suc k"] Suc.hyps(2) km Suc.prems by simp
  with km Suc.prems(2) le show ?case
    by (simp add: month_search.simps [of y k] days_before_month_Suc algebra_simps)
qed

lemma days_before_month_0 [simp]: "days_before_month y 0 = 0"
  by (simp add: days_before_month_def)

lemma days_in_month_11: "days_before_month y 11 + days_in_month y 11 = days_in_year y"
  using days_before_month_Suc [of y 11] days_before_month_12 [of y] by simp

lemma MakeDay_year_month_date:
  assumes "year_month_date z = (y, m, d)"
  shows "MakeDay y m d = z \<and> 0 \<le> m \<and> m < 12 \<and> 1 \<le> d \<and> d \<le> days_in_month y m"
proof -
  define y0 where "y0 = 1970 + z div 366"
  obtain y1 r where ys: "year_search y0 (z - DayFromYear y0) = (y1, r)" by fastforce
  obtain m1 r1 where ms: "month_search y1 0 r = (m1, r1)" by fastforce
  have eq: "y = y1" "m = int m1" "d = r1 + 1"
    using assms ys ms by (simp_all add: year_month_date_def y0_def [symmetric] Let_def)
  from year_search_spec [OF ys] have z: "DayFromYear y1 + r = z" and r: "0 \<le> r" "r < days_in_year y1" by simp_all
  from month_search_spec [OF ms _ r(1)] have
    m: "r = days_before_month y1 (int m1) + r1" "0 \<le> r1" "m1 \<le> 11" "m1 < 11 \<longrightarrow> r1 < days_in_month y1 (int m1)"
    by simp_all
  have "r1 < days_in_month y1 (int m1)"
  proof (cases "m1 < 11")
    case False
    with m(3) have "m1 = 11" by simp
    with m(1) r(2) days_in_month_11 [of y1] show ?thesis by simp
  qed (use m(4) in simp)
  moreover have "int m1 div 12 = 0" "int m1 mod 12 = int m1" using m(3) by simp_all
  ultimately show ?thesis using eq z m by (simp add: MakeDay_def)
qed

lemma year_month_date_MakeDay:
  assumes "m < 12" and "1 \<le> d" and "d \<le> days_in_month y (int m)"
  shows "year_month_date (MakeDay y (int m) d) = (y, int m, d)"
proof -
  define z where "z = MakeDay y (int m) d"
  have zdef: "z = DayFromYear y + days_before_month y (int m) + d - 1"
    using assms(1) by (simp add: z_def MakeDay_def)
  have "days_before_month y (1 + int m) \<le> days_before_month y 12"
    using days_before_month_mono [of "Suc m" 12 y] assms(1) by simp
  then have lt: "z < DayFromYear y + days_in_year y"
    using assms(3) zdef by (simp add: days_before_month_Suc days_before_month_12)
  have ge: "DayFromYear y \<le> z"
    using zdef assms(2) days_before_month_mono [of 0 m y] assms(1) by simp
  define y0 where "y0 = 1970 + z div 366"
  obtain y1 r where ys: "year_search y0 (z - DayFromYear y0) = (y1, r)" by fastforce
  from year_search_spec [OF ys] have z1: "DayFromYear y1 + r = z" and r: "0 \<le> r" "r < days_in_year y1"
    by simp_all
  have "y1 = y" using year_unique [of y1 z y] z1 r ge lt by simp
  with z1 zdef have r_eq: "r = days_before_month y (int m) - days_before_month y (int 0) + (d - 1)" by simp
  have "month_search y 0 r = (m, d - 1)"
    unfolding r_eq by (rule month_search_exact) (use assms in simp_all)
  then show ?thesis using ys \<open>y1 = y\<close>
    by (simp add: year_month_date_def y0_def [symmetric] z_def [symmetric] Let_def)
qed

section \<open>Date objects\<close>

text \<open>A \<open>Date\<close>: its time value, or \<open>None\<close> when it is \<open>NaN\<close> (an invalid date). A
  number operand that is not a number is \<open>None\<close> as well.\<close>

type_synonym date = "int option"

definition sub_num :: "int option \<Rightarrow> int option \<Rightarrow> int option" where
  "sub_num a b = (case (a, b) of (Some x, Some y) \<Rightarrow> Some (x - y) | _ \<Rightarrow> None)"

text \<open>\<open>Date.prototype.setHours(hour)\<close>, \<open>setDate(date)\<close> and \<open>setMonth(month)\<close> with
  one argument each.\<close>

definition setHours :: "date \<Rightarrow> int option \<Rightarrow> date" where
  "setHours d h =
     (case (d, h) of
        (Some t, Some hh) \<Rightarrow> TimeClip (MakeDate (Day t) (MakeTime hh (MinFromTime t) (SecFromTime t) (msFromTime t)))
      | _ \<Rightarrow> None)"

definition setDate :: "date \<Rightarrow> int option \<Rightarrow> date" where
  "setDate d dt =
     (case (d, dt) of
        (Some t, Some n) \<Rightarrow> TimeClip (MakeDate (MakeDay (YearFromTime t) (MonthFromTime t) n) (TimeWithinDay t))
      | _ \<Rightarrow> None)"

definition setMonth :: "date \<Rightarrow> int option \<Rightarrow> date" where
  "setMonth d m =
     (case (d, m) of
        (Some t, Some n) \<Rightarrow>
          TimeClip (MakeDate (MakeDay (YearFromTime t) n (DateFromTime t)) (TimeWithinDay t))
      | _ \<Rightarrow> None)"

text \<open>\<open>ToNumber\<close> of the report's \<open>timeFilter\<close> in \<open>getHours() - report.timeFilter\<close>:
  a number, \<open>null\<close> as 0, a boolean as 0 or 1, a string of decimal digits with an
  optional minus sign, the empty string as 0. Strings with blanks, fractions or
  exponents and arrays of one number (which JavaScript also converts) are read as
  \<open>NaN\<close> here.\<close>

definition js_to_int :: "json \<Rightarrow> int option" where
  "js_to_int v =
     (case v of
        JNum i \<Rightarrow> Some i
      | JNull \<Rightarrow> Some 0
      | JBool b \<Rightarrow> Some (if b then 1 else 0)
      | JStr s \<Rightarrow>
          (if s = [] then Some 0
           else if hd s = CHR ''-'' then map_option (\<lambda>n. - int n) (parse_decimal (tl s))
           else map_option int (parse_decimal s))
      | _ \<Rightarrow> None)"

text \<open>Lines 168--174: move \<open>gte\<close> back by \<open>timeFilter\<close> units.\<close>

definition window_start :: "json \<Rightarrow> json \<Rightarrow> date \<Rightarrow> date" where
  "window_start unit amt gte =
     (if unit = JStr ''hour'' then setHours gte (sub_num (map_option HourFromTime gte) (js_to_int amt))
      else if unit = JStr ''day'' then setDate gte (sub_num (map_option DateFromTime gte) (js_to_int amt))
      else if unit = JStr ''month'' then setMonth gte (sub_num (map_option MonthFromTime gte) (js_to_int amt))
      else gte)"

text \<open>\<open>JSON.stringify\<close> writes a \<open>Date\<close> through \<open>toJSON\<close>: \<open>null\<close> for an invalid
  date, else \<open>toISOString()\<close>, \<open>YYYY-MM-DDTHH:mm:ss.sssZ\<close> with a six-digit signed
  year outside 0--9999.\<close>

definition pad :: "nat \<Rightarrow> string \<Rightarrow> string" where
  "pad n s = replicate (n - length s) CHR ''0'' @ s"

definition iso_string :: "int \<Rightarrow> string" where
  "iso_string t =
     (let (y, m, d) = year_month_date (Day t);
          ys = (if 0 \<le> y \<and> y \<le> 9999 then pad 4 (decimal (nat y))
                else (if y < 0 then ''-'' else ''+'') @ pad 6 (decimal (nat \<bar>y\<bar>)))
      in ys @ ''-'' @ pad 2 (decimal (nat (m + 1))) @ ''-'' @ pad 2 (decimal (nat d)) @ ''T'' @
         pad 2 (decimal (nat (HourFromTime t))) @ '':'' @ pad 2 (decimal (nat (MinFromTime t))) @ '':'' @
         pad 2 (decimal (nat (SecFromTime t))) @ ''.'' @ pad 3 (decimal (nat (msFromTime t))) @ ''Z'')"

definition date_json :: "date \<Rightarrow> json" where
  "date_json d = (case d of None \<Rightarrow> JNull | Some t \<Rightarrow> JStr (iso_string t))"

section \<open>Assignment to the parsed query\<close>

text \<open>\<open>o[k] = w\<close> in strict mode on the tree \<open>JSON.parse\<close> built (no sharing, no
  repeated keys): an existing property keeps its place, a new one is added last; an
  array index past the end extends the array with holes, which \<open>JSON.stringify\<close>
  writes as \<open>null\<close>; a named property of an array is not serialised; a primitive or
  \<open>null\<close> throws. Writing \<open>length\<close> is not modelled (the program never does).\<close>

fun js_set :: "json \<Rightarrow> string \<Rightarrow> json \<Rightarrow> js_error + json" where
  "js_set (JObj kvs) k w =
     Inr (JObj (if map_of kvs k \<noteq> None then map (\<lambda>(k', v). if k' = k then (k', w) else (k', v)) kvs
                else kvs @ [(k, w)]))"
| "js_set (JArr xs) k w =
     (case array_index k of
        Some i \<Rightarrow> Inr (JArr (if i < length xs then xs[i := w] else xs @ replicate (i - length xs) JNull @ [w]))
      | None \<Rightarrow> Inr (JArr xs))"
| "js_set _ k w = Inl TypeError"

text \<open>\<open>v.k1.k2...kn\<close>: reading a property of \<open>undefined\<close> throws.\<close>

fun js_path :: "json option \<Rightarrow> string list \<Rightarrow> js_error + json option" where
  "js_path v [] = Inr v"
| "js_path v (k # ks) = (case js_get_opt v k of Inl e \<Rightarrow> Inl e | Inr w \<Rightarrow> js_path w ks)"

text \<open>\<open>v.k1...kn = w\<close>: read down to the object that owns \<open>kn\<close>, then assign.\<close>

fun js_set_path :: "json \<Rightarrow> string list \<Rightarrow> json \<Rightarrow> js_error + json" where
  "js_set_path v [] w = Inr w"
| "js_set_path v [k] w = js_set v k w"
| "js_set_path v (k # k' # ks) w =
     (case js_get v k of
        Inl e \<Rightarrow> Inl e
      | Inr None \<Rightarrow> Inl TypeError
      | Inr (Some u) \<Rightarrow> (case js_set_path u (k' # ks) w of Inl e \<Rightarrow> Inl e | Inr u' \<Rightarrow> js_set v k u'))"

section \<open>The rewrite\<close>

definition range_fields :: "string list" where
  "range_fields = [''timestamp'', ''messageTime'', ''fireTime'']"

text \<open>The elements \<open>for (let i = 0; i < filters.length; i++)\<close> visits.\<close>

definition filter_elems :: "json option \<Rightarrow> js_error + json list" where
  "filter_elems f =
     (case f of
        None \<Rightarrow> Inl TypeError
      | Some JNull \<Rightarrow> Inl TypeError
      | Some (JArr xs) \<Rightarrow> Inr xs
      | Some (JStr s) \<Rightarrow> Inr (map (\<lambda>c. JStr [c]) s)
      | Some _ \<Rightarrow> Inr [])"

text \<open>Lines 159--166: the index of the first filter with a truthy \<open>range\<close>, 0 when
  there is none.\<close>

fun find_range :: "nat \<Rightarrow> json list \<Rightarrow> js_error + nat" where
  "find_range i [] = Inr 0"
| "find_range i (f # fs) =
     (case js_get f ''range'' of
        Inl e \<Rightarrow> Inl e
      | Inr r \<Rightarrow> if truthy_opt r then Inr i else find_range (Suc i) fs)"

text \<open>Lines 176--185: the first of the known fields that is truthy in the range clause.\<close>

fun pick_field :: "json option \<Rightarrow> string list \<Rightarrow> js_error + string option" where
  "pick_field r [] = Inr None"
| "pick_field r (f # fs) =
     (case js_get_opt r f of Inl e \<Rightarrow> Inl e | Inr v \<Rightarrow> if truthy_opt v then Inr (Some f) else pick_field r fs)"

definition range_path :: "nat \<Rightarrow> string list" where
  "range_path i = [''query'', ''bool'', ''filter'', decimal i, ''range'']"

text \<open>Lines 156--185 after \<open>JSON.parse\<close>: \<open>gte\<close> and \<open>lte\<close> are two readings of the clock.\<close>

definition rewrite_window :: "json \<Rightarrow> json \<Rightarrow> date \<Rightarrow> date \<Rightarrow> json \<Rightarrow> js_error + json" where
  "rewrite_window unit amt now_gte now_lte request =
     (case js_path (Some request) [''query'', ''bool'', ''filter''] of
        Inl e \<Rightarrow> Inl e
      | Inr filters \<Rightarrow>
          (case filter_elems filters of
             Inl e \<Rightarrow> Inl e
           | Inr fs \<Rightarrow>
               (case find_range 0 fs of
                  Inl e \<Rightarrow> Inl e
                | Inr idx \<Rightarrow>
                    (let gte = window_start unit amt now_gte in
                     case js_path (Some request) (range_path idx) of
                       Inl e \<Rightarrow> Inl e
                     | Inr rng \<Rightarrow>
                         (case pick_field rng range_fields of
                            Inl e \<Rightarrow> Inl e
                          | Inr None \<Rightarrow> Inr request
                          | Inr (Some f) \<Rightarrow>
                              (case js_set_path request (range_path idx @ [f, ''gte'']) (date_json gte) of
                                 Inl e \<Rightarrow> Inl e
                               | Inr r1 \<Rightarrow> js_set_path r1 (range_path idx @ [f, ''lte'']) (date_json now_lte)))))))"

section \<open>The window\<close>

lemma time_within_day:
  "TimeWithinDay t = MakeTime (HourFromTime t) (MinFromTime t) (SecFromTime t) (msFromTime t)"
proof -
  have a0: "t mod (3600000 * 24) = 3600000 * (t div 3600000 mod 24) + t mod 3600000"
    by (rule zmod_zmult2_eq) simp
  have b0: "t mod (60000 * 60) = 60000 * (t div 60000 mod 60) + t mod 60000"
    by (rule zmod_zmult2_eq) simp
  have c0: "t mod (1000 * 60) = 1000 * (t div 1000 mod 60) + t mod 1000"
    by (rule zmod_zmult2_eq) simp
  have n: "(3600000::int) * 24 = 86400000" "(60000::int) * 60 = 3600000" "(1000::int) * 60 = 60000"
    by simp_all
  note a = a0 [unfolded n] and b = b0 [unfolded n] and c = c0 [unfolded n]
  show ?thesis
    unfolding TimeWithinDay_def ms_per_day_def MakeTime_def HourFromTime_def MinFromTime_def
      SecFromTime_def msFromTime_def a b c by linarith
qed

lemma MakeDate_Day: "MakeDate (Day t) (TimeWithinDay t) = t"
  by (simp add: MakeDate_def Day_def TimeWithinDay_def)

lemma MakeDay_shift: "MakeDay y m (d - n) = MakeDay y m d - n"
  by (simp add: MakeDay_def Let_def)

lemma MakeDay_parts: "MakeDay (YearFromTime t) (MonthFromTime t) (DateFromTime t) = Day t"
proof -
  obtain y m d where "year_month_date (Day t) = (y, m, d)" by (metis prod_cases3)
  with MakeDay_year_month_date [OF this] show ?thesis
    by (simp add: YearFromTime_def MonthFromTime_def DateFromTime_def)
qed

lemmas calendar_eval = TimeClip_def MakeDate_def MakeDay_def Day_def TimeWithinDay_def ms_per_day_def
  MonthFromTime_def YearFromTime_def DateFromTime_def HourFromTime_def MinFromTime_def SecFromTime_def
  msFromTime_def year_month_date_def year_search.simps month_search.simps DayFromYear_def
  days_in_year_def leap_year_def days_in_month_def days_before_month_def upt_rec

lemma month_overflow_example:
  "window_start (JStr ''month'') (JNum 1) (Some 1711843200000) = Some 1709337600000"
  by (simp add: window_start_def setMonth_def sub_num_def js_to_int_def calendar_eval)

lemma replicate_small: "replicate 1 x = [x]" "replicate 2 x = [x, x]" "replicate 3 x = [x, x, x]"
  by (simp_all add: numeral_2_eq_2 numeral_3_eq_3)

lemma iso_eval: "iso_string 1711843200000 = ''2024-03-31T00:00:00.000Z''"
  "iso_string 1709337600000 = ''2024-03-02T00:00:00.000Z''"
  by (simp_all add: iso_string_def pad_def calendar_eval decimal.simps js_eval replicate_small)

section \<open>Assignment along a path\<close>

lemma map_of_update_in:
  "map_of (map (\<lambda>(k', v). if k' = k then (k', w) else (k', v)) kvs) k2 =
   (if k2 = k then map_option (\<lambda>_. w) (map_of kvs k) else map_of kvs k2)"
  by (induction kvs) auto

lemma js_get_set_obj:
  "js_set (JObj kvs) k w = Inr v' \<Longrightarrow> js_get v' k2 = Inr (if k2 = k then Some w else map_of kvs k2)"
  by (cases "map_of kvs k") (auto simp: map_of_update_in map_of_append map_add_def split: option.split)

lemma js_get_set_arr:
  assumes "array_index k = Some i" and "i < length xs" and "js_set (JArr xs) k w = Inr v'"
  shows "js_get v' k = Inr (Some w)"
proof -
  have "k \<noteq> ''length''" using assms(1) by (auto simp: js_eval)
  with assms show ?thesis by auto
qed

lemma js_set_get_some:
  assumes "js_get v k = Inr (Some x)" and "k \<noteq> ''length''" and "js_set v k u = Inr v'"
  shows "js_get v' k = Inr (Some u)"
proof (cases v)
  case (JObj kvs)
  with assms(3) show ?thesis using js_get_set_obj [of kvs k u v' k] by simp
next
  case (JArr xs)
  with assms(1,2) obtain i where "array_index k = Some i" "i < length xs"
    by (auto split: option.splits if_splits)
  with JArr assms(3) show ?thesis by (intro js_get_set_arr) auto
qed (use assms in auto)

definition is_container :: "json \<Rightarrow> bool" where
  "is_container v \<longleftrightarrow> (case v of JObj _ \<Rightarrow> True | JArr _ \<Rightarrow> True | _ \<Rightarrow> False)"

lemma js_get_scalar:
  "\<not> is_container v \<Longrightarrow> js_get v k = Inr (Some w) \<Longrightarrow> \<not> is_container w"
  by (cases v) (auto simp: is_container_def split: if_splits option.splits)

lemma js_path_None: "ks \<noteq> [] \<Longrightarrow> js_path None ks = Inl TypeError"
  by (cases ks) simp_all

lemma js_path_scalar:
  "\<not> is_container v \<Longrightarrow> js_path (Some v) ks = Inr (Some w) \<Longrightarrow> \<not> is_container w"
proof (induction ks arbitrary: v)
  case (Cons k ks)
  show ?case
  proof (cases "js_get v k")
    case (Inr r)
    show ?thesis
    proof (cases r)
      case None
      with Inr Cons.prems(2) show ?thesis by (cases ks) simp_all
    next
      case (Some u)
      with Inr Cons.prems have "\<not> is_container u" "js_path (Some u) ks = Inr (Some w)"
        using js_get_scalar by auto
      then show ?thesis by (rule Cons.IH)
    qed
  qed (use Cons.prems in simp)
qed simp

lemma js_set_container: "is_container v \<Longrightarrow> \<exists>v'. js_set v k w = Inr v'"
  by (cases v) (auto simp: is_container_def split: option.split)

lemma js_set_path_get:
  assumes "js_path (Some v) ks = Inr (Some (JObj kvs))" and "''length'' \<notin> set ks"
  shows "\<exists>v'. js_set_path v (ks @ [k]) w = Inr v' \<and> js_path (Some v') (ks @ [k]) = Inr (Some w) \<and>
           (\<forall>k2. k2 \<noteq> k \<longrightarrow> js_path (Some v') (ks @ [k2]) = js_path (Some v) (ks @ [k2])) \<and>
           (\<exists>kvs'. js_path (Some v') ks = Inr (Some (JObj kvs')))"
  using assms
proof (induction ks arbitrary: v)
  case Nil
  then have v: "v = JObj kvs" by simp
  obtain kvs' where set: "js_set v k w = Inr (JObj kvs')"
    using v by (cases "map_of kvs k") auto
  have set': "js_set (JObj kvs) k w = Inr (JObj kvs')" using set v by simp
  have g: "\<And>k2. js_get (JObj kvs') k2 = Inr (if k2 = k then Some w else map_of kvs k2)"
    by (rule js_get_set_obj [OF set'])
  show ?case
  proof (rule exI [where x = "JObj kvs'"], intro conjI allI impI)
    show "js_set_path v ([] @ [k]) w = Inr (JObj kvs')" using set by simp
    show "js_path (Some (JObj kvs')) ([] @ [k]) = Inr (Some w)" using g [of k] by simp
    show "\<exists>kvs''. js_path (Some (JObj kvs')) [] = Inr (Some (JObj kvs''))" by simp
  next
    fix k2 assume "k2 \<noteq> k"
    then show "js_path (Some (JObj kvs')) ([] @ [k2]) = js_path (Some v) ([] @ [k2])"
      using g [of k2] v by simp
  qed
next
  case (Cons k1 ks)
  obtain r where r: "js_get v k1 = Inr r" and rest: "js_path r ks = Inr (Some (JObj kvs))"
    using Cons.prems(1) by (cases "js_get v k1") auto
  obtain u where u: "r = Some u"
    using rest by (cases r) (auto simp: js_path_None [of ks] split: if_splits, cases ks, auto)
  have cont: "is_container v"
  proof (rule ccontr)
    assume "\<not> is_container v"
    then have "\<not> is_container u" using js_get_scalar r u by blast
    then have "\<not> is_container (JObj kvs)" using js_path_scalar rest u by blast
    then show False by (simp add: is_container_def)
  qed
  have k1: "k1 \<noteq> ''length''" using Cons.prems(2) by auto
  have rest': "js_path (Some u) ks = Inr (Some (JObj kvs))" using rest u by simp
  have nl: "''length'' \<notin> set ks" using Cons.prems(2) by simp
  from Cons.IH [OF rest' nl] obtain u' where
    su: "js_set_path u (ks @ [k]) w = Inr u'" and gu: "js_path (Some u') (ks @ [k]) = Inr (Some w)"
    and fu: "\<forall>k2. k2 \<noteq> k \<longrightarrow> js_path (Some u') (ks @ [k2]) = js_path (Some u) (ks @ [k2])"
    and ou: "\<exists>kvs'. js_path (Some u') ks = Inr (Some (JObj kvs'))"
    by blast
  obtain v' where sv: "js_set v k1 u' = Inr v'" using js_set_container [OF cont] by blast
  have gv: "js_get v' k1 = Inr (Some u')" using js_set_get_some [OF _ k1 sv] r u by simp
  obtain k2 rest' where ne: "ks @ [k] = k2 # rest'" by (cases "ks @ [k]") auto
  show ?case
  proof (rule exI [where x = v'], intro conjI allI impI)
    show "js_set_path v ((k1 # ks) @ [k]) w = Inr v'" using r u su sv by (simp add: ne)
    show "js_path (Some v') ((k1 # ks) @ [k]) = Inr (Some w)" using gv gu by simp
    show "\<exists>kvs'. js_path (Some v') (k1 # ks) = Inr (Some (JObj kvs'))" using gv ou by simp
  next
    fix k2 assume "k2 \<noteq> k"
    then show "js_path (Some v') ((k1 # ks) @ [k2]) = js_path (Some v) ((k1 # ks) @ [k2])"
      using gv fu r u by simp
  qed
qed

lemma js_path_append:
  "js_path v (ks @ ks') = (case js_path v ks of Inl e \<Rightarrow> Inl e | Inr w \<Rightarrow> js_path w ks')"
  by (induction ks arbitrary: v) (simp_all split: sum.split)

lemma range_path_split: "range_path i = [''query'', ''bool'', ''filter''] @ [decimal i, ''range'']"
  by (simp add: range_path_def)

lemma pick_field_in: "pick_field r fs = Inr (Some f) \<Longrightarrow> f \<in> set fs"
  by (induction r fs rule: pick_field.induct) (auto split: sum.splits if_splits)

lemma decimal_not_length: "decimal n \<noteq> ''length''"
proof
  assume "decimal n = ''length''"
  then have "CHR ''l'' \<in> set (decimal n)" by simp
  then have "digit_val CHR ''l'' \<noteq> None" by (rule decimal_digits)
  then show False by (simp add: js_eval)
qed

lemma length_not_in_range_path: "f \<in> set range_fields \<Longrightarrow> ''length'' \<notin> set (range_path i @ [f])"
  using decimal_not_length [of i] by (auto simp: range_path_def range_fields_def)

lemma find_range_absent: "\<forall>x \<in> set fs. js_get x ''range'' = Inr None \<Longrightarrow> find_range i fs = Inr 0"
  by (induction fs arbitrary: i) auto

section \<open>Claims\<close>

text \<open>
  With unit \<open>hour\<close>, \<open>gte\<close> is exactly \<open>n\<close> hours before the
  current time (\<open>setHours(getHours() - n)\<close> carries into the days), or an invalid
  date when \<open>timeFilter\<close> is not a number or the result leaves the range of dates.
\<close>

theorem window_start_hour:
  "window_start (JStr ''hour'') amt (Some t) =
     (case js_to_int amt of Some n \<Rightarrow> TimeClip (t - n * 3600000) | None \<Rightarrow> None)"
proof (cases "js_to_int amt")
  case (Some n)
  have "MakeDate (Day t) (MakeTime (HourFromTime t - n) (MinFromTime t) (SecFromTime t) (msFromTime t))
        = MakeDate (Day t) (TimeWithinDay t) - n * 3600000"
    unfolding time_within_day by (simp add: MakeDate_def MakeTime_def algebra_simps)
  with Some show ?thesis by (simp add: window_start_def setHours_def sub_num_def MakeDate_Day)
qed (simp add: window_start_def setHours_def sub_num_def)

text \<open>
  With unit \<open>day\<close>, \<open>gte\<close> is exactly \<open>n\<close> days of 86400000 ms
  before the current time, across month and year ends (specification, section 8:
  \<open>T\<close> minus 5 calendar days for amount 5).
\<close>

theorem window_start_day:
  "window_start (JStr ''day'') amt (Some t) =
     (case js_to_int amt of Some n \<Rightarrow> TimeClip (t - n * ms_per_day) | None \<Rightarrow> None)"
proof (cases "js_to_int amt")
  case (Some n)
  have "MakeDate (MakeDay (YearFromTime t) (MonthFromTime t) (DateFromTime t - n)) (TimeWithinDay t)
        = t - n * ms_per_day"
    using MakeDate_Day [of t] by (simp add: MakeDay_shift MakeDay_parts MakeDate_def algebra_simps)
  with Some show ?thesis by (simp add: window_start_def setDate_def sub_num_def)
qed (simp add: window_start_def setDate_def sub_num_def)

lemma Day_MakeDate: "0 \<le> r \<Longrightarrow> r < ms_per_day \<Longrightarrow> Day (MakeDate d r) = d"
  by (simp add: Day_def MakeDate_def ms_per_day_def)

lemma TimeWithinDay_MakeDate: "0 \<le> r \<Longrightarrow> r < ms_per_day \<Longrightarrow> TimeWithinDay (MakeDate d r) = r"
  by (simp add: TimeWithinDay_def MakeDate_def ms_per_day_def)

lemma TimeWithinDay_range: "0 \<le> TimeWithinDay t" "TimeWithinDay t < ms_per_day"
  by (simp_all add: TimeWithinDay_def ms_per_day_def)

lemma MakeDay_normal: "MakeDay y m d = MakeDay (y + m div 12) (m mod 12) d"
  by (simp add: MakeDay_def Let_def)

lemma days_in_month_bounds: "m < 12 \<Longrightarrow> 28 \<le> days_in_month y (int m) \<and> days_in_month y (int m) \<le> 31"
  by (simp add: days_in_month_def nth_Cons' eval_nat_numeral)

lemma MakeDay_next_month:
  assumes "m < 12"
  shows "MakeDay y (int m) d = MakeDay y (int m + 1) (d - days_in_month y (int m))"
proof (cases "m = 11")
  case True
  then show ?thesis
    using DayFromYear_Suc [of y] days_in_month_11 [of y] by (simp add: MakeDay_def)
next
  case False
  with assms have "int m + 1 < 12" by simp
  then show ?thesis using assms days_before_month_Suc [of y m] by (simp add: MakeDay_def add.commute)
qed

text \<open>
  C31 (functional). With unit \<open>month\<close>, when the current day of the month exists in
  the month \<open>n\<close> months back, \<open>gte\<close> is that day of that month (the year adjusted),
  at the same time of day.
\<close>

theorem window_start_month:
  assumes n: "js_to_int amt = Some n"
    and res: "window_start (JStr ''month'') amt (Some t) = Some t'"
    and fits: "DateFromTime t \<le> days_in_month (YearFromTime t + (MonthFromTime t - n) div 12) ((MonthFromTime t - n) mod 12)"
  shows "YearFromTime t' = YearFromTime t + (MonthFromTime t - n) div 12 \<and>
         MonthFromTime t' = (MonthFromTime t - n) mod 12 \<and>
         DateFromTime t' = DateFromTime t \<and> TimeWithinDay t' = TimeWithinDay t"
proof -
  define y' where "y' = YearFromTime t + (MonthFromTime t - n) div 12"
  define mm where "mm = nat ((MonthFromTime t - n) mod 12)"
  have mm: "int mm = (MonthFromTime t - n) mod 12" "mm < 12" by (simp_all add: mm_def)
  have t': "t' = MakeDate (MakeDay y' (int mm) (DateFromTime t)) (TimeWithinDay t)"
    using n res by (simp add: window_start_def setMonth_def sub_num_def TimeClip_def y'_def mm MakeDay_normal [of "YearFromTime t"] split: if_splits)
  have ymd: "year_month_date (Day t) = (YearFromTime t, MonthFromTime t, DateFromTime t)"
    by (simp add: YearFromTime_def MonthFromTime_def DateFromTime_def)
  have d1: "1 \<le> DateFromTime t" using MakeDay_year_month_date [OF ymd] by simp
  have "year_month_date (MakeDay y' (int mm) (DateFromTime t)) = (y', int mm, DateFromTime t)"
    by (rule year_month_date_MakeDay) (use mm d1 fits in \<open>simp_all add: y'_def\<close>)
  then show ?thesis
    using t' TimeWithinDay_range [of t]
    by (simp add: YearFromTime_def MonthFromTime_def DateFromTime_def Day_MakeDate TimeWithinDay_MakeDate y'_def mm)
qed

theorem window_start_month_witness:
  "js_to_int (JNum 1) = Some 1 \<and>
   window_start (JStr ''month'') (JNum 1) (Some 1705314600000) = Some 1702636200000 \<and>
   DateFromTime 1705314600000 \<le> days_in_month (YearFromTime 1705314600000 + (MonthFromTime 1705314600000 - 1) div 12)
     ((MonthFromTime 1705314600000 - 1) mod 12) \<and>
   MonthFromTime 1702636200000 = 11 \<and> DateFromTime 1702636200000 = 15"
proof -
  have h: "js_to_int (JNum 1) = Some 1"
    "window_start (JStr ''month'') (JNum 1) (Some 1705314600000) = Some 1702636200000"
    "DateFromTime 1705314600000 \<le> days_in_month (YearFromTime 1705314600000 + (MonthFromTime 1705314600000 - 1) div 12)
       ((MonthFromTime 1705314600000 - 1) mod 12)"
    by (simp_all add: js_to_int_def window_start_def setMonth_def sub_num_def calendar_eval)
  have "MonthFromTime 1705314600000 = 0" "DateFromTime 1705314600000 = 15"
    by (simp_all add: calendar_eval)
  then show ?thesis using h window_start_month [OF h] by simp
qed

text \<open>
  C32 (functional, a divergence). Subtracting months does not clamp to the end of
  the month: whenever the current date does not exist in the month \<open>n\<close> months
  back (31 March minus one month asks for 31 February), \<open>gte\<close> falls in the month
  after it, on the date minus that month's length (2 March), at the same time of
  day; the specification says the day is clamped to the month's length (29
  February), so the window is shorter by those days.
\<close>

theorem window_start_month_overflow:
  assumes n: "js_to_int amt = Some n"
    and res: "window_start (JStr ''month'') amt (Some t) = Some t'"
    and over: "days_in_month (YearFromTime t + (MonthFromTime t - n) div 12) ((MonthFromTime t - n) mod 12) < DateFromTime t"
  shows "YearFromTime t' = YearFromTime t + (MonthFromTime t - n) div 12 + ((MonthFromTime t - n) mod 12 + 1) div 12 \<and>
         MonthFromTime t' = ((MonthFromTime t - n) mod 12 + 1) mod 12 \<and>
         DateFromTime t' = DateFromTime t - days_in_month (YearFromTime t + (MonthFromTime t - n) div 12) ((MonthFromTime t - n) mod 12) \<and>
         TimeWithinDay t' = TimeWithinDay t"
proof -
  define y' where "y' = YearFromTime t + (MonthFromTime t - n) div 12"
  define mm where "mm = nat ((MonthFromTime t - n) mod 12)"
  define dim where "dim = days_in_month y' (int mm)"
  define y2 where "y2 = y' + (int mm + 1) div 12"
  define m2 where "m2 = nat ((int mm + 1) mod 12)"
  have mm: "int mm = (MonthFromTime t - n) mod 12" "mm < 12" by (simp_all add: mm_def)
  have m2: "int m2 = (int mm + 1) mod 12" "m2 < 12" by (simp_all add: m2_def)
  have ymd: "year_month_date (Day t) = (YearFromTime t, MonthFromTime t, DateFromTime t)"
    by (simp add: YearFromTime_def MonthFromTime_def DateFromTime_def)
  have d31: "DateFromTime t \<le> 31"
  proof -
    have m: "0 \<le> MonthFromTime t" "MonthFromTime t < 12" "DateFromTime t \<le> days_in_month (YearFromTime t) (MonthFromTime t)"
      using MakeDay_year_month_date [OF ymd] by simp_all
    then have "int (nat (MonthFromTime t)) = MonthFromTime t" "nat (MonthFromTime t) < 12" by simp_all
    with m days_in_month_bounds [of "nat (MonthFromTime t)" "YearFromTime t"] show ?thesis by simp
  qed
  have dim: "28 \<le> dim" "dim < DateFromTime t" using days_in_month_bounds [OF mm(2)] over
    by (simp_all add: dim_def y'_def mm)
  have t': "t' = MakeDate (MakeDay y2 (int m2) (DateFromTime t - dim)) (TimeWithinDay t)"
  proof -
    have "t' = MakeDate (MakeDay y' (int mm) (DateFromTime t)) (TimeWithinDay t)"
      using n res by (simp add: window_start_def setMonth_def sub_num_def TimeClip_def y'_def mm MakeDay_normal [of "YearFromTime t"] split: if_splits)
    also have "MakeDay y' (int mm) (DateFromTime t) = MakeDay y2 (int m2) (DateFromTime t - dim)"
      using MakeDay_next_month [OF mm(2), of y' "DateFromTime t"] MakeDay_normal [of y' "int mm + 1"]
      by (simp add: dim_def y2_def m2)
    finally show ?thesis .
  qed
  have "year_month_date (MakeDay y2 (int m2) (DateFromTime t - dim)) = (y2, int m2, DateFromTime t - dim)"
    by (rule year_month_date_MakeDay) (use m2 dim d31 days_in_month_bounds [OF m2(2), of y2] in simp_all)
  then show ?thesis
    using t' TimeWithinDay_range [of t]
    by (simp add: YearFromTime_def MonthFromTime_def DateFromTime_def Day_MakeDate TimeWithinDay_MakeDate
        y'_def mm y2_def m2 dim_def)
qed

theorem window_start_month_overflow_witness:
  "js_to_int (JNum 1) = Some 1 \<and>
   window_start (JStr ''month'') (JNum 1) (Some 1711843200000) = Some 1709337600000 \<and>
   days_in_month (YearFromTime 1711843200000 + (MonthFromTime 1711843200000 - 1) div 12) ((MonthFromTime 1711843200000 - 1) mod 12)
     < DateFromTime 1711843200000 \<and>
   iso_string 1711843200000 = ''2024-03-31T00:00:00.000Z'' \<and>
   iso_string 1709337600000 = ''2024-03-02T00:00:00.000Z'' \<and>
   MonthFromTime 1709337600000 = 2 \<and> DateFromTime 1709337600000 = 2"
proof -
  have h: "js_to_int (JNum 1) = Some 1"
    "window_start (JStr ''month'') (JNum 1) (Some 1711843200000) = Some 1709337600000"
    "days_in_month (YearFromTime 1711843200000 + (MonthFromTime 1711843200000 - 1) div 12) ((MonthFromTime 1711843200000 - 1) mod 12)
       < DateFromTime 1711843200000"
    by (simp_all add: js_to_int_def month_overflow_example calendar_eval)
  have "YearFromTime 1711843200000 = 2024" "MonthFromTime 1711843200000 = 2" "DateFromTime 1711843200000 = 31"
    by (simp_all add: calendar_eval)
  then show ?thesis using h window_start_month_overflow [OF h] iso_eval by (simp add: days_in_month_def leap_year_def)
qed

text \<open>
  C34 (functional). When the query's \<open>bool.filter\<close> is an array whose first filter
  with a \<open>range\<close> has one of the known time fields (\<open>timestamp\<close>, \<open>messageTime\<close>,
  \<open>fireTime\<close>, the first present), the rewrite succeeds and that clause then
  holds \<open>gte\<close>, the start of the window, and \<open>lte\<close>, the current time, as the
  strings \<open>JSON.stringify\<close> writes.
\<close>

theorem rewrite_window_sets:
  assumes filt: "js_path (Some req) [''query'', ''bool'', ''filter''] = Inr (Some (JArr fs))"
    and idx: "find_range 0 fs = Inr i"
    and rng: "js_path (Some req) (range_path i) = Inr rg"
    and fld: "pick_field rg range_fields = Inr (Some f)"
    and obj: "js_path (Some req) (range_path i @ [f]) = Inr (Some (JObj kvs))"
  shows "\<exists>req'. rewrite_window unit amt ng nl req = Inr req' \<and>
           js_path (Some req') (range_path i @ [f, ''gte'']) = Inr (Some (date_json (window_start unit amt ng))) \<and>
           js_path (Some req') (range_path i @ [f, ''lte'']) = Inr (Some (date_json nl))"
proof -
  have len: "''length'' \<notin> set (range_path i @ [f])"
    using pick_field_in [OF fld] by (rule length_not_in_range_path)
  obtain r1 where s1: "js_set_path req ((range_path i @ [f]) @ [''gte'']) (date_json (window_start unit amt ng)) = Inr r1"
    and g1: "js_path (Some r1) ((range_path i @ [f]) @ [''gte'']) = Inr (Some (date_json (window_start unit amt ng)))"
    and o1: "\<exists>kvs'. js_path (Some r1) (range_path i @ [f]) = Inr (Some (JObj kvs'))"
    using js_set_path_get [OF obj len] by blast
  obtain kvs' where o1': "js_path (Some r1) (range_path i @ [f]) = Inr (Some (JObj kvs'))" using o1 by blast
  obtain r2 where s2: "js_set_path r1 ((range_path i @ [f]) @ [''lte'']) (date_json nl) = Inr r2"
    and g2: "js_path (Some r2) ((range_path i @ [f]) @ [''lte'']) = Inr (Some (date_json nl))"
    and f2: "\<forall>k2. k2 \<noteq> ''lte'' \<longrightarrow> js_path (Some r2) ((range_path i @ [f]) @ [k2]) = js_path (Some r1) ((range_path i @ [f]) @ [k2])"
    using js_set_path_get [OF o1' len] by blast
  have "rewrite_window unit amt ng nl req = Inr r2"
    using filt idx rng fld s1 s2 by (simp add: rewrite_window_def filter_elems_def Let_def)
  moreover have "js_path (Some r2) (range_path i @ [f, ''gte'']) = Inr (Some (date_json (window_start unit amt ng)))"
    using f2 g1 by simp
  ultimately show ?thesis using g2 by auto
qed

text \<open>
  C35 (error, a divergence). When no filter has a \<open>range\<close> (or there are no
  filters), \<open>rangeIdx\<close> stays 0 and \<open>filter[0].range.timestamp\<close> throws a
  \<open>TypeError\<close>, which aborts the whole run; the specification says the rewrite is
  then a no-op, the stale query runs and \<open>RewriteSkipped\<close> is signalled.
\<close>

theorem rewrite_window_no_range:
  assumes filt: "js_path (Some req) [''query'', ''bool'', ''filter''] = Inr (Some (JArr fs))"
    and none: "\<forall>x \<in> set fs. js_get x ''range'' = Inr None"
  shows "rewrite_window unit amt ng nl req = Inl TypeError"
proof -
  have idx: "find_range 0 fs = Inr 0" using none by (rule find_range_absent)
  have "js_path (Some req) (range_path 0) = Inl TypeError \<or> js_path (Some req) (range_path 0) = Inr None"
  proof (cases fs)
    case Nil
    with filt show ?thesis
      unfolding range_path_split js_path_append by (simp add: decimal_small js_eval)
  next
    case (Cons x xs)
    with none filt show ?thesis
      unfolding range_path_split js_path_append by (simp add: decimal_small js_eval)
  qed
  then show ?thesis using filt idx
    by (auto simp: rewrite_window_def filter_elems_def Let_def range_fields_def)
qed

text \<open>
  When the located \<open>range\<close> has none of the known fields (say
  \<open>@timestamp\<close>), the query is returned unchanged and nothing reports it: the
  report runs over the stale window of the saved visualisation.
\<close>

theorem rewrite_window_unknown_field:
  assumes filt: "js_path (Some req) [''query'', ''bool'', ''filter''] = Inr (Some (JArr fs))"
    and idx: "find_range 0 fs = Inr i"
    and rng: "js_path (Some req) (range_path i) = Inr rg"
    and fld: "pick_field rg range_fields = Inr None"
  shows "rewrite_window unit amt ng nl req = Inr req"
  using assms by (simp add: rewrite_window_def filter_elems_def Let_def)

definition demo_range :: json where
  "demo_range = JObj [(''timestamp'', JObj [(''format'', JStr ''strict_date_optional_time'')])]"

definition demo_filters :: "json list" where
  "demo_filters = [JObj [(''match_phrase'', JObj [(''fleet'', JStr ''north'')])], JObj [(''range'', demo_range)]]"

definition demo_query :: "json list \<Rightarrow> json" where
  "demo_query fs = JObj [(''query'', JObj [(''bool'', JObj [(''filter'', JArr fs)])])]"

lemma demo_query_filter: "js_path (Some (demo_query fs)) [''query'', ''bool'', ''filter''] = Inr (Some (JArr fs))"
  by (simp add: demo_query_def)

theorem rewrite_window_sets_witness:
  "js_path (Some (demo_query demo_filters)) [''query'', ''bool'', ''filter''] = Inr (Some (JArr demo_filters)) \<and>
   find_range 0 demo_filters = Inr 1 \<and>
   js_path (Some (demo_query demo_filters)) (range_path 1) = Inr (Some demo_range) \<and>
   pick_field (Some demo_range) range_fields = Inr (Some ''timestamp'') \<and>
   js_path (Some (demo_query demo_filters)) (range_path 1 @ [''timestamp''])
     = Inr (Some (JObj [(''format'', JStr ''strict_date_optional_time'')])) \<and>
   (\<exists>req'. rewrite_window (JStr ''day'') (JNum 5) (Some 1711843200000) (Some 1711843200000) (demo_query demo_filters) = Inr req' \<and>
      js_path (Some req') (range_path 1 @ [''timestamp'', ''gte''])
        = Inr (Some (date_json (window_start (JStr ''day'') (JNum 5) (Some 1711843200000)))) \<and>
      js_path (Some req') (range_path 1 @ [''timestamp'', ''lte'']) = Inr (Some (date_json (Some 1711843200000))))"
proof -
  have h: "js_path (Some (demo_query demo_filters)) [''query'', ''bool'', ''filter''] = Inr (Some (JArr demo_filters))"
    "find_range 0 demo_filters = Inr 1"
    "js_path (Some (demo_query demo_filters)) (range_path 1) = Inr (Some demo_range)"
    "pick_field (Some demo_range) range_fields = Inr (Some ''timestamp'')"
    "js_path (Some (demo_query demo_filters)) (range_path 1 @ [''timestamp''])
       = Inr (Some (JObj [(''format'', JStr ''strict_date_optional_time'')]))"
    by (simp_all add: demo_query_filter demo_query_def demo_filters_def demo_range_def range_path_def
        range_fields_def decimal_small js_eval)
  show ?thesis using h rewrite_window_sets [OF h] by blast
qed

theorem rewrite_window_no_range_witness:
  "js_path (Some (demo_query [hd demo_filters])) [''query'', ''bool'', ''filter''] = Inr (Some (JArr [hd demo_filters])) \<and>
   list_all (\<lambda>x. js_get x ''range'' = Inr None) [hd demo_filters] \<and>
   rewrite_window (JStr ''day'') (JNum 5) (Some 1711843200000) (Some 1711843200000) (demo_query [hd demo_filters]) = Inl TypeError"
proof -
  have h: "js_path (Some (demo_query [hd demo_filters])) [''query'', ''bool'', ''filter''] = Inr (Some (JArr [hd demo_filters]))"
    "\<forall>x \<in> set [hd demo_filters]. js_get x ''range'' = Inr None"
    by (rule demo_query_filter) (simp add: demo_filters_def)
  show ?thesis using h rewrite_window_no_range [OF h] by (simp add: list_all_iff)
qed

theorem rewrite_window_unknown_field_witness:
  "js_path (Some (demo_query [JObj [(''range'', JObj [(''@timestamp'', JObj [])])]])) [''query'', ''bool'', ''filter'']
     = Inr (Some (JArr [JObj [(''range'', JObj [(''@timestamp'', JObj [])])]])) \<and>
   find_range 0 [JObj [(''range'', JObj [(''@timestamp'', JObj [])])]] = Inr 0 \<and>
   js_path (Some (demo_query [JObj [(''range'', JObj [(''@timestamp'', JObj [])])]])) (range_path 0)
     = Inr (Some (JObj [(''@timestamp'', JObj [])])) \<and>
   pick_field (Some (JObj [(''@timestamp'', JObj [])])) range_fields = Inr None \<and>
   rewrite_window (JStr ''hour'') (JNum 2) (Some 0) (Some 0) (demo_query [JObj [(''range'', JObj [(''@timestamp'', JObj [])])]])
     = Inr (demo_query [JObj [(''range'', JObj [(''@timestamp'', JObj [])])]])"
proof -
  have h: "js_path (Some (demo_query [JObj [(''range'', JObj [(''@timestamp'', JObj [])])]])) [''query'', ''bool'', ''filter'']
     = Inr (Some (JArr [JObj [(''range'', JObj [(''@timestamp'', JObj [])])]]))"
    "find_range 0 [JObj [(''range'', JObj [(''@timestamp'', JObj [])])]] = Inr 0"
    "js_path (Some (demo_query [JObj [(''range'', JObj [(''@timestamp'', JObj [])])]])) (range_path 0)
     = Inr (Some (JObj [(''@timestamp'', JObj [])]))"
    "pick_field (Some (JObj [(''@timestamp'', JObj [])])) range_fields = Inr None"
    by (simp_all add: demo_query_filter demo_query_def range_path_def range_fields_def decimal_small js_eval)
  show ?thesis using h rewrite_window_unknown_field [OF h] by simp
qed

end
