(* ===== verification/Runner.thy ===== *)
theory Runner
  imports Scheduler Columns TimeWindow
begin

text \<open>
  The report runner: \<open>start\<close> of \<open>src/server/utils/index.ts\<close> (lines 150--255),
  the function every timer calls with its report snapshot, and \<open>getMailContent\<close>
  (lines 23--44). \<open>start\<close> parses the saved query, rewrites its time window
  (TimeWindow.thy), sends it to Elasticsearch, flattens every aggregation of the
  answer into rows (Flatten.thy), starts the spreadsheet export (Columns.thy) without
  awaiting it, and hands a mail with the file attached to nodemailer; its
  \<open>try/catch\<close> logs any error and ends the run.

  The collaborators are inputs: \<open>parse\<close> is \<open>JSON.parse\<close> (\<open>None\<close> for a
  \<open>SyntaxError\<close>), \<open>search\<close> answers a search path and query with the response body
  (\<open>None\<close> when the request fails), \<open>uuid\<close> is the value of \<open>uuidv4()\<close>, \<open>user\<close> the
  configured sender, and the two readings of the clock are dates. A run's result
  records what it did: the query it sent, the export it started (file path and the
  worksheet or the error that rejects the export's promise), the mail it queued and
  the error its \<open>catch\<close> logged.

  What happens after \<open>start\<close> returns is a small concurrent system: the export's
  write of the file and nodemailer's sending of the mail (which reads the attachment)
  complete in either order, and the send callback deletes the file after a
  successful delivery. \<open>after_step\<close> is that system as a step relation.
\<close>

section \<open>The mail\<close>

definition lf :: string where "lf = [CHR 0x0A]"

definition getMailContent :: "string \<Rightarrow> string" where
  "getMailContent reportTitle =
     ''<!DOCTYPE html PUBLIC '' @ [CHR 0x22] @ ''-//W3C//DTD XHTML 1.0 Transitional//EN'' @ [CHR 0x22] @ '' '' @
       [CHR 0x22] @ ''http://www.w3.org/TR/xhtml1/DTD/xhtml1-transitional.dtd'' @ [CHR 0x22] @ ''>'' @ lf @
     ''<html xmlns='' @ [CHR 0x22] @ ''http://www.w3.org/1999/xhtml'' @ [CHR 0x22] @ ''>'' @ lf @
     ''<head>'' @ lf @
     ''<meta http-equiv='' @ [CHR 0x22] @ ''Content-Type'' @ [CHR 0x22] @ '' content='' @ [CHR 0x22] @
       ''text/html; charset=utf-8'' @ [CHR 0x22] @ '' />'' @ lf @
     ''<title>Scheduled Report - '' @ reportTitle @ ''</title>'' @ lf @
     ''</head>'' @ lf @
     ''<body>'' @ lf @
     ''<p>This email has been automatically sent by <strong>Safee</strong> (You don'' @ [CHR 0x27] @
       ''t have to reply).</p>'' @ lf @
     ''<p style='' @ [CHR 0x22] @ ''margin: 5px;'' @ [CHR 0x22] @ ''>You can find your report as an attached file.</p>'' @ lf @
     ''<p><strong>Thanks!</strong></p>'' @ lf @
     ''<br/>'' @ lf @
     ''<img style='' @ [CHR 0x22] @ ''height: 100px;display:none;'' @ [CHR 0x22] @ '' src='' @ [CHR 0x22] @
       ''cid:logo'' @ [CHR 0x22] @ '' alt='' @ [CHR 0x22] @ ''logo'' @ [CHR 0x22] @ ''/>'' @ lf @
     ''<div style='' @ [CHR 0x22] @ ''margin-top:100px;font-weight: normal;display: block;text-align: center; color: #888;line-height: 1.5;font-family: Roboto,Arial,sans-serif!important;font-size: 12px!important;'' @ [CHR 0x22] @ ''>'' @ lf @
     ''</div>'' @ lf @
     ''</body>'' @ lf @
     ''</html>''"

record mail =
  m_from :: string
  m_to :: json
  m_subject :: string
  m_html :: string
  m_filename :: string
  m_path :: string

text \<open>Lines 219--238: the transport options and \<open>mailOptions\<close>.\<close>

definition report_mail :: "string \<Rightarrow> report \<Rightarrow> string \<Rightarrow> mail" where
  "report_mail user report filePath =
     \<lparr>m_from = user, m_to = r_receiver report,
      m_subject = ''Scheduled Report - '' @ js_to_string (r_title report),
      m_html = getMailContent (js_to_string (r_title report)),
      m_filename = js_to_string (r_title report) @ ''.xlsx'', m_path = filePath\<rparr>"

section \<open>One run\<close>

datatype run_error = Thrown js_error | SearchFailed

record run =
  run_query :: "json option"
  run_export :: "(string \<times> (js_error + date sheet)) option"
  run_mail :: "mail option"
  run_error :: "run_error option"

definition aborted :: "json option \<Rightarrow> run_error \<Rightarrow> run" where
  "aborted q e = \<lparr>run_query = q, run_export = None, run_mail = None, run_error = Some e\<rparr>"

text \<open>Lines 194--197: \<open>for (let key in aggs) getData(aggs[key], [], key, dataList)\<close>;
  \<open>for-in\<close> over \<open>undefined\<close> or \<open>null\<close> does not run.\<close>

definition collect_rows :: "json option \<Rightarrow> rows" where
  "collect_rows aggs =
     (case aggs of None \<Rightarrow> [] | Some a \<Rightarrow> fold (\<lambda>kv dl. getData (snd kv) [] (fst kv) dl) (js_entries a) [])"

definition report_file :: "string \<Rightarrow> string" where
  "report_file uuid = ''tmp/'' @ uuid @ ''.xlsx''"

definition search_path :: "report \<Rightarrow> string" where
  "search_path report = ''/'' @ js_to_string (r_index report) @ ''/_search''"

text \<open>\<open>start(report, client)\<close>, lines 150--255.\<close>

definition start ::
  "(string \<Rightarrow> json option) \<Rightarrow> (string \<Rightarrow> json \<Rightarrow> json option) \<Rightarrow> string \<Rightarrow> string \<Rightarrow> date \<Rightarrow> date
   \<Rightarrow> report \<Rightarrow> run" where
  "start parse search user uuid now_gte now_lte report =
     (case parse (js_to_string (r_request report)) of
        None \<Rightarrow> aborted None (Thrown SyntaxError)
      | Some request \<Rightarrow>
          (case rewrite_window (r_timeFilterUnit report) (r_timeFilter report) now_gte now_lte request of
             Inl e \<Rightarrow> aborted None (Thrown e)
           | Inr query \<Rightarrow>
               (case search (search_path report) query of
                  None \<Rightarrow> aborted (Some query) SearchFailed
                | Some body \<Rightarrow>
                    (case parse (js_to_string (r_columns report)) of
                       None \<Rightarrow> aborted (Some query) (Thrown SyntaxError)
                     | Some cj \<Rightarrow>
                         (case getColumns cj of
                            Inl e \<Rightarrow> aborted (Some query) (Thrown e)
                          | Inr columns \<Rightarrow>
                              (case js_get body ''aggregations'' of
                                 Inl e \<Rightarrow> aborted (Some query) (Thrown e)
                               | Inr aggs \<Rightarrow>
                                   (let gte = window_start (r_timeFilterUnit report) (r_timeFilter report) now_gte;
                                        dataList = collect_rows aggs;
                                        filePath = report_file uuid
                                    in \<lparr>run_query = Some query,
                                        run_export = Some (filePath, createExcel (r_title report) gte now_lte dataList columns),
                                        run_mail = Some (report_mail user report filePath),
                                        run_error = None\<rparr>)))))))"

section \<open>After the run: the export and the mail in either order\<close>

datatype mail_failure = AttachmentMissing | ServerRefused

datatype mail_state = Queued | Delivered | Failed mail_failure

record world =
  w_files :: "string \<Rightarrow> date sheet option"
  w_export :: "(string \<times> (js_error + date sheet)) option"
  w_mail :: "(mail \<times> mail_state) option"

text \<open>The pending export completes (writing the file, or rejecting with nothing
  written); nodemailer reads the attachment and delivers the mail, or fails, when the
  file is missing or when the server refuses it; after a delivery the callback
  unlinks the file (lines 240--251), after a failure it only logs. \<open>after_run\<close>
  is the world \<open>start\<close> leaves behind: the export still pending, the mail queued.\<close>

inductive after_step :: "world \<Rightarrow> world \<Rightarrow> bool" where
  file_written: "w_export w = Some (p, Inr sh) \<Longrightarrow>
          after_step w (w\<lparr>w_files := (w_files w)(p \<mapsto> sh), w_export := None\<rparr>)"
| export_rejected: "w_export w = Some (p, Inl e) \<Longrightarrow> after_step w (w\<lparr>w_export := None\<rparr>)"
| mail_delivered: "w_mail w = Some (m, Queued) \<Longrightarrow> w_files w (m_path m) \<noteq> None \<Longrightarrow>
            after_step w (w\<lparr>w_mail := Some (m, Delivered), w_files := (w_files w)(m_path m := None)\<rparr>)"
| mail_missing: "w_mail w = Some (m, Queued) \<Longrightarrow> w_files w (m_path m) = None \<Longrightarrow>
            after_step w (w\<lparr>w_mail := Some (m, Failed AttachmentMissing)\<rparr>)"
| mail_refused: "w_mail w = Some (m, Queued) \<Longrightarrow> after_step w (w\<lparr>w_mail := Some (m, Failed ServerRefused)\<rparr>)"

definition after_run :: "(string \<Rightarrow> date sheet option) \<Rightarrow> run \<Rightarrow> world" where
  "after_run files r =
     \<lparr>w_files = files, w_export = run_export r, w_mail = map_option (\<lambda>m. (m, Queued)) (run_mail r)\<rparr>"

inductive_cases after_stepE: "after_step w w'"

section \<open>Composition with the components\<close>

lemma collect_rows_groups:
  assumes "\<forall>g \<in> set groups. \<forall>b \<in> set (snd g). wf_bucket b"
  shows "fold (\<lambda>kv dl. getData (snd kv) [] (fst kv) dl) (map (\<lambda>g. (fst g, agg_json (snd g))) groups) dl0
         = dl0 @ concat (map (\<lambda>g. flat_agg (fst g) [] (map prune_falsy (snd g))) groups)"
  using assms
proof (induction groups arbitrary: dl0)
  case (Cons g groups)
  have "getData (agg_json (snd g)) [] (fst g) dl0 = dl0 @ flat_agg (fst g) [] (map prune_falsy (snd g))"
    using Cons.prems by (intro getData_agg_json) simp
  with Cons show ?case by simp
qed simp

lemma start_success:
  assumes "parse (js_to_string (r_request report)) = Some request"
    and "rewrite_window (r_timeFilterUnit report) (r_timeFilter report) ng nl request = Inr query"
    and "search (search_path report) query = Some body"
    and "parse (js_to_string (r_columns report)) = Some cj" and "getColumns cj = Inr cols"
    and "js_get body ''aggregations'' = Inr aggs"
  shows "start parse search user uuid ng nl report =
     \<lparr>run_query = Some query,
      run_export = Some (report_file uuid,
        createExcel (r_title report) (window_start (r_timeFilterUnit report) (r_timeFilter report) ng) nl
          (collect_rows aggs) cols),
      run_mail = Some (report_mail user report (report_file uuid)), run_error = None\<rparr>"
  using assms by (simp add: start_def Let_def)

section \<open>Examples\<close>

definition demo_request :: json where
  "demo_request = JObj [(''query'', JObj [(''bool'', JObj [(''filter'',
     JArr [JObj [(''range'', JObj [(''@timestamp'', JObj [])])]])])])]"

definition demo_columns :: json where
  "demo_columns = JArr [JObj [(''name'', JStr ''Region''), (''key'', JStr ''region'')],
                        JObj [(''name'', JStr ''Count''), (''key'', JStr ''count'')]]"

definition demo_parse :: "string \<Rightarrow> json option" where
  "demo_parse s = (if s = ''Q'' then Some demo_request else if s = ''C'' then Some demo_columns else None)"

definition demo_search :: "agg_bucket list \<Rightarrow> string \<Rightarrow> json \<Rightarrow> json option" where
  "demo_search bs p q = Some (JObj [(''aggregations'', JObj [(''region'', agg_json bs)])])"

definition demo_report :: report where
  "demo_report =
     \<lparr>r_id = ''r1'', r_companyId = ''acme'', r_cronSchedule = ''0 0 12 1/1 * *'',
      r_visualizationId = JStr ''vis-1'', r_receiver = JStr ''ops@acme.test'', r_index = JStr ''fleet'',
      r_request = JStr ''Q'', r_title = JStr ''Fleet'', r_duration = JNum 1, r_durationUnit = JStr ''day'',
      r_timeFilter = JNum 5, r_timeFilterUnit = JStr ''day'', r_columns = JStr ''C''\<rparr>"

definition demo_cols :: "column list" where
  "demo_cols = [\<lparr>col_header = Some (JStr ''Region''), col_key = Some (JStr ''region'')\<rparr>,
                \<lparr>col_header = Some (JStr ''Count''), col_key = Some (JStr ''count'')\<rparr>]"

lemma demo_steps:
  "demo_parse (js_to_string (r_request demo_report)) = Some demo_request"
  "rewrite_window (r_timeFilterUnit demo_report) (r_timeFilter demo_report) (Some 0) (Some 0) demo_request = Inr demo_request"
  "demo_parse (js_to_string (r_columns demo_report)) = Some demo_columns"
  "getColumns demo_columns = Inr demo_cols"
  by (simp_all add: demo_parse_def demo_report_def demo_columns_def demo_cols_def
      getColumns_def column_of_def rewrite_window_def demo_request_def filter_elems_def range_path_def
      range_fields_def decimal_small js_eval)

lemma demo_search_steps:
  "demo_search bs (search_path demo_report) demo_request = Some (JObj [(''aggregations'', JObj [(''region'', agg_json bs)])])"
  "js_get (JObj [(''aggregations'', JObj [(''region'', agg_json bs)])]) ''aggregations''
     = Inr (Some (JObj (map (\<lambda>g. (fst g, agg_json (snd g))) [(''region'', bs)])))"
  by (simp_all add: demo_search_def)

definition zero_first :: "agg_bucket list" where
  "zero_first = [Leaf (JStr ''north'') 3 [(''count'', JNum 0)], Leaf (JStr ''south'') 4 [(''count'', JNum 5)]]"

lemma zero_first_rows:
  "collect_rows (Some (JObj (map (\<lambda>g. (fst g, agg_json (snd g))) [(''region'', zero_first)])))
   = [[[(''region'', JStr ''north'')]], [[(''region'', JStr ''south'')], [(''count'', JNum 5)]]]"
proof -
  have w: "\<forall>g \<in> set [(''region'', zero_first)]. \<forall>b \<in> set (snd g). wf_bucket b"
    by (simp add: zero_first_def js_eval)
  show ?thesis
    using collect_rows_groups [OF w, of "[]"]
    by (simp add: collect_rows_def js_eval zero_first_def flat_agg_def)
qed

section \<open>Claims\<close>

text \<open>
  C37 (refinement). The pipeline composes the components: when parsing, the
  rewrite, the search, the column list and the reading of \<open>aggregations\<close> all
  succeed and the aggregations are well-formed trees, the run sends the rewritten
  query, exports exactly the specification's flattening of every aggregation (falsy
  metrics dropped, aggregations in enumeration order) under the parsed columns with
  the window's dates, to \<open>tmp/<uuid>.xlsx\<close>, and queues the mail for the report's
  receiver with that file attached.
\<close>

theorem start_flattens_aggregations:
  assumes "parse (js_to_string (r_request report)) = Some request"
    and "rewrite_window (r_timeFilterUnit report) (r_timeFilter report) ng nl request = Inr query"
    and "search (search_path report) query = Some body"
    and "parse (js_to_string (r_columns report)) = Some cj" and "getColumns cj = Inr cols"
    and aggs: "js_get body ''aggregations'' = Inr (Some (JObj (map (\<lambda>g. (fst g, agg_json (snd g))) groups)))"
    and order: "in_enum_order (map (\<lambda>g. (fst g, agg_json (snd g))) groups)"
    and wf: "\<forall>g \<in> set groups. \<forall>b \<in> set (snd g). wf_bucket b"
  shows "start parse search user uuid ng nl report =
     \<lparr>run_query = Some query,
      run_export = Some (report_file uuid,
        createExcel (r_title report) (window_start (r_timeFilterUnit report) (r_timeFilter report) ng) nl
          (concat (map (\<lambda>g. flat_agg (fst g) [] (map prune_falsy (snd g))) groups)) cols),
      run_mail = Some (report_mail user report (report_file uuid)), run_error = None\<rparr>"
proof -
  have "collect_rows (Some (JObj (map (\<lambda>g. (fst g, agg_json (snd g))) groups)))
        = concat (map (\<lambda>g. flat_agg (fst g) [] (map prune_falsy (snd g))) groups)"
    using collect_rows_groups [OF wf, of "[]"] order
    by (simp add: collect_rows_def in_enum_order_def)
  with start_success [where parse = parse and search = search and user = user and uuid = uuid, OF assms(1-5) aggs] show ?thesis by simp
qed

text \<open>
  C38 (error, a divergence). The export is not awaited: when \<open>createExcel\<close> fails
  (its promise rejects, no file is written), the run still queues the mail with the
  missing file attached and logs nothing; the specification says a failed export
  aborts the rest of the pipeline.
\<close>

theorem start_mails_after_failed_export:
  assumes "parse (js_to_string (r_request report)) = Some request"
    and "rewrite_window (r_timeFilterUnit report) (r_timeFilter report) ng nl request = Inr query"
    and "search (search_path report) query = Some body"
    and "parse (js_to_string (r_columns report)) = Some cj" and "getColumns cj = Inr cols"
    and "js_get body ''aggregations'' = Inr aggs"
    and "createExcel (r_title report) (window_start (r_timeFilterUnit report) (r_timeFilter report) ng) nl
           (collect_rows aggs) cols = Inl e"
  shows "run_export (start parse search user uuid ng nl report) = Some (report_file uuid, Inl e) \<and>
         run_mail (start parse search user uuid ng nl report) = Some (report_mail user report (report_file uuid)) \<and>
         run_error (start parse search user uuid ng nl report) = None"
  using start_success [where parse = parse and search = search and user = user and uuid = uuid, OF assms(1-6)] assms(7) by simp

text \<open>
  C39 (safety). A run queues a mail only after the query was parsed, its window
  rewritten and the search answered, and the mail's attachment is the file named
  after the run's \<open>uuid\<close>: a failed parse, rewrite or search ends the run without
  a mail.
\<close>

theorem start_mail_needs_search:
  assumes "run_mail (start parse search user uuid ng nl report) = Some m"
  shows "\<exists>request query body. parse (js_to_string (r_request report)) = Some request \<and>
           rewrite_window (r_timeFilterUnit report) (r_timeFilter report) ng nl request = Inr query \<and>
           search (search_path report) query = Some body \<and> m_path m = report_file uuid"
  using assms
  by (auto simp: start_def aborted_def report_mail_def Let_def split: option.splits sum.splits)

text \<open>
  C40 (liveness, a divergence). The mail does not wait for the file. Take any run of
  \<open>start\<close> that reaches the export and whose spreadsheet is built, with no file yet
  at \<open>tmp/<uuid>.xlsx\<close>: even when the mail server accepts every mail, there is an
  interleaving in which nodemailer reads the attachment before the export writes it,
  the delivery fails for the missing attachment, the file is written afterwards, and
  the system stops with the file left on disk for good. The specification orders
  export before sending; awaiting \<open>createExcel\<close> would rule this run out.
\<close>

theorem mail_before_file:
  assumes "parse (js_to_string (r_request report)) = Some request"
    and "rewrite_window (r_timeFilterUnit report) (r_timeFilter report) ng nl request = Inr query"
    and "search (search_path report) query = Some body"
    and "parse (js_to_string (r_columns report)) = Some cj" and "getColumns cj = Inr cols"
    and "js_get body ''aggregations'' = Inr aggs"
    and "createExcel (r_title report) (window_start (r_timeFilterUnit report) (r_timeFilter report) ng) nl
           (collect_rows aggs) cols = Inr sh"
    and "files (report_file uuid) = None"
  shows "\<exists>w. after_step\<^sup>*\<^sup>* (after_run files (start parse search user uuid ng nl report)) w \<and>
             w_mail w = Some (report_mail user report (report_file uuid), Failed AttachmentMissing) \<and>
             w_files w (report_file uuid) = Some sh \<and> w_export w = None \<and> (\<forall>w'. \<not> after_step w w')"
proof -
  let ?m = "report_mail user report (report_file uuid)" and ?p = "report_file uuid"
  let ?w0 = "after_run files (start parse search user uuid ng nl report)"
  let ?w1 = "?w0\<lparr>w_mail := Some (?m, Failed AttachmentMissing)\<rparr>"
  let ?w2 = "?w1\<lparr>w_files := (w_files ?w1)(?p \<mapsto> sh), w_export := None\<rparr>"
  have w0: "w_export ?w0 = Some (?p, Inr sh)" "w_mail ?w0 = Some (?m, Queued)" "w_files ?w0 = files"
    using start_success [where parse = parse and search = search and user = user and uuid = uuid, OF assms(1-6)] assms(7)
    by (simp_all add: after_run_def)
  have s1: "after_step ?w0 ?w1"
    by (rule after_step.mail_missing) (use w0 assms(8) in \<open>simp_all add: report_mail_def\<close>)
  have s2: "after_step ?w1 ?w2"
    by (rule after_step.file_written) (use w0 in simp)
  have final: "\<forall>w'. \<not> after_step ?w2 w'"
    by (auto elim: after_stepE)
  show ?thesis
    using s1 s2 final by (intro exI [of _ ?w2]) auto
qed

theorem start_flattens_aggregations_witness:
  "demo_parse (js_to_string (r_request demo_report)) = Some demo_request \<and>
   rewrite_window (r_timeFilterUnit demo_report) (r_timeFilter demo_report) (Some 0) (Some 0) demo_request = Inr demo_request \<and>
   demo_search region_status (search_path demo_report) demo_request
     = Some (JObj [(''aggregations'', JObj [(''region'', agg_json region_status)])]) \<and>
   demo_parse (js_to_string (r_columns demo_report)) = Some demo_columns \<and>
   getColumns demo_columns = Inr demo_cols \<and>
   in_enum_order (map (\<lambda>g. (fst g, agg_json (snd g))) [(''region'', region_status)]) \<and>
   list_all (\<lambda>g. list_all wf_bucket (snd g)) [(''region'', region_status)] \<and>
   run_export (start demo_parse (demo_search region_status) ''reports@safee.test'' ''u1'' (Some 0) (Some 0) demo_report)
     = Some (''tmp/u1.xlsx'', createExcel (JStr ''Fleet'') (window_start (JStr ''day'') (JNum 5) (Some 0)) (Some 0)
              (flat_agg ''region'' [] (map prune_falsy region_status)) demo_cols)"
proof -
  have o: "in_enum_order (map (\<lambda>g. (fst g, agg_json (snd g))) [(''region'', region_status)])"
    by (simp add: js_eval)
  have w: "\<forall>g \<in> set [(''region'', region_status)]. \<forall>b \<in> set (snd g). wf_bucket b"
    by (simp add: region_status_def js_eval)
  note h = demo_steps and g = demo_search_steps [of region_status]
  show ?thesis
    using start_flattens_aggregations [where parse = demo_parse and search = "demo_search region_status" and user = "''reports@safee.test''" and uuid = "''u1''", OF h(1,2) g(1) h(3,4) g(2) o w] h g o w
    by (simp add: list_all_iff report_file_def demo_report_def)
qed

theorem start_mails_after_failed_export_witness:
  "demo_parse (js_to_string (r_request demo_report)) = Some demo_request \<and>
   rewrite_window (r_timeFilterUnit demo_report) (r_timeFilter demo_report) (Some 0) (Some 0) demo_request = Inr demo_request \<and>
   demo_search zero_first (search_path demo_report) demo_request
     = Some (JObj [(''aggregations'', JObj [(''region'', agg_json zero_first)])]) \<and>
   demo_parse (js_to_string (r_columns demo_report)) = Some demo_columns \<and>
   getColumns demo_columns = Inr demo_cols \<and>
   js_get (JObj [(''aggregations'', JObj [(''region'', agg_json zero_first)])]) ''aggregations''
     = Inr (Some (JObj (map (\<lambda>g. (fst g, agg_json (snd g))) [(''region'', zero_first)]))) \<and>
   createExcel (r_title demo_report) (window_start (r_timeFilterUnit demo_report) (r_timeFilter demo_report) (Some 0)) (Some 0)
     (collect_rows (Some (JObj (map (\<lambda>g. (fst g, agg_json (snd g))) [(''region'', zero_first)])))) demo_cols = Inl TypeError \<and>
   run_mail (start demo_parse (demo_search zero_first) ''reports@safee.test'' ''u1'' (Some 0) (Some 0) demo_report)
     = Some (report_mail ''reports@safee.test'' demo_report ''tmp/u1.xlsx'')"
proof -
  note h = demo_steps and g = demo_search_steps [of zero_first]
  have x: "createExcel (r_title demo_report) (window_start (r_timeFilterUnit demo_report) (r_timeFilter demo_report) (Some 0)) (Some 0)
     (collect_rows (Some (JObj (map (\<lambda>g. (fst g, agg_json (snd g))) [(''region'', zero_first)])))) demo_cols = Inl TypeError"
    unfolding zero_first_rows
    by (simp add: createExcel_def sorted_columns_def cell_columns_def key_matches_def demo_cols_def Let_def js_eval)
  show ?thesis
    using start_mails_after_failed_export [where parse = demo_parse and search = "demo_search zero_first"
        and user = "''reports@safee.test''" and uuid = "''u1''", OF h(1,2) g(1) h(3,4) g(2) x] h g x
    by (simp add: report_file_def)
qed

theorem start_mail_needs_search_witness:
  "run_mail (start demo_parse (demo_search region_status) ''reports@safee.test'' ''u1'' (Some 0) (Some 0) demo_report)
     = Some (report_mail ''reports@safee.test'' demo_report ''tmp/u1.xlsx'') \<and>
   (\<exists>request query body. demo_parse (js_to_string (r_request demo_report)) = Some request \<and>
      rewrite_window (r_timeFilterUnit demo_report) (r_timeFilter demo_report) (Some 0) (Some 0) request = Inr query \<and>
      demo_search region_status (search_path demo_report) query = Some body \<and>
      m_path (report_mail ''reports@safee.test'' demo_report ''tmp/u1.xlsx'') = report_file ''u1'')"
proof -
  note h = demo_steps and g = demo_search_steps [of region_status]
  have m: "run_mail (start demo_parse (demo_search region_status) ''reports@safee.test'' ''u1'' (Some 0) (Some 0) demo_report)
     = Some (report_mail ''reports@safee.test'' demo_report ''tmp/u1.xlsx'')"
    using start_success [where parse = demo_parse and search = "demo_search region_status"
        and user = "''reports@safee.test''" and uuid = "''u1''", OF h(1,2) g(1) h(3,4) g(2)]
    by (simp add: report_file_def)
  show ?thesis using m start_mail_needs_search [OF m] by simp
qed

theorem mail_before_file_witness:
  "demo_parse (js_to_string (r_request demo_report)) = Some demo_request \<and>
   rewrite_window (r_timeFilterUnit demo_report) (r_timeFilter demo_report) (Some 0) (Some 0) demo_request = Inr demo_request \<and>
   demo_search [] (search_path demo_report) demo_request = Some (JObj [(''aggregations'', JObj [(''region'', agg_json [])])]) \<and>
   demo_parse (js_to_string (r_columns demo_report)) = Some demo_columns \<and>
   getColumns demo_columns = Inr demo_cols \<and>
   createExcel (r_title demo_report) (window_start (r_timeFilterUnit demo_report) (r_timeFilter demo_report) (Some 0)) (Some 0)
     (collect_rows (Some (JObj (map (\<lambda>g. (fst g, agg_json (snd g))) [(''region'', [])])))) demo_cols
     = Inr \<lparr>sh_columns = sorted_columns [] demo_cols,
            sh_rows = summary_rows (r_title demo_report) (window_start (r_timeFilterUnit demo_report) (r_timeFilter demo_report) (Some 0)) (Some 0)\<rparr> \<and>
   (\<exists>w. after_step\<^sup>*\<^sup>* (after_run Map.empty (start demo_parse (demo_search []) ''reports@safee.test'' ''u1'' (Some 0) (Some 0) demo_report)) w \<and>
      w_mail w = Some (report_mail ''reports@safee.test'' demo_report ''tmp/u1.xlsx'', Failed AttachmentMissing) \<and>
      w_files w ''tmp/u1.xlsx'' \<noteq> None \<and> w_export w = None)"
proof -
  note h = demo_steps and g = demo_search_steps [of "[]"]
  have rows: "collect_rows (Some (JObj (map (\<lambda>g. (fst g, agg_json (snd g))) [(''region'', [])]))) = []"
    using collect_rows_groups [of "[(''region'', [])]" "[]"]
    by (simp add: collect_rows_def js_eval flat_agg_def)
  have x: "createExcel (r_title demo_report) (window_start (r_timeFilterUnit demo_report) (r_timeFilter demo_report) (Some 0)) (Some 0)
     (collect_rows (Some (JObj (map (\<lambda>g. (fst g, agg_json (snd g))) [(''region'', [])])))) demo_cols
     = Inr \<lparr>sh_columns = sorted_columns [] demo_cols,
            sh_rows = summary_rows (r_title demo_report) (window_start (r_timeFilterUnit demo_report) (r_timeFilter demo_report) (Some 0)) (Some 0)\<rparr>"
    unfolding rows by (simp add: createExcel_def Let_def)
  have f: "(Map.empty :: string \<Rightarrow> date sheet option) (report_file ''u1'') = None" by simp
  show ?thesis
    using mail_before_file [where parse = demo_parse and search = "demo_search []"
        and user = "''reports@safee.test''" and uuid = "''u1''", OF h(1,2) g(1) h(3,4) g(2) x f] h g x
    by (fastforce simp: report_file_def)
qed

end
