(* ===== verification/Routes.thy ===== *)
theory Routes
  imports Scheduler
begin

text \<open>
  The HTTP interface of the server: \<open>defineRoutes\<close> (\<open>src/server/routes/index.ts\<close>,
  lines 14--209) registers three handlers under three paths, and Kibana's router picks
  the handler of a request by its method and path and validates the body against the
  route's schema before the handler runs.
  \<^item> \<open>http_request\<close> is a request as the browser sends it (method, path, and for
    \<open>PUT\<close> the parsed JSON body); \<open>route_of\<close> is the router: an exact path for
    \<open>get_schedules\<close> and \<open>create\<close>, and for \<open>delete/{id}\<close> one non-empty path
    segment bound to \<open>params.id\<close>.
  \<^item> \<open>create_body_of\<close> is the body validation of the create route:
    \<open>schema.object\<close> of ten \<open>schema.any()\<close> keys accepts an object holding exactly
    those keys, with any values.
  \<^item> \<open>serve\<close> runs the handler a request is routed to on the scheduler state of
    \<open>Scheduler\<close>; the environment \<open>env\<close> holds what the handlers receive from outside
    the program: the outcome of the Elasticsearch requests, the user's roles, the
    \<open>uuidv4()\<close> of a creation and the hits of the listing's search.
  \<^item> \<open>server_reach\<close> are the states the server reaches through any requests (each
    creation with a fresh uuid) and restarts; they are states of \<open>Scheduler\<close>'s
    \<open>reachable\<close>, so its invariant holds in them.
  Percent-decoding of path parameters is not modelled: report ids are the hexadecimal
  digits and dashes of \<open>uuidv4\<close>.
\<close>

section \<open>Paths and the router\<close>

datatype http_request =
    HttpGet string
  | HttpPut string json
  | HttpDelete string

datatype route =
    RGetSchedules
  | RCreate json
  | RDelete string

definition get_schedules_path :: string where
  "get_schedules_path = ''/api/scheduled_reports/get_schedules''"

definition create_path :: string where
  "create_path = ''/api/scheduled_reports/create''"

definition delete_prefix :: string where
  "delete_prefix = ''/api/scheduled_reports/delete/''"

fun strip_prefix :: "'a list \<Rightarrow> 'a list \<Rightarrow> 'a list option" where
  "strip_prefix [] s = Some s"
| "strip_prefix (p # ps) [] = None"
| "strip_prefix (p # ps) (c # cs) = (if p = c then strip_prefix ps cs else None)"

text \<open>\<open>{id}\<close> matches one segment: a non-empty string without \<open>/\<close>.\<close>

definition path_segment :: "string \<Rightarrow> bool" where
  "path_segment s \<longleftrightarrow> s \<noteq> [] \<and> CHR ''/'' \<notin> set s"

definition route_of :: "http_request \<Rightarrow> route option" where
  "route_of rq =
     (case rq of
        HttpGet p \<Rightarrow> if p = get_schedules_path then Some RGetSchedules else None
      | HttpPut p b \<Rightarrow> if p = create_path then Some (RCreate b) else None
      | HttpDelete p \<Rightarrow>
          (case strip_prefix delete_prefix p of
             Some i \<Rightarrow> if path_segment i then Some (RDelete i) else None
           | None \<Rightarrow> None))"

section \<open>Validation of the create body\<close>

definition create_keys :: "string list" where
  "create_keys = [''index'', ''visualizationId'', ''title'', ''request'', ''duration'',
                  ''durationUnit'', ''receiver'', ''timeFilter'', ''timeFilterUnit'', ''columns'']"

text \<open>Lines 85--98: every key is declared with \<open>schema.any()\<close>, which accepts any
  value but requires the key; \<open>schema.object\<close> rejects a key it does not declare.\<close>

definition create_body_of :: "json \<Rightarrow> create_body option" where
  "create_body_of v =
     (case v of
        JObj kvs \<Rightarrow>
          if set (map fst kvs) = set create_keys then
            (let f = (\<lambda>k. the (map_of kvs k)) in
             Some \<lparr>b_index = f ''index'', b_visualizationId = f ''visualizationId'',
                   b_title = f ''title'', b_request = f ''request'', b_duration = f ''duration'',
                   b_durationUnit = f ''durationUnit'', b_receiver = f ''receiver'',
                   b_timeFilter = f ''timeFilter'', b_timeFilterUnit = f ''timeFilterUnit'',
                   b_columns = f ''columns''\<rparr>)
          else None
      | _ \<Rightarrow> None)"

section \<open>Serving a request\<close>

text \<open>What the router answers: a handler's response, the rows of the listing (its
  \<open>response.ok({body: {rows}})\<close>), \<open>404\<close> for a path no route matches and
  \<open>400\<close> for a body the schema rejects.\<close>

datatype reply =
    Reply response
  | Rows "sched_row list"
  | NotFound
  | BadRequest

record env =
  e_es :: es_outcome
  e_roles :: "string list"
  e_uuid :: string
  e_hits :: "string \<Rightarrow> report list option"

definition serve :: "string list \<Rightarrow> env \<Rightarrow> http_request \<Rightarrow> sched \<Rightarrow> reply \<times> sched" where
  "serve defaults e rq st =
     (case route_of rq of
        None \<Rightarrow> (NotFound, st)
      | Some RGetSchedules \<Rightarrow>
          (case get_schedules_handler defaults (e_roles e) (e_hits e) of
             None \<Rightarrow> (Reply InternalError, st)
           | Some rows \<Rightarrow> (Rows rows, st))
      | Some (RCreate b) \<Rightarrow>
          (case create_body_of b of
             None \<Rightarrow> (BadRequest, st)
           | Some body \<Rightarrow> (let (r, st') = create_handler (e_es e) (e_uuid e) body st in (Reply r, st')))
      | Some (RDelete i) \<Rightarrow>
          (let (r, st') = delete_handler defaults (e_roles e) (e_es e) i st in (Reply r, st')))"

text \<open>\<open>response.ok\<close> in the browser: a status from 200 to 299.\<close>

definition reply_ok :: "reply \<Rightarrow> bool" where
  "reply_ok r =
     (case r of
        Reply (Ok _) \<Rightarrow> True
      | Reply (CustomError c _) \<Rightarrow> 200 \<le> unat c \<and> unat c < 300
      | Reply InternalError \<Rightarrow> False
      | Rows _ \<Rightarrow> True
      | NotFound \<Rightarrow> False
      | BadRequest \<Rightarrow> False)"

section \<open>The states the server reaches\<close>

text \<open>The server's state after any sequence of requests, each creation with a fresh
  \<open>uuidv4()\<close>, and of restarts of the Kibana process.\<close>

inductive server_reach :: "string list \<Rightarrow> sched \<Rightarrow> bool" for defaults :: "string list" where
  init: "server_reach defaults sched_init"
| request: "server_reach defaults st \<Longrightarrow> jobs st (e_uuid e) = None \<Longrightarrow>
            server_reach defaults (snd (serve defaults e rq st))"
| restart: "server_reach defaults st \<Longrightarrow> server_reach defaults (st\<lparr>jobs := Map.empty, timers := Map.empty\<rparr>)"

section \<open>Lemmas\<close>


lemma strip_prefix_append [simp]: "strip_prefix p (p @ s) = Some s"
  by (induction p) auto

lemma strip_prefix_Some: "strip_prefix p s = Some r \<Longrightarrow> s = p @ r"
  by (induction p s rule: strip_prefix.induct) (auto split: if_splits)

lemma route_of_delete: "route_of (HttpDelete (delete_prefix @ i)) = (if path_segment i then Some (RDelete i) else None)"
  by (simp add: route_of_def)

lemma serve_delete:
  "path_segment i \<Longrightarrow>
   serve defaults e (HttpDelete (delete_prefix @ i)) st =
     (Reply (fst (delete_handler defaults (e_roles e) (e_es e) i st)),
      snd (delete_handler defaults (e_roles e) (e_es e) i st))"
  by (simp add: serve_def route_of_delete split: prod.split)

lemma serve_cases:
  "snd (serve defaults e rq st) = st \<or>
   (\<exists>body. snd (serve defaults e rq st) = snd (create_handler (e_es e) (e_uuid e) body st)) \<or>
   (\<exists>i. snd (serve defaults e rq st) = snd (delete_handler defaults (e_roles e) (e_es e) i st))"
proof (cases "route_of rq")
  case None
  then show ?thesis by (simp add: serve_def)
next
  case (Some r)
  note route = Some
  show ?thesis
  proof (cases r)
    case RGetSchedules
    with route show ?thesis by (simp add: serve_def split: option.split)
  next
    case (RCreate b)
    show ?thesis
    proof (cases "create_body_of b")
      case None
      with route RCreate show ?thesis by (simp add: serve_def)
    next
      case (Some body)
      with route RCreate have "snd (serve defaults e rq st) = snd (create_handler (e_es e) (e_uuid e) body st)"
        by (simp add: serve_def split: prod.split)
      then show ?thesis by blast
    qed
  next
    case (RDelete i)
    with route have "snd (serve defaults e rq st) = snd (delete_handler defaults (e_roles e) (e_es e) i st)"
      by (simp add: serve_def split: prod.split)
    then show ?thesis by blast
  qed
qed

lemma server_reach_reachable: "server_reach defaults st \<Longrightarrow> reachable defaults st"
proof (induction rule: server_reach.induct)
  case init
  then show ?case by (rule reachable.init)
next
  case (request st e rq)
  from serve_cases [of defaults e rq st] show ?case
  proof (elim disjE exE)
    assume "snd (serve defaults e rq st) = st"
    with request.IH show ?thesis by simp
  next
    fix body assume "snd (serve defaults e rq st) = snd (create_handler (e_es e) (e_uuid e) body st)"
    with reachable.create [OF request.IH request.hyps(2)] show ?thesis by simp
  next
    fix i assume "snd (serve defaults e rq st) = snd (delete_handler defaults (e_roles e) (e_es e) i st)"
    with reachable.delete [OF request.IH] show ?thesis by simp
  qed
next
  case (restart st)
  show ?case by (rule reachable.restart [OF restart.IH])
qed

section \<open>Claims\<close>

text \<open>
  C14 (invariant). The scheduler invariant holds in every state the server reaches
  through HTTP requests: whatever method, path and body a client sends (unknown paths,
  rejected bodies, unparsable schedules and all), every job in \<open>scheduledJobs\<close>,
  live or inert, has a number of its own, and every live timer is the job registered
  under its name and runs the report stored under that id with the schedule it
  records.
\<close>

theorem server_reach_inv: "server_reach defaults st \<Longrightarrow> sched_inv st"
  by (rule reachable_inv [OF server_reach_reachable])

definition demo_create_json :: json where
  "demo_create_json =
     JObj [(''index'', JStr ''acme-logs''), (''visualizationId'', JStr ''vis-1''), (''title'', JStr ''Fleet''),
           (''request'', JStr ''{}''), (''duration'', JNum 3), (''durationUnit'', JStr ''hour''),
           (''receiver'', JStr ''ops@acme.test''), (''timeFilter'', JNum 1), (''timeFilterUnit'', JStr ''day''),
           (''columns'', JStr ''[]'')]"

theorem server_reach_inv_witness:
  "server_reach [] (snd (serve [] \<lparr>e_es = EsOk, e_roles = [''acme''], e_uuid = ''r1'', e_hits = (\<lambda>_. None)\<rparr>
      (HttpPut create_path demo_create_json) sched_init)) \<and>
   sched_inv (snd (serve [] \<lparr>e_es = EsOk, e_roles = [''acme''], e_uuid = ''r1'', e_hits = (\<lambda>_. None)\<rparr>
      (HttpPut create_path demo_create_json) sched_init))"
proof -
  have h: "server_reach [] (snd (serve [] \<lparr>e_es = EsOk, e_roles = [''acme''], e_uuid = ''r1'', e_hits = (\<lambda>_. None)\<rparr>
      (HttpPut create_path demo_create_json) sched_init))"
    by (rule server_reach.request [OF server_reach.init]) (simp add: sched_init_def)
  show ?thesis using h server_reach_inv [OF h] by simp
qed

end
