(* ===== verification/CreateForm.thy ===== *)
theory CreateForm
  imports Routes
begin

text \<open>
  The create page of the UI, \<open>ScheduledReportsApp\<close> in
  \<open>src/public/components/app.tsx\<close>. The visualization the report is about (index,
  id, title, the query and the columns) is handed over through \<open>localStorage\<close>;
  the form holds the user's choices in React state; the create button sends them as
  the body of \<open>PUT /api/scheduled_reports/create\<close> and shows the answer.
  \<^item> \<open>local_store\<close> is what \<open>localStorage.getItem\<close> returns for the five keys
    (\<open>null\<close> for a missing key); \<open>form\<close> is the component's state, plus the alert
    \<open>Swal.fire\<close> shows and the page the browser is on.
  \<^item> \<open>form_step\<close> is one event: an edit of a field (the handlers \<open>onChange...\<close>),
    a click on the button (\<open>onClickHandler\<close>), the answer to the request, the
    closing of an alert. It returns the request the event sends, if any.
  \<^item> An \<open>EuiFieldNumber\<close> hands its handler the input's text, so once edited the
    duration and the time filter are strings; the body is built with
    \<open>JSON.stringify\<close>, which the server's body parser inverts, so the model keeps the
    JSON value.
  \<^item> The button is rendered with \<open>isLoading={isSaving}\<close>, and \<open>EuiButton\<close> disables
    itself while loading: a click while \<open>isSaving\<close> does nothing.
\<close>

section \<open>State and events\<close>

record local_store =
  ls_index :: "string option"
  ls_id :: "string option"
  ls_title :: "string option"
  ls_request :: "string option"
  ls_columns :: "string option"

datatype page = CreatePage | ListPage

datatype alert = SuccessAlert | ErrorAlert

record form =
  duration :: json
  timeFilter :: json
  selectedValue :: string
  timeFilterselectedValue :: string
  receiver :: string
  isSaving :: bool
  alert :: "alert option"
  page :: page

text \<open>The two option lists of the selects (lines 46--57): value and label.\<close>

definition duration_options :: "(string \<times> string) list" where
  "duration_options = [(''second'', ''Seconds''), (''hour'', ''Hours''), (''day'', ''Days''), (''month'', ''Months'')]"

definition time_filter_options :: "(string \<times> string) list" where
  "time_filter_options = [(''hour'', ''Hours''), (''day'', ''Days''), (''month'', ''Months'')]"

text \<open>The initial state (lines 58--62 and 131). Both selects start at
  \<open>options[2].value\<close>, the duration list's third entry, also for the time filter.\<close>

definition form_init :: form where
  "form_init =
     \<lparr>duration = JNum 1, timeFilter = JNum 1, selectedValue = fst (duration_options ! 2),
      timeFilterselectedValue = fst (duration_options ! 2), receiver = [], isSaving = False,
      alert = None, page = CreatePage\<rparr>"

datatype form_event =
    SelectUnit string
  | EditTimeFilter string
  | SelectTimeFilterUnit string
  | EditDuration string
  | EditReceiver string
  | ClickCreate
  | CreateAnswered bool
  | AlertClosed

section \<open>The request body and the step function\<close>

text \<open>A value read from \<open>localStorage\<close>: \<open>null\<close> when the key is missing, which
  \<open>JSON.stringify\<close> keeps as \<open>null\<close>.\<close>

definition ls_json :: "string option \<Rightarrow> json" where
  "ls_json v = (case v of None \<Rightarrow> JNull | Some s \<Rightarrow> JStr s)"

text \<open>The body of lines 98--109, keys in the order the object literal lists them.\<close>

definition create_request :: "local_store \<Rightarrow> form \<Rightarrow> json" where
  "create_request ls f =
     JObj [(''index'', ls_json (ls_index ls)), (''visualizationId'', ls_json (ls_id ls)),
           (''title'', ls_json (ls_title ls)), (''request'', ls_json (ls_request ls)),
           (''duration'', duration f), (''durationUnit'', JStr (selectedValue f)),
           (''receiver'', JStr (receiver f)), (''timeFilter'', timeFilter f),
           (''timeFilterUnit'', JStr (timeFilterselectedValue f)),
           (''columns'', ls_json (ls_columns ls))]"

text \<open>Lines 74--92 (the edit handlers) and 94--129 (\<open>onClickHandler\<close> and the
  \<open>then\<close> of its \<open>fetch\<close>): on success the success alert, and when it is closed the
  browser goes to the list page; on failure \<open>isSaving\<close> is cleared and the error alert
  shown.\<close>

fun form_step :: "local_store \<Rightarrow> form \<Rightarrow> form_event \<Rightarrow> form \<times> http_request option" where
  "form_step ls f (SelectUnit v) = (f\<lparr>selectedValue := v\<rparr>, None)"
| "form_step ls f (EditTimeFilter s) = (f\<lparr>timeFilter := JStr s\<rparr>, None)"
| "form_step ls f (SelectTimeFilterUnit v) = (f\<lparr>timeFilterselectedValue := v\<rparr>, None)"
| "form_step ls f (EditDuration s) = (f\<lparr>duration := JStr s\<rparr>, None)"
| "form_step ls f (EditReceiver s) = (f\<lparr>receiver := s\<rparr>, None)"
| "form_step ls f ClickCreate =
     (if isSaving f then (f, None)
      else (f\<lparr>isSaving := True\<rparr>, Some (HttpPut create_path (create_request ls f))))"
| "form_step ls f (CreateAnswered ok) =
     (if ok then (f\<lparr>alert := Some SuccessAlert\<rparr>, None)
      else (f\<lparr>isSaving := False, alert := Some ErrorAlert\<rparr>, None))"
| "form_step ls f AlertClosed =
     (if alert f = Some SuccessAlert then (f\<lparr>alert := None, page := ListPage\<rparr>, None)
      else (f\<lparr>alert := None\<rparr>, None))"

section \<open>The page and the server together\<close>

text \<open>The events the user causes, as opposed to the answer of the server.\<close>

fun user_event :: "form_event \<Rightarrow> bool" where
  "user_event (CreateAnswered _) = False"
| "user_event _ = True"

text \<open>The page with the number of its create requests the server has not answered
  yet: a user event may send one, and an answer arrives only for a pending request.\<close>

inductive form_reach :: "local_store \<Rightarrow> form \<times> nat \<Rightarrow> bool" for ls :: local_store where
  init: "form_reach ls (form_init, 0)"
| user: "form_reach ls (f, n) \<Longrightarrow> user_event e \<Longrightarrow> form_step ls f e = (f', rq) \<Longrightarrow>
         form_reach ls (f', if rq = None then n else Suc n)"
| answer: "form_reach ls (f, Suc n) \<Longrightarrow> form_reach ls (fst (form_step ls f (CreateAnswered ok)), n)"

text \<open>One click on the button with the server's answer: the request (if the click
  sends one) is served and the page reacts to \<open>response.ok\<close>.\<close>

definition create_round ::
  "string list \<Rightarrow> env \<Rightarrow> local_store \<Rightarrow> form \<Rightarrow> sched \<Rightarrow> form \<times> reply option \<times> sched" where
  "create_round defaults e ls f st =
     (case form_step ls f ClickCreate of
        (f1, None) \<Rightarrow> (f1, None, st)
      | (f1, Some rq) \<Rightarrow>
          (let (r, st') = serve defaults e rq st
           in (fst (form_step ls f1 (CreateAnswered (reply_ok r))), Some r, st')))"

section \<open>Lemmas\<close>

text \<open>The body the form sends as the server's validation reads it.\<close>

definition form_body :: "local_store \<Rightarrow> form \<Rightarrow> create_body" where
  "form_body ls f =
     \<lparr>b_index = ls_json (ls_index ls), b_visualizationId = ls_json (ls_id ls),
      b_title = ls_json (ls_title ls), b_request = ls_json (ls_request ls), b_duration = duration f,
      b_durationUnit = JStr (selectedValue f), b_receiver = JStr (receiver f),
      b_timeFilter = timeFilter f, b_timeFilterUnit = JStr (timeFilterselectedValue f),
      b_columns = ls_json (ls_columns ls)\<rparr>"

lemma create_body_of_request: "create_body_of (create_request ls f) = Some (form_body ls f)"
  by (simp add: create_body_of_def create_request_def create_keys_def form_body_def)

lemma create_round_sends:
  "\<not> isSaving f \<Longrightarrow>
   create_round defaults e ls f st =
     (let (r, st') = create_handler (e_es e) (e_uuid e) (form_body ls f) st
      in (fst (form_step ls (f\<lparr>isSaving := True\<rparr>) (CreateAnswered (reply_ok (Reply r)))), Some (Reply r), st'))"
  by (simp add: create_round_def serve_def route_of_def create_body_of_request split: prod.split)

lemma form_step_keeps_saving:
  "user_event e \<Longrightarrow> e \<noteq> ClickCreate \<Longrightarrow> form_step ls f e = (f', rq) \<Longrightarrow> isSaving f' = isSaving f \<and> rq = None"
  by (cases e) (auto split: if_splits)

lemma form_reach_inv:
  "form_reach ls s \<Longrightarrow> snd s \<le> 1 \<and> (snd s = 1 \<longrightarrow> isSaving (fst s))"
proof (induction rule: form_reach.induct)
  case init
  then show ?case by simp
next
  case (user f n e f' rq)
  show ?case
  proof (cases "e = ClickCreate")
    case True
    with user show ?thesis by (auto split: if_splits)
  next
    case False
    have "isSaving f' = isSaving f \<and> rq = None"
      using form_step_keeps_saving [OF user.hyps(2) False user.hyps(3)] .
    with user.IH show ?thesis by simp
  qed
next
  case (answer f n ok)
  then show ?case by simp
qed

lemma cron_empty_unparsable:
  "u \<noteq> ''day'' \<Longrightarrow> parse_cron (generateCronExpression [] u) = None"
  by (simp add: generateCronExpression_def parse_cron_def words_def parse_field_def js_eval)

section \<open>Claims\<close>

definition demo_ls :: local_store where
  "demo_ls = \<lparr>ls_index = Some ''acme-logs'', ls_id = Some ''vis-1'', ls_title = Some ''Fleet'',
              ls_request = Some ''{}'', ls_columns = Some ''[]''\<rparr>"

definition demo_create_env :: env where
  "demo_create_env = \<lparr>e_es = EsOk, e_roles = [''acme''], e_uuid = ''r1'', e_hits = (\<lambda>_. None)\<rparr>"

text \<open>
  C10 (safety). While the page waits for the server, the button is disabled: in every
  state the page can reach, at most one create request is unanswered, and while one
  is, \<open>isSaving\<close> holds. A double click cannot create the report twice.
\<close>

theorem form_one_pending:
  "form_reach ls (f, n) \<Longrightarrow> n \<le> 1 \<and> (n = 1 \<longrightarrow> isSaving f)"
  using form_reach_inv [of ls "(f, n)"] by simp

theorem form_one_pending_witness:
  "form_reach demo_ls (form_init\<lparr>isSaving := True\<rparr>, 1) \<and> isSaving (form_init\<lparr>isSaving := True\<rparr>)"
proof -
  have r: "form_reach demo_ls (form_init\<lparr>isSaving := True\<rparr>, 1)"
    using form_reach.user [OF form_reach.init, where e = ClickCreate]
    by (simp add: form_init_def)
  show ?thesis using r form_one_pending [OF r] by simp
qed

text \<open>
  C12 (error). When \<open>localStorage\<close> holds no \<open>index\<close> (the page was opened without
  choosing a visualization), the form still sends the request; the server's
  \<open>request.body.index.split\<close> throws on \<open>null\<close>, Kibana answers 500 and nothing is
  stored; the page shows its error alert and enables the button again.
\<close>

theorem create_round_missing_index:
  assumes "ls_index ls = None" and "\<not> isSaving f"
  shows "create_round defaults e ls f st = (f\<lparr>alert := Some ErrorAlert\<rparr>, Some (Reply InternalError), st)"
  using assms
  by (simp add: create_round_sends create_handler_def form_body_def ls_json_def reply_ok_def)

theorem create_round_missing_index_witness:
  "ls_index (demo_ls\<lparr>ls_index := None\<rparr>) = None \<and> \<not> isSaving form_init \<and>
   create_round [] demo_create_env
     (demo_ls\<lparr>ls_index := None\<rparr>) form_init sched_init
   = (form_init\<lparr>alert := Some ErrorAlert\<rparr>, Some (Reply InternalError), sched_init)"
proof -
  have h: "ls_index (demo_ls\<lparr>ls_index := None\<rparr>) = None" "\<not> isSaving form_init"
    by (simp_all add: form_init_def)
  show ?thesis using h create_round_missing_index [OF h] by simp
qed

text \<open>
  C19 (functional, a defect across the UI and the server). When the user clears the
  duration field (the number input then hands over the empty string) and the unit is
  not \<open>day\<close>, the page reports success: the server stores the report, but
  node-schedule cannot parse the expression \<open>generateCronExpression\<close> builds from the
  empty string: the job registered under the new id is inert, no timer is added, and
  the report is never sent.
\<close>

theorem create_round_cleared_duration:
  assumes "\<not> isSaving f" and "duration f = JStr []" and "selectedValue f \<noteq> ''day''"
    and "ls_index ls = Some ix" and "e_es e = EsOk"
  shows "create_round defaults e ls f st =
     (f\<lparr>isSaving := True, alert := Some SuccessAlert\<rparr>,
      Some (Reply (Ok ''Your scheduled report has been created successfully.'')),
      st\<lparr>store := (store st)(hd (split_on CHR ''-'' ix) @ ''-scheduled_reports'' :=
           (store st (hd (split_on CHR ''-'' ix) @ ''-scheduled_reports''))(e_uuid e \<mapsto>
              create_report (e_uuid e) (hd (split_on CHR ''-'' ix)) (generateCronExpression [] (selectedValue f))
                (form_body ls f))),
         jobs := (jobs st)(e_uuid e \<mapsto> next_timer st),
         next_timer := Suc (next_timer st)\<rparr>)"
  using assms cron_empty_unparsable [OF assms(3)]
  by (simp add: create_round_sends create_handler_def form_body_def ls_json_def reply_ok_def
      es_index_def scheduleJob_def Let_def)

theorem create_round_cleared_duration_witness:
  "\<not> isSaving (form_init\<lparr>duration := JStr [], selectedValue := ''hour''\<rparr>) \<and>
   duration (form_init\<lparr>duration := JStr [], selectedValue := ''hour''\<rparr>) = JStr [] \<and>
   selectedValue (form_init\<lparr>duration := JStr [], selectedValue := ''hour''\<rparr>) \<noteq> ''day'' \<and>
   ls_index demo_ls = Some ''acme-logs'' \<and> e_es demo_create_env = EsOk \<and>
   alert (fst (create_round [] demo_create_env demo_ls (form_init\<lparr>duration := JStr [], selectedValue := ''hour''\<rparr>) sched_init))
     = Some SuccessAlert \<and>
   jobs (snd (snd (create_round [] demo_create_env demo_ls (form_init\<lparr>duration := JStr [], selectedValue := ''hour''\<rparr>) sched_init)))
     = [e_uuid demo_create_env \<mapsto> 0] \<and>
   timers (snd (snd (create_round [] demo_create_env demo_ls (form_init\<lparr>duration := JStr [], selectedValue := ''hour''\<rparr>) sched_init)))
     = Map.empty"
proof -
  have h: "\<not> isSaving (form_init\<lparr>duration := JStr [], selectedValue := ''hour''\<rparr>)"
    "duration (form_init\<lparr>duration := JStr [], selectedValue := ''hour''\<rparr>) = JStr []"
    "selectedValue (form_init\<lparr>duration := JStr [], selectedValue := ''hour''\<rparr>) \<noteq> ''day''"
    "ls_index demo_ls = Some ''acme-logs''" "e_es demo_create_env = EsOk"
    by (simp_all add: form_init_def demo_ls_def demo_create_env_def)
  show ?thesis using h create_round_cleared_duration [OF h, of "[]" sched_init] by (simp add: sched_init_def)
qed

end
