(* ===== verification/SchedulesTable.thy ===== *)
theory SchedulesTable
  imports Routes
begin

text \<open>
  The list page of the UI, \<open>DataTable\<close> in \<open>src/public/components/SchedulesTable.tsx\<close>:
  an \<open>EuiDataGrid\<close> of the rows \<open>GET /api/scheduled_reports/get_schedules\<close> returns,
  each with a delete button that sends \<open>DELETE /api/scheduled_reports/delete/{visId}\<close>
  and reloads the rows when the server answers with success.
  \<^item> \<open>row_json\<close> is a row of the listing as the browser's \<open>response.json()\<close> reads it;
    \<open>load_rows\<close> is the loop of \<open>updateTable\<close> that adds the \<open>delete\<close> cell to each.
  \<^item> \<open>grid\<close> is the component's state (\<open>raw_data\<close>, the pagination, the sorting and
    the visible columns); \<open>grid_step\<close> is one event: rows arriving, a click on a delete
    button, the answer to the delete request, a pagination, sorting or column change.
    It returns the requests the event sends and the toast it shows.
  \<^item> \<open>render_cell\<close> is \<open>renderCellValue\<close>: what the grid shows for a row index and a
    column id. Its effect that colours an \<open>amount\<close> column is not modelled: no column of
    the grid has that id, so it never runs.
  The grid's own sorting and paging of the rows it is given happen inside
  \<open>EuiDataGrid\<close> and are not modelled.
\<close>

section \<open>Rows\<close>

text \<open>The grid's columns (lines 15--49): id and header; width, resizing and actions are
  display options.\<close>

record grid_column =
  gc_id :: string
  gc_display :: string

definition grid_columns :: "grid_column list" where
  "grid_columns =
     [\<lparr>gc_id = ''id'', gc_display = ''#''\<rparr>,
      \<lparr>gc_id = ''visName'', gc_display = ''Visualization Name''\<rparr>,
      \<lparr>gc_id = ''index'', gc_display = ''Index''\<rparr>,
      \<lparr>gc_id = ''reportEvery'', gc_display = ''Report Every''\<rparr>,
      \<lparr>gc_id = ''timeFilter'', gc_display = ''Time Filter''\<rparr>,
      \<lparr>gc_id = ''delete'', gc_display = ''action''\<rparr>]"

text \<open>A row of the listing as JSON (routes, lines 63--70), keys in the order of the
  object literal.\<close>

definition row_json :: "sched_row \<Rightarrow> (string \<times> json) list" where
  "row_json r =
     [(''id'', JNum (int (row_id r))), (''visId'', JStr (row_visId r)), (''visName'', row_visName r),
      (''index'', row_index r), (''reportEvery'', JStr (row_reportEvery r)),
      (''timeFilter'', JStr (row_timeFilter r))]"

text \<open>A cell of \<open>raw_data\<close>: a value of the row, or the \<open>delete\<close> cell whose
  \<open>formatted\<close> element is a button bound to the row's \<open>visId\<close>.\<close>

datatype cell = Val json | DeleteButton json

type_synonym grid_row = "(string \<times> cell) list"

text \<open>Lines 61--99: \<open>data.rows[i]['delete'] = {formatted: <button>, raw: 'delete'}\<close>,
  a new property, so it comes last; the button keeps the row's \<open>visId\<close>, which every
  row of the listing carries.\<close>

definition load_row :: "(string \<times> json) list \<Rightarrow> grid_row" where
  "load_row kvs =
     map (\<lambda>(k, v). (k, Val v)) kvs @ [(''delete'', DeleteButton (the (map_of kvs ''visId'')))]"

definition load_rows :: "sched_row list \<Rightarrow> grid_row list" where
  "load_rows rs = map (load_row \<circ> row_json) rs"

section \<open>The grid and its events\<close>

record grid =
  raw_data :: "grid_row list"
  pageIndex :: nat
  pageSize :: nat
  sortingColumns :: "(string \<times> string) list"
  visibleColumns :: "string list"

text \<open>The initial state (lines 52, 104, 120, 129) and the request \<open>useEffect\<close> sends
  when the component mounts (lines 53--55).\<close>

definition grid_init :: grid where
  "grid_init = \<lparr>raw_data = [], pageIndex = 0, pageSize = 10, sortingColumns = [],
                visibleColumns = map gc_id grid_columns\<rparr>"

definition mount_requests :: "http_request list" where
  "mount_requests = [HttpGet get_schedules_path]"

datatype toast = ToastSuccess string | ToastDanger string

datatype grid_event =
    RowsAnswered reply
  | ClickDelete nat
  | DeleteAnswered bool
  | ItemsPerPage nat
  | ChangePage nat
  | SortBy "(string \<times> string) list"
  | ShowColumns "string list"

text \<open>The path of the delete request (line 72): the template literal converts
  \<open>visId\<close> with \<open>ToString\<close>.\<close>

definition delete_url :: "json \<Rightarrow> string" where
  "delete_url v = ''/api/scheduled_reports/delete/'' @ js_to_string v"

text \<open>\<open>updateTable\<close>'s \<open>then\<close> (lines 58--101) runs on the listing's rows; any other
  answer has no \<open>rows\<close> array, so \<open>data.rows.length\<close> throws inside the promise and
  the grid keeps its rows. A delete button exists for each row of \<open>raw_data\<close>
  (lines 63--98); its answer reloads the rows and shows a toast (lines 73--90). The
  pagination handlers are lines 104--117, sorting 120--126, visibility 129.\<close>

fun grid_step :: "grid \<Rightarrow> grid_event \<Rightarrow> grid \<times> http_request list \<times> toast option" where
  "grid_step g (RowsAnswered r) =
     (case r of Rows rs \<Rightarrow> (g\<lparr>raw_data := load_rows rs\<rparr>, [], None) | _ \<Rightarrow> (g, [], None))"
| "grid_step g (ClickDelete i) =
     (if i < length (raw_data g) then
        (case map_of (raw_data g ! i) ''delete'' of
           Some (DeleteButton v) \<Rightarrow> (g, [HttpDelete (delete_url v)], None)
         | _ \<Rightarrow> (g, [], None))
      else (g, [], None))"
| "grid_step g (DeleteAnswered ok) =
     (if ok then (g, [HttpGet get_schedules_path], Some (ToastSuccess ''Your scheduled report has been deleted successfully.''))
      else (g, [], Some (ToastDanger ''Something went wrong, please try again!'')))"
| "grid_step g (ItemsPerPage n) = (g\<lparr>pageSize := n, pageIndex := 0\<rparr>, [], None)"
| "grid_step g (ChangePage n) = (g\<lparr>pageIndex := n\<rparr>, [], None)"
| "grid_step g (SortBy cs) = (g\<lparr>sortingColumns := cs\<rparr>, [], None)"
| "grid_step g (ShowColumns cs) = (g\<lparr>visibleColumns := cs\<rparr>, [], None)"

text \<open>\<open>renderCellValue\<close> and its \<open>getFormatted\<close> (lines 131--157): \<open>null\<close> (here
  \<open>None\<close>) outside the rows and for a falsy or absent value; the \<open>formatted\<close> property
  of a value when it is truthy, else the value.\<close>

datatype shown = ShowValue json | ShowButton json

definition render_cell :: "grid_row list \<Rightarrow> nat \<Rightarrow> string \<Rightarrow> shown option" where
  "render_cell data rowIndex columnId =
     (if rowIndex < length data then
        (case map_of (data ! rowIndex) columnId of
           None \<Rightarrow> None
         | Some (DeleteButton v) \<Rightarrow> Some (ShowButton v)
         | Some (Val v) \<Rightarrow>
             if truthy v then
               (case js_get v ''formatted'' of
                  Inr (Some x) \<Rightarrow> if truthy x then Some (ShowValue x) else Some (ShowValue v)
                | _ \<Rightarrow> Some (ShowValue v))
             else None)
      else None)"

section \<open>The page and the server together\<close>

text \<open>A click on the delete button of row \<open>i\<close> with the server's answer: the request
  is served and the page reacts to \<open>response.ok\<close>.\<close>

definition delete_round ::
  "string list \<Rightarrow> env \<Rightarrow> grid \<Rightarrow> nat \<Rightarrow> sched \<Rightarrow> http_request list \<times> toast option \<times> sched" where
  "delete_round defaults e g i st =
     (case grid_step g (ClickDelete i) of
        (g1, [rq], _) \<Rightarrow>
          (let (r, st') = serve defaults e rq st;
               (g2, rqs, t) = grid_step g1 (DeleteAnswered (reply_ok r))
           in (rqs, t, st'))
      | (g1, _, _) \<Rightarrow> ([], None, st))"

section \<open>Lemmas\<close>

lemma map_of_load_row_delete: "map_of (load_row kvs) ''delete'' =
   (case map_of kvs ''delete'' of None \<Rightarrow> Some (DeleteButton (the (map_of kvs ''visId''))) | Some v \<Rightarrow> Some (Val v))"
  by (simp add: load_row_def map_of_map map_add_def split: option.split)

lemma length_load_rows [simp]: "length (load_rows rs) = length rs"
  by (simp add: load_rows_def)

lemma load_rows_nth:
  "i < length rs \<Longrightarrow> map_of (load_rows rs ! i) ''delete'' = Some (DeleteButton (JStr (row_visId (rs ! i))))"
  by (simp add: load_rows_def map_of_load_row_delete row_json_def)

lemma delete_url_JStr: "delete_url (JStr s) = delete_prefix @ s"
  by (simp add: delete_url_def delete_prefix_def)

lemma schedule_rows_nth:
  "i < length hs \<Longrightarrow> schedule_rows n hs ! i =
     \<lparr>row_id = n + i + 1, row_visId = r_id (hs ! i), row_visName = r_title (hs ! i), row_index = r_index (hs ! i),
      row_reportEvery = js_to_string (r_duration (hs ! i)) @ '' '' @ js_to_string (r_durationUnit (hs ! i)),
      row_timeFilter = ''Last '' @ js_to_string (r_timeFilter (hs ! i)) @ '' '' @ js_to_string (r_timeFilterUnit (hs ! i))\<rparr>"
proof (induction hs arbitrary: n i)
  case Nil then show ?case by simp
next
  case (Cons h hs)
  then show ?case by (cases i) auto
qed

lemma demo_store: "store demo_state ''acme-scheduled_reports'' ''r1'' = Some (j_report demo_job)"
  using demo_cron
  by (simp add: demo_state_def demo_job_def create_handler_def es_index_def scheduleJob_def
      sched_init_def Let_def demo_body_def)

section \<open>Claims\<close>

definition demo_env :: env where
  "demo_env = \<lparr>e_es = EsOk, e_roles = [''acme''], e_uuid = ''r2'', e_hits = (\<lambda>_. None)\<rparr>"

definition demo_rows :: "sched_row list" where
  "demo_rows = schedule_rows 0 [j_report demo_job]"

text \<open>
  C30 (roundtrip). The path the delete button builds (its own template literal in
  \<open>SchedulesTable.tsx\<close>) and the router's reading of it (the path registered in
  \<open>routes/index.ts\<close>) are inverse: a \<open>DELETE\<close> path is routed to the delete handler with id \<open>i\<close> exactly
  when it is the button's URL for \<open>visId = i\<close> and \<open>i\<close> is one path segment, as every
  \<open>uuidv4\<close> id is.
\<close>

theorem delete_url_roundtrip:
  "route_of (HttpDelete p) = Some (RDelete i) \<longleftrightarrow> p = delete_url (JStr i) \<and> path_segment i"
proof
  assume r: "route_of (HttpDelete p) = Some (RDelete i)"
  then obtain j where s: "strip_prefix delete_prefix p = Some j" and seg: "path_segment j" and ji: "j = i"
    by (auto simp: route_of_def split: option.splits if_splits)
  from s have "p = delete_prefix @ j" by (rule strip_prefix_Some)
  with seg ji show "p = delete_url (JStr i) \<and> path_segment i" by (simp add: delete_url_JStr)
next
  assume "p = delete_url (JStr i) \<and> path_segment i"
  then show "route_of (HttpDelete p) = Some (RDelete i)" by (simp add: delete_url_JStr route_of_delete)
qed

theorem delete_url_roundtrip_witness:
  "route_of (HttpDelete ''/api/scheduled_reports/delete/9b1d-4e'') = Some (RDelete ''9b1d-4e'')"
proof -
  have "''/api/scheduled_reports/delete/9b1d-4e'' = delete_url (JStr ''9b1d-4e'') \<and> path_segment ''9b1d-4e''"
    by (simp add: delete_url_def delete_prefix_def path_segment_def)
  then show ?thesis using delete_url_roundtrip [of "''/api/scheduled_reports/delete/9b1d-4e''" "''9b1d-4e''"] by simp
qed

text \<open>
  C36 (functional, the page with the server). A click on the delete button of a row of
  the listing deletes that row's report: the request reaches the delete handler with
  the report's id, which cancels its job and removes its document from the user's
  index; the page shows the success toast and asks for the rows again.
\<close>

theorem delete_round_removes:
  assumes i: "i < length rs" and rid: "row_visId (rs ! i) = rid" and seg: "path_segment rid"
    and job: "jobs st rid = Some k"
    and doc: "store st (reports_index (company_of_roles defaults (e_roles e))) rid = Some r"
    and es: "e_es e = EsOk"
  shows "delete_round defaults e (g\<lparr>raw_data := load_rows rs\<rparr>) i st =
     ([HttpGet get_schedules_path],
      Some (ToastSuccess ''Your scheduled report has been deleted successfully.''),
      st\<lparr>timers := (timers st)(k := None), jobs := (jobs st)(rid := None),
         store := (store st)(reports_index (company_of_roles defaults (e_roles e)) :=
                    (store st (reports_index (company_of_roles defaults (e_roles e))))(rid := None))\<rparr>)"
proof -
  have click: "grid_step (g\<lparr>raw_data := load_rows rs\<rparr>) (ClickDelete i) =
      (g\<lparr>raw_data := load_rows rs\<rparr>, [HttpDelete (delete_prefix @ rid)], None)"
    using i rid by (simp add: load_rows_nth delete_url_JStr)
  show ?thesis
    using job doc es unfolding delete_round_def click
    by (simp add: serve_delete [OF seg] delete_handler_def cancel_scheduled_def
        es_delete_def reply_ok_def Let_def)
qed

theorem delete_round_removes_witness:
  "0 < length demo_rows \<and> row_visId (demo_rows ! 0) = ''r1'' \<and> path_segment ''r1'' \<and>
   jobs demo_state ''r1'' = Some 0 \<and>
   store demo_state (reports_index (company_of_roles [] (e_roles demo_env))) ''r1'' = Some (j_report demo_job) \<and>
   e_es demo_env = EsOk \<and>
   fst (snd (delete_round [] demo_env (grid_init\<lparr>raw_data := load_rows demo_rows\<rparr>) 0 demo_state))
     = Some (ToastSuccess ''Your scheduled report has been deleted successfully.'') \<and>
   jobs (snd (snd (delete_round [] demo_env (grid_init\<lparr>raw_data := load_rows demo_rows\<rparr>) 0 demo_state))) ''r1'' = None"
proof -
  have h: "0 < length demo_rows" "row_visId (demo_rows ! 0) = ''r1''" "path_segment ''r1''"
    "jobs demo_state ''r1'' = Some 0"
    "store demo_state (reports_index (company_of_roles [] (e_roles demo_env))) ''r1'' = Some (j_report demo_job)"
    "e_es demo_env = EsOk"
    by (simp_all add: demo_rows_def demo_job_def create_report_def path_segment_def demo_facts
        demo_store demo_env_def reports_index_def company_of_roles_def)
  show ?thesis using h delete_round_removes [OF h] by simp
qed

text \<open>What the grid shows for the listing: the \<open>reportEvery\<close> text of each row, the
  delete button bound to the report id, and nothing past the last row.\<close>

theorem render_cell_listing:
  assumes "i < length hs"
  shows "render_cell (load_rows (schedule_rows 0 hs)) i ''reportEvery'' =
           Some (ShowValue (JStr (js_to_string (r_duration (hs ! i)) @ '' '' @ js_to_string (r_durationUnit (hs ! i))))) \<and>
         render_cell (load_rows (schedule_rows 0 hs)) i ''delete'' = Some (ShowButton (JStr (r_id (hs ! i)))) \<and>
         render_cell (load_rows (schedule_rows 0 hs)) (length hs + j) c = None"
proof -
  have len: "length (schedule_rows 0 hs) = length hs" using schedule_rows_ids [of 0 hs] by simp
  have "map_of (load_rows (schedule_rows 0 hs) ! i) ''reportEvery'' =
        Some (Val (JStr (js_to_string (r_duration (hs ! i)) @ '' '' @ js_to_string (r_durationUnit (hs ! i)))))"
    using assms len by (simp add: load_rows_def load_row_def row_json_def schedule_rows_nth map_of_map)
  then show ?thesis
    using assms len load_rows_nth [of i "schedule_rows 0 hs"]
    by (simp add: render_cell_def schedule_rows_nth js_eval)
qed

theorem render_cell_listing_witness:
  "0 < length [j_report demo_job] \<and>
   render_cell (load_rows (schedule_rows 0 [j_report demo_job])) 0 ''reportEvery'' = Some (ShowValue (JStr ''3 hour''))"
proof -
  have h: "0 < length [j_report demo_job]" by simp
  show ?thesis using h render_cell_listing [OF h, of 0 "''id''"]
    by (simp add: demo_job_def create_report_def demo_body_def int_string_def decimal.simps digit_char_def)
qed

end
