(* ===== verification/System.thy ===== *)
theory System
  imports CreateForm SchedulesTable Runner
begin

text \<open>
  The plugin as a whole: its lifecycle (\<open>src/server/plugin.ts\<close>), the requests of
  the two pages served by the routes, the timers the create route registers, and the
  runs of \<open>start\<close> those timers make.
  \<^item> \<open>plugin\<close> is an instance of \<open>ScheduledReportsPlugin\<close>: its lifecycle phase and
    the scheduler state of \<open>Scheduler\<close>. The constructor loads node-schedule, whose job
    table lives in the process, so a new instance starts with no jobs while the
    Elasticsearch indices keep their documents; \<open>setup\<close> registers the routes and
    Kibana serves them from \<open>start\<close> on; \<open>stop\<close> cancels nothing.
  \<^item> \<open>plugin_run\<close> serves a sequence of requests, each with its environment.
  \<^item> \<open>tenant_role\<close> is a reference definition of the tenant the handlers derive from
    the user's roles (the last role that is not a default one); it is equal to the
    loop of the handlers.
  The lemmas carry a stored report through a restart, and a form's fields through the
  create route, the timer and \<open>start\<close> to the mail.
\<close>

section \<open>The plugin's lifecycle\<close>

datatype plugin_phase = Constructed | SetUp | Started | Stopped

record plugin =
  pl_phase :: plugin_phase
  pl_schedule :: sched

text \<open>The constructor (lines 23--26): the indices \<open>s\<close> outlive the process, the
  required node-schedule has no jobs.\<close>

definition plugin_new :: "(string \<Rightarrow> string \<Rightarrow> report option) \<Rightarrow> plugin" where
  "plugin_new s = \<lparr>pl_phase = Constructed, pl_schedule = sched_init\<lparr>store := s\<rparr>\<rparr>"

text \<open>\<open>setup\<close> (lines 28--36) registers the routes over the instance's schedule;
  \<open>start\<close> and \<open>stop\<close> (lines 38--43) only log and return.\<close>

definition plugin_setup :: "plugin \<Rightarrow> plugin" where
  "plugin_setup p = p\<lparr>pl_phase := SetUp\<rparr>"

definition plugin_start :: "plugin \<Rightarrow> plugin" where
  "plugin_start p = p\<lparr>pl_phase := Started\<rparr>"

definition plugin_stop :: "plugin \<Rightarrow> plugin" where
  "plugin_stop p = p\<lparr>pl_phase := Stopped\<rparr>"

text \<open>A request reaches the registered routes while the plugin is started; otherwise
  Kibana's HTTP server does not serve it.\<close>

definition plugin_request ::
  "string list \<Rightarrow> env \<Rightarrow> http_request \<Rightarrow> plugin \<Rightarrow> reply option \<times> plugin" where
  "plugin_request defaults e rq p =
     (if pl_phase p = Started then
        (let (r, st') = serve defaults e rq (pl_schedule p) in (Some r, p\<lparr>pl_schedule := st'\<rparr>))
      else (None, p))"

definition boot :: "(string \<Rightarrow> string \<Rightarrow> report option) \<Rightarrow> plugin" where
  "boot s = plugin_start (plugin_setup (plugin_new s))"

fun plugin_run :: "string list \<Rightarrow> (env \<times> http_request) list \<Rightarrow> plugin \<Rightarrow> plugin" where
  "plugin_run defaults [] p = p"
| "plugin_run defaults ((e, rq) # evs) p = plugin_run defaults evs (snd (plugin_request defaults e rq p))"

section \<open>The tenant of a user\<close>

definition tenant_role :: "string list \<Rightarrow> string list \<Rightarrow> string option" where
  "tenant_role defaults roles =
     (case filter (\<lambda>r. r \<notin> set defaults) roles of [] \<Rightarrow> None | xs \<Rightarrow> Some (last xs))"

section \<open>Lemmas\<close>

lemma fold_tenant:
  "fold (\<lambda>role c. if role \<notin> set defaults then Some role else c) roles c0 =
     (case filter (\<lambda>r. r \<notin> set defaults) roles of [] \<Rightarrow> c0 | xs \<Rightarrow> Some (last xs))"
proof (induction roles arbitrary: c0)
  case Nil
  then show ?case by simp
next
  case (Cons r rs)
  then show ?case by (cases "filter (\<lambda>r. r \<notin> set defaults) rs") auto
qed

text \<open>A report stored under id \<open>n\<close> with no job and no timer of that name.\<close>

definition orphan :: "string \<Rightarrow> string \<Rightarrow> report \<Rightarrow> sched \<Rightarrow> bool" where
  "orphan ix n r st \<longleftrightarrow>
     store st ix n = Some r \<and> jobs st n = None \<and> (\<forall>k j. timers st k \<noteq> Some (n, j))"

lemma create_keeps_orphan:
  "orphan ix n r st \<Longrightarrow> rid \<noteq> n \<Longrightarrow> orphan ix n r (snd (create_handler es rid body st))"
  by (auto simp: orphan_def create_handler_def es_index_def scheduleJob_def Let_def
      split: json.split es_outcome.split option.split)

lemma delete_keeps_orphan:
  "orphan ix n r st \<Longrightarrow> orphan ix n r (snd (delete_handler defaults roles es i st))"
  by (auto simp: orphan_def delete_handler_def cancel_scheduled_def es_delete_def Let_def
      split: option.split sum.split es_outcome.split)

lemma serve_keeps_orphan:
  assumes "orphan ix n r st" and "e_uuid e \<noteq> n"
  shows "orphan ix n r (snd (serve defaults e rq st))"
  using serve_cases [of defaults e rq st]
proof (elim disjE exE)
  assume "snd (serve defaults e rq st) = st"
  with assms(1) show ?thesis by simp
next
  fix body assume "snd (serve defaults e rq st) = snd (create_handler (e_es e) (e_uuid e) body st)"
  with create_keeps_orphan [OF assms] show ?thesis by simp
next
  fix i assume "snd (serve defaults e rq st) = snd (delete_handler defaults (e_roles e) (e_es e) i st)"
  with delete_keeps_orphan [OF assms(1)] show ?thesis by simp
qed

lemma plugin_run_keeps_orphan:
  "orphan ix n r (pl_schedule p) \<Longrightarrow> list_all (\<lambda>(e, rq). e_uuid e \<noteq> n) evs \<Longrightarrow>
   orphan ix n r (pl_schedule (plugin_run defaults evs p))"
proof (induction evs arbitrary: p)
  case Nil
  then show ?case by simp
next
  case (Cons ev evs)
  obtain e rq where ev: "ev = (e, rq)" by (cases ev)
  have "orphan ix n r (pl_schedule (snd (plugin_request defaults e rq p)))"
    using Cons.prems serve_keeps_orphan [of ix n r "pl_schedule p" e defaults rq] ev
    by (auto simp: plugin_request_def split: prod.split)
  with Cons.IH [of "snd (plugin_request defaults e rq p)"] Cons.prems ev show ?case by simp
qed

lemma boot_orphan: "s ix n = Some r \<Longrightarrow> orphan ix n r (pl_schedule (boot s))"
  by (simp add: orphan_def boot_def plugin_start_def plugin_setup_def plugin_new_def sched_init_def)

section \<open>Claims\<close>

text \<open>
  C9 (equivalence). The handlers' loop over the user's roles computes the reference
  definition: the tenant is the last role that is not one of Elasticsearch's default
  roles, and there is none when all roles are default ones. A user with two tenant
  roles is silently given the later one.
\<close>

theorem company_of_roles_last: "company_of_roles defaults roles = tenant_role defaults roles"
  by (simp add: company_of_roles_def tenant_role_def fold_tenant)

text \<open>
  C24 (liveness, a divergence). After Kibana restarts, a report stored before is never
  run and can never be deleted: the new plugin instance starts with no jobs and
  nothing re-registers the stored reports, and the delete route cancels the job
  before deleting the document, so it fails for them. This holds for any sequence of
  requests (any paths, bodies, roles and outcomes) whose fresh ids differ from the
  report's; the specification requires a warm start.
\<close>

theorem restart_orphans_reports:
  assumes "store (pl_schedule p) ix n = Some r" and "list_all (\<lambda>(e, rq). e_uuid e \<noteq> n) evs"
  shows "store (pl_schedule (plugin_run defaults evs (boot (store (pl_schedule p))))) ix n = Some r \<and>
         (\<forall>k j. timers (pl_schedule (plugin_run defaults evs (boot (store (pl_schedule p))))) k \<noteq> Some (n, j))"
  using plugin_run_keeps_orphan [OF boot_orphan [of "store (pl_schedule p)" ix n r, OF assms(1)] assms(2), of defaults]
  by (simp add: orphan_def)

text \<open>
  C29 (refinement, the plugin end to end). What the user enters on the create page
  reaches the mail: when the create request is served with success and the duration
  gives a valid schedule, the timer it registers runs \<open>start\<close> on a report whose run,
  when parsing, rewrite, search and columns succeed, mails the form's receiver with
  the title handed over by the visualization and the exported file attached.
\<close>

theorem form_report_mail:
  assumes "\<not> isSaving f" and "ls_index ls = Some ix" and "e_es e = EsOk"
    and cron: "parse_cron (generateCronExpression (js_to_string (duration f)) (selectedValue f)) = Some c"
    and "parse (js_to_string (ls_json (ls_request ls))) = Some request"
    and "rewrite_window (JStr (timeFilterselectedValue f)) (timeFilter f) ng nl request = Inr query"
    and "search (''/'' @ ix @ ''/_search'') query = Some body"
    and "parse (js_to_string (ls_json (ls_columns ls))) = Some cj" and "getColumns cj = Inr cols"
    and "js_get body ''aggregations'' = Inr aggs"
  shows "\<exists>j. timers (snd (snd (create_round defaults e ls f st))) (next_timer st) = Some (e_uuid e, j) \<and>
           run_mail (start parse search user uuid ng nl (j_report j)) =
             Some \<lparr>m_from = user, m_to = JStr (receiver f),
                   m_subject = ''Scheduled Report - '' @ js_to_string (ls_json (ls_title ls)),
                   m_html = getMailContent (js_to_string (ls_json (ls_title ls))),
                   m_filename = js_to_string (ls_json (ls_title ls)) @ ''.xlsx'', m_path = report_file uuid\<rparr>"
proof -
  define R where "R = create_report (e_uuid e) (hd (split_on CHR ''-'' ix))
                        (generateCronExpression (js_to_string (duration f)) (selectedValue f)) (form_body ls f)"
  have timer: "timers (snd (snd (create_round defaults e ls f st))) (next_timer st) =
                 Some (e_uuid e, \<lparr>j_cron = c, j_report = R\<rparr>)"
    using assms(1-3) cron
    by (simp add: create_round_sends create_handler_def form_body_def ls_json_def es_index_def
        scheduleJob_def Let_def R_def split: prod.split)
  have fields: "r_request R = ls_json (ls_request ls)" "r_timeFilterUnit R = JStr (timeFilterselectedValue f)"
    "r_timeFilter R = timeFilter f" "search_path R = ''/'' @ ix @ ''/_search''" "r_columns R = ls_json (ls_columns ls)"
    by (simp_all add: R_def create_report_def form_body_def search_path_def ls_json_def assms(2))
  have steps: "parse (js_to_string (r_request R)) = Some request"
    "rewrite_window (r_timeFilterUnit R) (r_timeFilter R) ng nl request = Inr query"
    "search (search_path R) query = Some body" "parse (js_to_string (r_columns R)) = Some cj"
    using assms(5-8) fields by simp_all
  have run: "run_mail (start parse search user uuid ng nl R) = Some (report_mail user R (report_file uuid))"
    using start_success [where parse = parse and search = search and user = user and uuid = uuid
        and report = R, OF steps assms(9,10)] by simp
  show ?thesis
    using timer run
    by (simp add: report_mail_def R_def create_report_def form_body_def)
qed

section \<open>Witnesses\<close>

definition demo_plugin :: plugin where
  "demo_plugin = \<lparr>pl_phase = Started, pl_schedule = demo_state\<rparr>"

definition demo_delete :: "(env \<times> http_request) list" where
  "demo_delete = [(demo_env, HttpDelete (delete_prefix @ ''r1''))]"

theorem restart_orphans_reports_witness:
  "store (pl_schedule demo_plugin) ''acme-scheduled_reports'' ''r1'' = Some (j_report demo_job) \<and>
   list_all (\<lambda>(e, rq). e_uuid e \<noteq> ''r1'') demo_delete \<and>
   store (pl_schedule (plugin_run [] demo_delete (boot (store (pl_schedule demo_plugin))))) ''acme-scheduled_reports'' ''r1''
     = Some (j_report demo_job)"
proof -
  have h: "store (pl_schedule demo_plugin) ''acme-scheduled_reports'' ''r1'' = Some (j_report demo_job)"
    "list_all (\<lambda>(e, rq). e_uuid e \<noteq> ''r1'') demo_delete"
    by (simp_all add: demo_plugin_def demo_store demo_delete_def demo_env_def)
  show ?thesis using h restart_orphans_reports [OF h, of "[]"] by simp
qed

definition demo_form_ls :: local_store where
  "demo_form_ls = \<lparr>ls_index = Some ''fleet'', ls_id = Some ''vis-1'', ls_title = Some ''Fleet'',
                   ls_request = Some ''Q'', ls_columns = Some ''C''\<rparr>"

definition demo_form :: form where
  "demo_form = form_init\<lparr>duration := JStr ''5'', selectedValue := ''second'', receiver := ''ops@acme.test''\<rparr>"

lemma demo_form_steps:
  "\<not> isSaving demo_form" "ls_index demo_form_ls = Some ''fleet''" "e_es demo_env = EsOk"
  "parse_cron (generateCronExpression (js_to_string (duration demo_form)) (selectedValue demo_form)) =
     Some \<lparr>cr_second = Steps 0 5, cr_minute = Every, cr_hour = Every, cr_dom = Every, cr_month = Every, cr_dow = Every\<rparr>"
  "demo_parse (js_to_string (ls_json (ls_request demo_form_ls))) = Some demo_request"
  "rewrite_window (JStr (timeFilterselectedValue demo_form)) (timeFilter demo_form) (Some 0) (Some 0) demo_request
     = Inr demo_request"
  "demo_parse (js_to_string (ls_json (ls_columns demo_form_ls))) = Some demo_columns"
proof -
  have "decimal 5 = ''5''" by (simp add: decimal.simps digit_char_def)
  then show "parse_cron (generateCronExpression (js_to_string (duration demo_form)) (selectedValue demo_form)) =
     Some \<lparr>cr_second = Steps 0 5, cr_minute = Every, cr_hour = Every, cr_dom = Every, cr_month = Every, cr_dow = Every\<rparr>"
    using parse_cron_second [of 5] by (simp add: demo_form_def)
qed (simp_all add: demo_form_def form_init_def demo_form_ls_def demo_env_def ls_json_def demo_parse_def
      rewrite_window_def demo_request_def filter_elems_def range_path_def range_fields_def decimal_small js_eval)

theorem form_report_mail_witness:
  "\<exists>j. timers (snd (snd (create_round [] demo_env demo_form_ls demo_form sched_init))) 0 = Some (''r2'', j) \<and>
     run_mail (start demo_parse (demo_search zero_first) ''reports@safee.test'' ''u1'' (Some 0) (Some 0) (j_report j)) =
       Some \<lparr>m_from = ''reports@safee.test'', m_to = JStr ''ops@acme.test'',
             m_subject = ''Scheduled Report - Fleet'', m_html = getMailContent ''Fleet'',
             m_filename = ''Fleet.xlsx'', m_path = report_file ''u1''\<rparr>"
proof -
  have s: "demo_search zero_first (''/'' @ ''fleet'' @ ''/_search'') demo_request =
             Some (JObj [(''aggregations'', JObj [(''region'', agg_json zero_first)])])"
    by (simp add: demo_search_def)
  have a: "js_get (JObj [(''aggregations'', JObj [(''region'', agg_json zero_first)])]) ''aggregations''
             = Inr (Some (JObj [(''region'', agg_json zero_first)]))"
    by simp
  show ?thesis
    using form_report_mail [where parse = demo_parse and search = "demo_search zero_first" and user = "''reports@safee.test''"
        and uuid = "''u1''" and defaults = "[]" and st = sched_init and f = demo_form and ls = demo_form_ls
        and e = demo_env and ix = "''fleet''" and request = demo_request and query = demo_request
        and ng = "Some 0" and nl = "Some 0" and cj = demo_columns and cols = demo_cols]
      demo_form_steps s demo_steps(4) a
    by (simp add: demo_env_def sched_init_def demo_form_def form_init_def demo_form_ls_def ls_json_def)
qed

end
