(* ===== verification/Spec2Isabelle.thy ===== *)
theory Spec2Isabelle
  imports Flatten Cron Scheduler Columns TimeWindow Runner Routes CreateForm SchedulesTable System
begin

text \<open>
  \<^bold>\<open>A verification development for the scheduled-reports Kibana plugin.\<close>

  The program (\<open>src/\<close>) lets a user schedule a saved visualization as a recurring
  e-mail report. Its parts and how they interact:
  \<^item> \<open>server/routes/index.ts\<close>: the HTTP handlers. \<open>create\<close> derives a cron
    expression (\<open>generateCronExpression\<close>), stores the report document in the
    tenant's index and registers a \<open>node-schedule\<close> job named by the report id whose
    callback is \<open>start(report, client)\<close>; \<open>delete\<close> cancels the job and deletes the
    document; \<open>get_schedules\<close> lists the documents.
  \<^item> \<open>server/utils/index.ts\<close>: \<open>start\<close> runs one report: it rewrites the time
    range of the stored query, runs it, flattens the aggregation tree of the response
    into rows (\<open>getData\<close>), writes a spreadsheet (\<open>createExcel\<close> with the columns of
    \<open>getColumns\<close>) and mails it (\<open>getMailContent\<close>), deleting the file once sent.
  \<^item> \<open>server/models/report.ts\<close>: the report record; \<open>server/plugin.ts\<close>: the plugin
    whose constructor loads node-schedule and whose \<open>setup\<close> registers the routes;
    \<open>public/\<close>: the React UI that posts the create and delete requests.

  \<^bold>\<open>Theories.\<close>
  \<^item> \<open>Prelude\<close>: evaluation-rule collections, JavaScript's decimal rendering of
    numbers and its inverse with their round trip, and \<open>exc_fold\<close>, a loop over a
    mutated state that may throw, the thrown exception carrying the state reached.
  \<^item> \<open>Json\<close>: JSON values and the JavaScript semantics the source relies on
    (truthiness, property access with its \<open>TypeError\<close>s, \<open>for-in\<close> enumeration order).
  \<^item> \<open>Flatten\<close>: \<open>getData\<close> (utils 46--84) as the function \<open>Flatten.getData\<close>
    with its loop bodies \<open>visit_bucket\<close>, \<open>sub_agg\<close>, \<open>metric_cells\<close>; total, by
    a measure on the JSON value.

  \<^item> \<open>Cron\<close>: \<open>generateCronExpression\<close> (utils 6--21), the cron fields
    node-schedule reads from its result and the firing times of each unit; the day
    unit ignoring the amount and the fallback of an unknown unit to the month rule.
  \<^item> \<open>Scheduler\<close>: the job table of node-schedule, the report index and the
    \<open>create\<close>, \<open>delete\<close> and \<open>get_schedules\<close> handlers (routes) as functions on a
    record \<open>sched\<close>; the status codes of the handlers as 32-bit words; an inductive
    \<open>reachable\<close> relation with the invariant \<open>sched_inv\<close> (every registered job
    has a number of its own; every live timer is the registered job of its name,
    belongs to a stored report and fires its cron) proved by rule induction.
    node-schedule's own code is modelled from its source as far as the handlers
    reach it: every \<open>scheduleJob\<close> call creates a numbered job and
    \<open>Job.prototype.schedule\<close> registers it in \<open>scheduledJobs\<close> whether or not the
    rule parsed, so an unparsable rule leaves an inert job without a timer;
    \<open>cancel\<close> removes a job and its timer.
  \<^item> \<open>Columns\<close>: \<open>getColumns\<close> (utils 139--148) and \<open>createExcel\<close> (utils 86--137):
    the column ordering, the rendering of a data row against the columns of the first
    row, the two summary rows; rows of equal shape, and the \<open>TypeError\<close> of a row
    longer than the first.
  \<^item> \<open>TimeWindow\<close>: the rewrite of the range filter in \<open>start\<close> (utils 153--184)
    with the ECMAScript \<open>Date\<close> operations it uses: \<open>Day\<close>, \<open>MakeDay\<close>,
    \<open>MakeTime\<close>, \<open>MakeDate\<close>, \<open>TimeClip\<close>, the year/month/day decomposition (searches
    with measure termination proofs) and \<open>setHours\<close>, \<open>setDate\<close>, \<open>setMonth\<close>,
    \<open>toISOString\<close>; the round trip of \<open>MakeDay\<close> with the decomposition (a
    lemma the window theorems rest on); the window bounds; the month overflow of
    \<open>setMonth\<close> when the date does not exist in the target month; the path update of
    the query (\<open>js_set_path\<close>) and the \<open>TypeError\<close> when no range filter exists.
  \<^item> \<open>Runner\<close>: \<open>start\<close> (utils 150--255) and \<open>getMailContent\<close> (utils 23--44).
    \<open>start\<close> is one function over its collaborators: \<open>JSON.parse\<close> of the stored
    strings and the search request are parameters (\<open>parse\<close>, \<open>search\<close>), so the
    lemmas hold for every implementation of them; the uuid and the current time are
    arguments. The result is a record \<open>run\<close> of the effects of one run: the query sent,
    the export requested, the mail queued, the exception caught. What happens after
    \<open>start\<close> returns (the export it does not await, the mail send and the unlink in its
    callback) is the inductive relation \<open>after_step\<close> on a record \<open>world\<close>, started
    by \<open>after_run\<close> from the result of \<open>start\<close>; a failed mail records why it
    failed (attachment missing, server refusal).
  \<^item> \<open>Routes\<close>: \<open>defineRoutes\<close> (routes 14--209) as the router \<open>route_of\<close> (method
    and path to a handler, \<open>{id}\<close> one path segment), the schema validation of the
    create body \<open>create_body_of\<close>, and \<open>serve\<close>, which runs the chosen handler of
    \<open>Scheduler\<close> on the state \<open>sched\<close>; what the handlers get from outside (the
    Elasticsearch outcomes, the roles, the uuid, the search hits) is a record \<open>env\<close>.
  \<^item> \<open>CreateForm\<close>: the create page (\<open>public/components/app.tsx\<close>): the React
    state as a record \<open>form\<close>, each handler and the answer of the \<open>fetch\<close> as the
    step function \<open>form_step\<close>, the JSON body it posts, the states reachable by user
    events and answers (\<open>form_reach\<close>, with the number of pending requests), and
    \<open>create_round\<close>, a click served by \<open>serve\<close>.
  \<^item> \<open>SchedulesTable\<close>: the list page (\<open>public/components/SchedulesTable.tsx\<close>):
    the loading of the listing with its delete cells, the grid's state and events
    (\<open>grid_step\<close>), \<open>renderCellValue\<close> (\<open>render_cell\<close>), and \<open>delete_round\<close>, a
    click on a delete button served by \<open>serve\<close>.
  \<^item> \<open>System\<close>: the plugin instance of \<open>server/plugin.ts\<close> (its lifecycle phase and
    scheduler state; the constructor's fresh node-schedule over indices that persist,
    \<open>setup\<close>, \<open>start\<close>, \<open>stop\<close>, requests served while started, sequences of requests
    after a boot), and the theorems that span the pages, the routes, the scheduler and
    \<open>start\<close>.
  The pages and the server meet in \<open>http_request\<close> and \<open>reply\<close>: the pages build
  requests, \<open>serve\<close> answers them, and the pages react to \<open>reply_ok\<close>
  (\<open>response.ok\<close>). The scheduler and the runner meet in the timers: a timer holds the
  report snapshot its callback passes to \<open>start\<close>.

  \<^bold>\<open>What the lemmas show.\<close> C1--C4, C6 and C7 concern \<open>getData\<close>: a
  refinement of the specification's flattening of an aggregation tree, row counts
  and shapes, the exact condition under which it equals the specification (no falsy
  metric) and the partial result on a \<open>TypeError\<close>; \<open>getData\<close> itself is total by
  its termination proof. C5, C8, C11, C13 and C33 concern the cron expressions: the
  firing times of the second and hour units, the gap of a second step that does not
  divide 60, the day unit ignoring the amount, the fallback of an unknown unit.
  C15--C18 and C20--C23 concern the handlers: the scheduler invariant over all
  reachable states, at most one timer per report id, the success and error paths of
  create (an unparsable schedule leaves an inert job) and delete, create followed by
  delete restoring the state, the 32-bit status codes; C9 shows the handlers' tenant
  loop equal to a reference definition (the last non-default role), and C14 carries
  the scheduler invariant to every state the server reaches through HTTP requests.
  C25--C28 concern the spreadsheet; C31, C32, C34 and C35 the time window (the month
  window when the date exists, the overflow into the next month when it does not,
  the rewrite of the query and its \<open>TypeError\<close>); C37--C40 the pipeline of
  \<open>start\<close>: the refinement of the whole run on well-formed responses, the mail sent
  after a failed export, no mail without a search answer, and, for every run that
  reaches the export, an interleaving in which the mail reads the attachment before
  it is written and the file is left behind. The UI and the server together: C10 (a
  double click sends one create request), C12 (a page opened without a visualization
  gets a generic error), C19 (a cleared duration gives a report that is stored,
  announced as created and never run), C30 (the delete URL the table builds from its
  own literal and the router's reading of it are inverse), C36 (a delete button
  removes its row's report and job). The whole plugin: C29 (the receiver typed in the
  form is the one the scheduled run mails) and C24 (after a restart a stored report
  is never run again and cannot be deleted).

  \<^bold>\<open>Modelling choices.\<close> Local time is taken to be UTC, so \<open>LocalTime\<close> and
  \<open>UTC\<close> are identities and daylight-saving transitions are not modelled. Times are
  unbounded integers with \<open>TimeClip\<close> giving NaN (\<open>None\<close>) beyond
  \<open>8.64e15\<close>; numbers of the JSON model are integers, since the fields the code reads
  (bucket counts, metric values, epoch milliseconds) are. No loop needs fuel: each
  recursion is structural or has a measure. \<open>JSON.parse\<close> and \<open>JSON.stringify\<close> are
  interfaces: the server's parse of a body the UI stringifies gives back the value.
  Path parameters are taken without percent-decoding (ids are uuids).

  \<^bold>\<open>Not modelled.\<close> The JSX layout of the pages (it renders the modelled state),
  the sorting and paging inside \<open>EuiDataGrid\<close>, \<open>public/index.ts\<close> (it only returns
  the client plugin object), the logger calls of the server plugin, the xlsx byte
  format written by exceljs (the model stops at the sheet's cells), SMTP, and the file
  system beyond the existence of the export. Nothing more of the program is left to
  model faithfully: what remains is rendering, logging and library internals.
\<close>

end
